theory Spec2Isabelle
  imports Complex_Main "HOL-Library.Multiset" "HOL-Library.Sublist" "HOL-Library.Extended_Nat"
begin

chapter \<open>The program\<close>

section \<open>Strings\<close>

text \<open>
  A JavaScript string is a sequence of UTF-16 code units. The model uses HOL strings, whose
  characters are the code units below 256 (ASCII and Latin-1); on such texts \<open>length\<close>,
  case folding and the whitespace class agree with JavaScript.
\<close>

definition isSpace :: "char \<Rightarrow> bool" where
  \<comment> \<open>the regular-expression class \<open>\s\<close> and the characters \<open>trim\<close> strips\<close>
  "isSpace c \<longleftrightarrow> c \<in> set [CHR 0x09, CHR 0x0A, CHR 0x0B, CHR 0x0C, CHR 0x0D, CHR 0x20, CHR 0xA0]"

definition lowerChar :: "char \<Rightarrow> char" where
  "lowerChar c =
     (let n = (of_char c :: nat)
      in if (65 \<le> n \<and> n \<le> 90) \<or> (192 \<le> n \<and> n \<le> 222 \<and> n \<noteq> 215)
         then char_of (n + 32) else c)"

definition toLowerCase :: "string \<Rightarrow> string" where
  "toLowerCase s = map lowerChar s"

fun js_includes :: "string \<Rightarrow> string \<Rightarrow> bool" where
  \<comment> \<open>\<open>s.includes(t)\<close>\<close>
  "js_includes [] t = (t = [])"
| "js_includes (c # cs) t = (prefix t (c # cs) \<or> js_includes cs t)"

function split_from :: "string \<Rightarrow> string \<Rightarrow> string list" where
  \<comment> \<open>the tokens of \<open>split(/\s+/)\<close>; the first argument is the token being read, reversed\<close>
  "split_from acc [] = [rev acc]"
| "split_from acc (c # cs) =
     (if isSpace c then rev acc # split_from [] (dropWhile isSpace cs)
      else split_from (c # acc) cs)"
  by pat_completeness auto
termination
  by (relation "measure (\<lambda>(acc, s). length s)")
     (auto simp: le_imp_less_Suc length_dropWhile_le)

definition split_ws :: "string \<Rightarrow> string list" where
  \<comment> \<open>\<open>s.split(/\s+/)\<close>: an empty string gives one empty token, a leading or trailing
      run of whitespace an empty first or last token\<close>
  "split_ws s = split_from [] s"

section \<open>Retrieval engine (services/vectorDB.js)\<close>

definition calculateRelevanceScore :: "string \<Rightarrow> string list \<Rightarrow> nat" where
  "calculateRelevanceScore chunk queryWords =
     (let chunkWords = split_ws (toLowerCase chunk);
          score = foldl (\<lambda>score queryWord.
                    foldl (\<lambda>score chunkWord.
                      if js_includes chunkWord queryWord \<or> js_includes queryWord chunkWord
                      then score + (if length queryWord > 3 then 2 else 1) else score)
                      score chunkWords)
                    0 queryWords
      in if list_ex (\<lambda>word. js_includes (toLowerCase chunk) word) queryWords
         then score + 3 else score)"

definition queryWordsOf :: "string \<Rightarrow> string list" where
  \<comment> \<open>\<open>query.toLowerCase().split(/\s+/)\<close>, as \<open>findRelevantChunks\<close> computes it\<close>
  "queryWordsOf query = split_ws (toLowerCase query)"

definition chunkScore :: "string \<Rightarrow> string \<Rightarrow> nat" where
  \<comment> \<open>the score \<open>findRelevantChunks\<close> gives a chunk for a query\<close>
  "chunkScore query chunk = calculateRelevanceScore chunk (queryWordsOf query)"

definition wordWeight :: "string \<Rightarrow> string \<Rightarrow> nat" where
  \<comment> \<open>the points of one (queryToken, chunkToken) pair: 2 or 1 when one token contains the
      other, by the length of the query token, and 0 otherwise\<close>
  "wordWeight queryWord chunkWord =
     (if js_includes chunkWord queryWord \<or> js_includes queryWord chunkWord
      then (if length queryWord > 3 then 2 else 1) else 0)"

definition pairPoints :: "string \<Rightarrow> string \<Rightarrow> nat" where
  \<comment> \<open>the sum over all pairs of case-folded whitespace-split tokens\<close>
  "pairPoints chunk query =
     (\<Sum>queryWord \<leftarrow> queryWordsOf query.
        \<Sum>chunkWord \<leftarrow> split_ws (toLowerCase chunk). wordWeight queryWord chunkWord)"


fun insert_by :: "('a \<Rightarrow> 'a \<Rightarrow> int) \<Rightarrow> 'a \<Rightarrow> 'a list \<Rightarrow> 'a list" where
  "insert_by cmp x [] = [x]"
| "insert_by cmp x (y # ys) =
     (if cmp x y \<le> 0 then x # y # ys else y # insert_by cmp x ys)"

definition js_sort :: "('a \<Rightarrow> 'a \<Rightarrow> int) \<Rightarrow> 'a list \<Rightarrow> 'a list" where
  \<comment> \<open>\<open>Array.prototype.sort\<close> with a comparator: \<open>a\<close> comes before \<open>b\<close> when
      \<open>cmp a b < 0\<close>, and elements that compare equal keep their order (the sort is
      stable since ECMAScript 2019). Each element is inserted in front of the sorted rest.\<close>
  "js_sort cmp xs = foldr (insert_by cmp) xs []"

definition findRelevantChunks :: "string list \<Rightarrow> string \<Rightarrow> string list" where
  "findRelevantChunks chunks query =
     (let queryWords = split_ws (toLowerCase query);
          scoredChunks =
            js_sort (\<lambda>a b. int (snd b) - int (snd a))
              (filter (\<lambda>item. snd item > 0)
                (map (\<lambda>chunk. (chunk, calculateRelevanceScore chunk queryWords)) chunks))
      in map fst (take 3 scoredChunks))"

record document =
  doc_id :: string
  doc_content :: string
  doc_category :: string
  doc_chunks :: "string list"
  doc_keywords :: "string list"

record search_result =
  sr_id :: string
  sr_category :: string
  relevantChunks :: "string list"
  totalRelevance :: nat

datatype jsnumber = NaN | Finite int

fun slice_to :: "'a list \<Rightarrow> jsnumber \<Rightarrow> 'a list" where
  \<comment> \<open>\<open>xs.slice(0, end)\<close>: \<open>NaN\<close> counts as 0, a negative end counts from the back\<close>
  "slice_to xs NaN = []"
| "slice_to xs (Finite n) =
     (if n < 0 then take (nat (max (int (length xs) + n) 0)) xs
      else take (nat (min n (int (length xs)))) xs)"

definition searchDocuments :: "document list \<Rightarrow> string \<Rightarrow> jsnumber \<Rightarrow> search_result list" where
  "searchDocuments documents query limit =
     slice_to
       (js_sort (\<lambda>a b. int (totalRelevance b) - int (totalRelevance a))
         (filter (\<lambda>result. totalRelevance result > 0)
           (map (\<lambda>doc. \<lparr> sr_id = doc_id doc, sr_category = doc_category doc,
                          relevantChunks = findRelevantChunks (doc_chunks doc) query,
                          totalRelevance = length (findRelevantChunks (doc_chunks doc) query) \<rparr>)
             documents)))
       limit"

datatype 'a response = Json 'a | Failure nat string
  \<comment> \<open>a handler's answer: the JSON body, or a status code with its \<open>error\<close> text\<close>

definition vectordb_search ::
  "document list \<Rightarrow> (string \<Rightarrow> jsnumber) \<Rightarrow> string option \<Rightarrow> string option
     \<Rightarrow> search_result list response" where
  \<comment> \<open>\<open>GET /vectordb/search\<close>; \<open>q\<close> and \<open>limit\<close> are the request's query parameters,
      \<open>None\<close> when absent. \<open>parseInt\<close> is the built-in, taken as a parameter; the default
      limit is the number 3, which it leaves unchanged.\<close>
  "vectordb_search documents parseInt q limit =
     (case q of
        None \<Rightarrow> Failure 400 ''Query parameter \"q\" is required''
      | Some query \<Rightarrow>
          if query = [] then Failure 400 ''Query parameter \"q\" is required''
          else Json (searchDocuments documents query
                       (case limit of None \<Rightarrow> Finite 3 | Some l \<Rightarrow> parseInt l)))"

section \<open>More string operations\<close>

definition trim :: "string \<Rightarrow> string" where
  "trim s = rev (dropWhile isSpace (rev (dropWhile isSpace s)))"

fun split_on_from :: "char \<Rightarrow> string \<Rightarrow> string \<Rightarrow> string list" where
  "split_on_from sep acc [] = [rev acc]"
| "split_on_from sep acc (c # cs) =
     (if c = sep then rev acc # split_on_from sep [] cs else split_on_from sep (c # acc) cs)"

definition split_on :: "char \<Rightarrow> string \<Rightarrow> string list" where
  \<comment> \<open>\<open>s.split(sep)\<close> for a one-character separator\<close>
  "split_on sep s = split_on_from sep [] s"

fun js_join :: "string \<Rightarrow> string list \<Rightarrow> string" where
  \<comment> \<open>\<open>xs.join(sep)\<close>\<close>
  "js_join sep [] = []"
| "js_join sep [x] = x"
| "js_join sep (x # y # ys) = x @ sep @ js_join sep (y # ys)"

definition startsWith :: "string \<Rightarrow> string \<Rightarrow> bool" where
  "startsWith s t = prefix t s"

fun findIndex :: "('a \<Rightarrow> bool) \<Rightarrow> 'a list \<Rightarrow> nat option" where
  \<comment> \<open>\<open>None\<close> stands for the result -1\<close>
  "findIndex P [] = None"
| "findIndex P (x # xs) =
     (if P x then Some 0 else map_option Suc (findIndex P xs))"

function decimal :: "nat \<Rightarrow> string" where
  \<comment> \<open>the decimal digits of a natural number, as a template literal prints it\<close>
  "decimal n = (if n < 10 then [char_of (48 + n)] else decimal (n div 10) @ [char_of (48 + n mod 10)])"
  by pat_completeness auto
termination
  by (relation "measure id") auto

definition newline :: string where
  "newline = [CHR 0x0A]"

section \<open>Document store and context builders (services/vectorDB.js)\<close>

definition getJobRequirements :: "document list \<Rightarrow> string option \<Rightarrow> string + string" where
  \<comment> \<open>\<open>Inl\<close> is the message of the error thrown; \<open>None\<close> is the default \<open>query = null\<close>\<close>
  "getJobRequirements documents query =
     (case find (\<lambda>doc. doc_id doc = ''job-requirements'') documents of
        None \<Rightarrow> Inl ''Job requirements not loaded''
      | Some jobDoc \<Rightarrow>
          (case query of
             None \<Rightarrow> Inr (doc_content jobDoc)
           | Some q \<Rightarrow>
               if q = [] then Inr (doc_content jobDoc)
               else Inr (js_join (newline @ newline) (findRelevantChunks (doc_chunks jobDoc) q))))"

definition getScoringRubric :: "document list \<Rightarrow> string option \<Rightarrow> string + string" where
  "getScoringRubric documents evaluationType =
     (case find (\<lambda>doc. doc_id doc = ''scoring-rubric'') documents of
        None \<Rightarrow> Inl ''Scoring rubric not loaded''
      | Some rubricDoc \<Rightarrow>
          (case evaluationType of
             None \<Rightarrow> Inr (doc_content rubricDoc)
           | Some t \<Rightarrow>
               if t = [] then Inr (doc_content rubricDoc)
               else Inr (js_join (newline @ newline)
                           (findRelevantChunks (doc_chunks rubricDoc) t))))"

fun bulletLoop :: "string list \<Rightarrow> string list \<Rightarrow> string list" where
  \<comment> \<open>the \<open>for\<close> loop of \<open>extractBulletPoints\<close> over the lines after the section header.
      The source also accepts a line that starts with the bullet sign U+2022, a code unit
      outside the texts of this model.\<close>
  "bulletLoop [] bulletPoints = bulletPoints"
| "bulletLoop (l # ls) bulletPoints =
     (let line = trim l
      in if startsWith line ''-'' then bulletLoop ls (bulletPoints @ [trim (drop 1 line)])
         else if line \<noteq> [] \<and> \<not> startsWith line '' '' \<and> length bulletPoints > 0
              then bulletPoints
              else bulletLoop ls bulletPoints)"

definition extractBulletPoints :: "string \<Rightarrow> string \<Rightarrow> string list" where
  "extractBulletPoints text sectionName =
     (let lines = split_on (CHR 0x0A) text
      in case findIndex (\<lambda>line. js_includes line sectionName) lines of
           None \<Rightarrow> []
         | Some sectionStart \<Rightarrow> bulletLoop (drop (sectionStart + 1) lines) [])"

record job_context =
  jc_skills :: "string list"
  jc_experience :: "string list"
  jc_summary :: string

definition extractJobContext :: "string \<Rightarrow> job_context" where
  "extractJobContext requirements =
     \<lparr> jc_skills = extractBulletPoints requirements ''Required Technical Skills'',
       jc_experience = extractBulletPoints requirements ''Experience Requirements'',
       jc_summary = ''Backend engineer role focusing on AI-powered systems, LLM integration, and scalable architecture'' \<rparr>"

definition extractTechnicalRequirements :: "string \<Rightarrow> string list" where
  "extractTechnicalRequirements requirements =
     extractBulletPoints requirements ''Core Responsibilities''"

definition getContextForCVEvaluation :: "document list \<Rightarrow> string + job_context" where
  \<comment> \<open>the \<open>jobContext\<close> of the source's result; its \<open>evaluationGuidelines\<close>, which no
      scoring reads, are left out, the call that fetches their rubric is not\<close>
  "getContextForCVEvaluation documents =
     (case getJobRequirements documents
             (Some ''technical skills experience backend requirements'') of
        Inl e \<Rightarrow> Inl e
      | Inr jobRequirements \<Rightarrow>
          (case getScoringRubric documents
                  (Some ''CV evaluation technical skills experience'') of
             Inl e \<Rightarrow> Inl e
           | Inr cvRubric \<Rightarrow> Inr (extractJobContext jobRequirements)))"

definition getContextForProjectEvaluation :: "document list \<Rightarrow> string + string list" where
  \<comment> \<open>the \<open>technicalRequirements\<close> of the source's result; its \<open>scoringCriteria\<close> feed
      only the list of matched criteria\<close>
  "getContextForProjectEvaluation documents =
     (case getScoringRubric documents
             (Some ''project evaluation correctness code quality resilience'') of
        Inl e \<Rightarrow> Inl e
      | Inr projectRubric \<Rightarrow>
          (case getJobRequirements documents
                  (Some ''LLM chaining RAG implementation error handling'') of
             Inl e \<Rightarrow> Inl e
           | Inr technicalReqs \<Rightarrow> Inr (extractTechnicalRequirements technicalReqs)))"

section \<open>Numbers\<close>

text \<open>
  A JavaScript number is an IEEE 754 binary64 value. The finite ones are rationals, and an
  arithmetic operation returns the exact result rounded to the nearest binary64 value, ties
  to the even significand. \<open>rd\<close> is that rounding for the normal range (magnitudes from
  \<open>2 powi -1022\<close> up to the largest finite value), which holds every number the scoring
  computes. Integers of small magnitude and their halves are exact, so the scoring
  functions that stay within them are written with \<open>int\<close> and exact rationals.
\<close>

fun bitlength :: "nat \<Rightarrow> nat" where
  "bitlength n = (if n = 0 then 0 else Suc (bitlength (n div 2)))"

definition ilog2 :: "rat \<Rightarrow> int" where
  \<comment> \<open>the exponent of a positive rational: \<open>2 powi ilog2 x \<le> x < 2 powi (ilog2 x + 1)\<close>\<close>
  "ilog2 x =
     (let (p, q) = quotient_of x;
          k = int (bitlength (nat p)) - int (bitlength (nat q))
      in if 2 powi k \<le> x then k else k - 1)"

definition round_even :: "rat \<Rightarrow> int" where
  "round_even m =
     (let f = \<lfloor>m\<rfloor>; d = m - of_int f
      in if d < 1 / 2 then f else if 1 / 2 < d then f + 1 else if even f then f else f + 1)"

definition rd_pos :: "rat \<Rightarrow> rat" where
  \<comment> \<open>a significand of 53 bits\<close>
  "rd_pos x = (let e = ilog2 x - 52 in of_int (round_even (x / 2 powi e)) * 2 powi e)"

definition rd :: "rat \<Rightarrow> rat" where
  "rd x = (if x = 0 then 0 else if x < 0 then - rd_pos (- x) else rd_pos x)"

definition rd_unit :: rat where
  \<comment> \<open>a bound on the error of one rounding of a number below 128\<close>
  "rd_unit = 1 / 2 ^ 47"

definition fadd :: "rat \<Rightarrow> rat \<Rightarrow> rat" where
  "fadd a b = rd (a + b)"

definition fmul :: "rat \<Rightarrow> rat \<Rightarrow> rat" where
  "fmul a b = rd (a * b)"

definition fdiv :: "rat \<Rightarrow> rat \<Rightarrow> rat" where
  "fdiv a b = rd (a / b)"

definition Math_round :: "rat \<Rightarrow> int" where
  \<comment> \<open>\<open>Math.round\<close>: the nearest integer, a tie going up; exact\<close>
  "Math_round x = \<lfloor>x + 1 / 2\<rfloor>"

definition showInt :: "int \<Rightarrow> string" where
  "showInt i = (if i < 0 then ''-'' @ decimal (nat (- i)) else decimal (nat i))"

section \<open>Scoring service (services/aiService.js)\<close>

record cv_project =
  proj_name :: string
  proj_description :: string
  proj_technologies :: "string list option"

record cv_structured =
  cv_skills :: "string list"
  cv_experience_years :: enat
  cv_projects :: "cv_project list"
  cv_achievements :: "string list"
  cv_education :: string
  cv_communication_indicators :: "string list"

definition extractSkills :: "string \<Rightarrow> string list" where
  "extractSkills text =
     (let skillKeywords =
            [''node.js'', ''nodejs'', ''javascript'', ''python'', ''java'', ''express'', ''react'',
             ''postgresql'', ''mysql'', ''mongodb'', ''redis'', ''aws'', ''docker'', ''kubernetes'',
             ''rest'', ''api'', ''graphql'', ''microservices'', ''ai'', ''llm'', ''machine learning''];
          foundSkills = filter (\<lambda>skill. js_includes (toLowerCase text) skill) skillKeywords
      in if length foundSkills > 0 then foundSkills else [''General programming''])"

definition isDigit :: "char \<Rightarrow> bool" where
  "isDigit c \<longleftrightarrow> 48 \<le> (of_char c :: nat) \<and> (of_char c :: nat) \<le> 57"

definition parseDigits :: "string \<Rightarrow> nat" where
  \<comment> \<open>the integer that a string of decimal digits writes\<close>
  "parseDigits ds = foldl (\<lambda>n c. 10 * n + (of_char c - 48)) 0 ds"

definition parseInt_digits :: "string \<Rightarrow> enat" where
  \<comment> \<open>\<open>parseInt\<close> of a string of decimal digits: the binary64 value of the integer it
      writes. Integers up to \<open>2 ^ 53\<close> are exact, larger ones are rounded, and from
      \<open>2 ^ 1024 - 2 ^ 970\<close> on the result is \<open>Infinity\<close>, written \<open>\<infinity>\<close>.\<close>
  "parseInt_digits ds =
     (let n = parseDigits ds
      in if int n \<le> 2 ^ 53 then enat n
         else if rat_of_nat n < 2 ^ 1024 - 2 ^ 970 then enat (nat \<lfloor>rd (of_nat n)\<rfloor>)
         else \<infinity>)"

function yearMatches :: "string \<Rightarrow> enat list" where
  \<comment> \<open>The numbers in the matches of \<open>/(\d+)\s*(?:years?|yrs?)/gi\<close>, left to right, each
      read by \<open>parseInt\<close>. A match is a maximal run of digits, any whitespace, then
      \<open>year\<close> or \<open>yr\<close> in either case; a run of digits that is not followed so matches
      at none of its positions.\<close>
  "yearMatches [] = []"
| "yearMatches (c # cs) =
     (if isDigit c
      then (let digits = takeWhile isDigit (c # cs);
                rest = dropWhile isSpace (dropWhile isDigit cs)
            in if startsWith (toLowerCase rest) ''year'' \<or> startsWith (toLowerCase rest) ''yr''
               then parseInt_digits digits # yearMatches rest
               else yearMatches (dropWhile isDigit cs))
      else yearMatches cs)"
  by pat_completeness auto
termination
  by (relation "measure length")
     (auto simp: less_Suc_eq_le
           intro: length_dropWhile_le order_trans [OF length_dropWhile_le length_dropWhile_le])

definition Math_max_spread :: "nat \<Rightarrow> enat list \<Rightarrow> string + enat" where
  \<comment> \<open>\<open>Math.max(...years)\<close> for a list that is not empty. The call spreads the elements
      as its arguments, and the engine throws a \<open>RangeError\<close> when they are more than its
      stack takes; the first argument is that number, \<open>Inl\<close> the message of the error.\<close>
  "Math_max_spread maxArguments years =
     (if length years > maxArguments then Inl ''Maximum call stack size exceeded''
      else Inr (foldl max (hd years) (tl years)))"

definition extractExperience :: "nat \<Rightarrow> string \<Rightarrow> string + enat" where
  "extractExperience maxArguments text =
     (case yearMatches text of
        y # ys \<Rightarrow> Math_max_spread maxArguments (y # ys)
      | [] \<Rightarrow> Inr (if length text > 200 then 3 else if length text > 100 then 2 else 1))"

definition extractProjects :: "string \<Rightarrow> cv_project list" where
  "extractProjects text =
     (let projectKeywords = [''project'', ''built'', ''developed'', ''created'', ''implemented''];
          hasProjects = list_ex (\<lambda>keyword. js_includes (toLowerCase text) keyword) projectKeywords
      in if hasProjects
         then [\<lparr> proj_name = ''Mentioned Project'',
                  proj_description = ''Project experience indicated'',
                  proj_technologies = None \<rparr>]
         else [])"

definition extractAchievements :: "string \<Rightarrow> string list" where
  "extractAchievements text =
     (let achievementKeywords =
            [''improved'', ''increased'', ''reduced'', ''led'', ''managed'', ''optimized'']
      in map (\<lambda>keyword. keyword @ '' performance/systems'')
           (filter (\<lambda>keyword. js_includes (toLowerCase text) keyword) achievementKeywords))"

definition extractEducation :: "string \<Rightarrow> string" where
  "extractEducation text =
     (let educationKeywords =
            [''degree'', ''university'', ''college'', ''bachelor'', ''master'', ''computer science''];
          hasEducation = list_ex (\<lambda>keyword. js_includes (toLowerCase text) keyword) educationKeywords
      in if hasEducation then ''Formal technical education''
         else ''Self-taught/practical experience'')"

definition extractCommunication :: "string \<Rightarrow> string list" where
  "extractCommunication text =
     (let commKeywords =
            [''team'', ''collaboration'', ''communication'', ''presentation'', ''documentation'']
      in map (\<lambda>keyword. keyword @ '' skills'')
           (filter (\<lambda>keyword. js_includes (toLowerCase text) keyword) commKeywords))"

definition extractCVInfo :: "nat \<Rightarrow> string \<Rightarrow> string + cv_structured" where
  \<comment> \<open>the first argument is the number of arguments the engine's stack takes\<close>
  "extractCVInfo maxArguments cvText =
     (let skills = extractSkills cvText
      in case extractExperience maxArguments cvText of
           Inl message \<Rightarrow> Inl message
         | Inr experience \<Rightarrow>
             (let projects = extractProjects cvText
              in Inr \<lparr> cv_skills = skills, cv_experience_years = experience,
                       cv_projects = projects,
                       cv_achievements = extractAchievements cvText,
                       cv_education = extractEducation cvText,
                       cv_communication_indicators = extractCommunication cvText \<rparr>))"

definition scoreExperience :: "enat \<Rightarrow> int" where
  "scoreExperience years =
     (if years \<ge> 5 then 5 else if years \<ge> 3 then 4 else if years \<ge> 2 then 3
      else if years \<ge> 1 then 2 else 1)"

definition scoreAchievements :: "string list \<Rightarrow> int" where
  "scoreAchievements achievements =
     (if length achievements \<ge> 3 then 5 else if length achievements \<ge> 2 then 4
      else if length achievements \<ge> 1 then 3 else 2)"

definition scoreCulturalFit :: "string list \<Rightarrow> int" where
  "scoreCulturalFit communication =
     (if length communication \<ge> 3 then 5 else if length communication \<ge> 2 then 4
      else if length communication \<ge> 1 then 3 else 2)"

definition scoreCodeQuality :: "string \<Rightarrow> int" where
  "scoreCodeQuality projectText =
     (let qualityKeywords = [''express'', ''node.js'', ''structured'', ''modular'', ''test''];
          matches = filter (\<lambda>keyword. js_includes (toLowerCase projectText) keyword) qualityKeywords
      in min 5 (max 2 (int (length matches) + 1)))"

definition scoreDocumentation :: "string \<Rightarrow> int" where
  "scoreDocumentation projectText =
     (let docKeywords = [''readme'', ''documentation'', ''instructions'', ''setup''];
          matches = filter (\<lambda>keyword. js_includes (toLowerCase projectText) keyword) docKeywords
      in min 5 (max 2 (int (length matches) + 2)))"

definition scoreCreativity :: "string \<Rightarrow> int" where
  "scoreCreativity projectText = min 5 (max 1 (int (length projectText div 100) + 1))"

definition scoreTechnicalSkillsWithRAG :: "string list \<Rightarrow> string list \<Rightarrow> int" where
  "scoreTechnicalSkillsWithRAG skills jobRequirements =
     (let requiredSkills = toLowerCase (js_join '' '' jobRequirements);
          backendMatch = length (filter (\<lambda>skill.
              list_ex (\<lambda>backend. js_includes (toLowerCase skill) backend
                                  \<and> js_includes requiredSkills backend)
                [''node.js'', ''nodejs'', ''express'', ''postgresql'', ''mongodb'', ''api'',
                 ''javascript'', ''python'']) skills);
          aiMatch = length (filter (\<lambda>skill.
              list_ex (\<lambda>ai. js_includes (toLowerCase skill) ai \<and> js_includes requiredSkills ai)
                [''ai'', ''llm'', ''machine learning'', ''vector'', ''embeddings'']) skills);
          cloudMatch = length (filter (\<lambda>skill.
              list_ex (\<lambda>cloud. js_includes (toLowerCase skill) cloud
                                \<and> js_includes requiredSkills cloud)
                [''aws'', ''azure'', ''gcp'', ''docker'', ''kubernetes'']) skills)
      in if backendMatch \<ge> 3 \<and> aiMatch \<ge> 1 \<and> cloudMatch \<ge> 1 then 5
         else if backendMatch \<ge> 2 \<and> aiMatch \<ge> 1 then 4
         else if backendMatch \<ge> 2 then 3
         else if backendMatch \<ge> 1 then 2
         else 1)"

definition scoreExperienceWithRAG :: "enat \<Rightarrow> string list \<Rightarrow> int" where
  "scoreExperienceWithRAG years experienceRequirements =
     (let reqText = toLowerCase (js_join '' '' experienceRequirements);
          hasDistributed = (js_includes reqText ''distributed'' \<or> js_includes reqText ''microservices'');
          hasAI = (js_includes reqText ''ai'' \<or> js_includes reqText ''llm'');
          baseScore = (of_int (scoreExperience years) :: rat);
          baseScore = (if years \<ge> 2 \<and> hasDistributed then min 5 (baseScore + 1) else baseScore);
          baseScore = (if years \<ge> 1 \<and> hasAI then min 5 (baseScore + 1 / 2) else baseScore)
      in Math_round baseScore)"

definition scoreCorrectnessWithRAG :: "string \<Rightarrow> string list \<Rightarrow> int" where
  "scoreCorrectnessWithRAG projectText technicalRequirements =
     (let reqText = toLowerCase (js_join '' '' technicalRequirements);
          projectLower = toLowerCase projectText;
          score = (1 :: rat);
          score = (if js_includes projectLower ''llm'' \<and> js_includes reqText ''llm''
                   then score + 1 else score);
          score = (if js_includes projectLower ''chain'' \<and> js_includes reqText ''chaining''
                   then score + 1 else score);
          score = (if js_includes projectLower ''rag'' \<and> js_includes reqText ''rag''
                   then score + 1 else score);
          score = (if js_includes projectLower ''vector'' \<and> js_includes reqText ''vector''
                   then score + 1 else score);
          score = (if js_includes projectLower ''error'' \<and> js_includes reqText ''error''
                   then score + 1 / 2 else score)
      in min 5 (Math_round score))"

definition scoreResilienceWithRAG :: "string \<Rightarrow> string list \<Rightarrow> int" where
  "scoreResilienceWithRAG projectText technicalRequirements =
     (let reqText = toLowerCase (js_join '' '' technicalRequirements);
          projectLower = toLowerCase projectText;
          score = (1 :: rat);
          score = (if js_includes projectLower ''retry'' \<and> js_includes reqText ''retry''
                   then score + 1 else score);
          score = (if js_includes projectLower ''timeout'' \<and> js_includes reqText ''timeout''
                   then score + 1 else score);
          score = (if js_includes projectLower ''error handling'' \<and> js_includes reqText ''failure''
                   then score + 1 else score);
          score = (if js_includes projectLower ''resilience'' \<or> js_includes projectLower ''robust''
                   then score + 1 else score);
          score = (if js_includes projectLower ''fallback'' \<or> js_includes projectLower ''recovery''
                   then score + 1 / 2 else score)
      in min 5 (Math_round score))"

record match_result =
  \<comment> \<open>the scores of the four entries of \<open>breakdown\<close>, in the order of its keys, and the
      final score; the reasoning texts and the list of matched requirements are left out\<close>
  mr_technical_skills :: int
  mr_experience_level :: int
  mr_achievements :: int
  mr_cultural_fit :: int
  mr_score :: int

definition evaluateCVMatch ::
  "document list \<Rightarrow> cv_structured \<Rightarrow> string \<Rightarrow> string + match_result" where
  \<comment> \<open>the first argument is the content of the document store that \<open>vectorDB\<close> holds\<close>
  "evaluateCVMatch documents cvStructured jobContext =
     (case getContextForCVEvaluation documents of
        Inl e \<Rightarrow> Inl e
      | Inr ragJobContext \<Rightarrow>
          (let technicalSkills =
                 scoreTechnicalSkillsWithRAG (cv_skills cvStructured) (jc_skills ragJobContext);
               experienceLevel =
                 scoreExperienceWithRAG (cv_experience_years cvStructured)
                   (jc_experience ragJobContext);
               achievements = scoreAchievements (cv_achievements cvStructured);
               culturalFit = scoreCulturalFit (cv_communication_indicators cvStructured);
               weightedScore =
                 fadd (fadd (fadd (fmul (of_int technicalSkills) (rd (4 / 10)))
                                  (fmul (of_int experienceLevel) (rd (25 / 100))))
                            (fmul (of_int achievements) (rd (2 / 10))))
                      (fmul (of_int culturalFit) (rd (15 / 100)))
           in Inr \<lparr> mr_technical_skills = technicalSkills,
                    mr_experience_level = experienceLevel,
                    mr_achievements = achievements,
                    mr_cultural_fit = culturalFit,
                    mr_score = Math_round (fmul weightedScore 20) \<rparr>))"

definition cv_breakdown :: "match_result \<Rightarrow> (string \<times> int) list" where
  \<comment> \<open>\<open>Object.entries(matchResult.breakdown)\<close>, each entry with its score\<close>
  "cv_breakdown m =
     [(''technical_skills'', mr_technical_skills m), (''experience_level'', mr_experience_level m),
      (''achievements'', mr_achievements m), (''cultural_fit'', mr_cultural_fit m)]"

fun replace_underscore :: "string \<Rightarrow> string" where
  \<comment> \<open>\<open>key.replace('_', ' ')\<close>: the first underscore only\<close>
  "replace_underscore [] = []"
| "replace_underscore (c # cs) = (if c = CHR ''_'' then CHR '' '' # cs else c # replace_underscore cs)"

definition identifyStrengths :: "(string \<times> int) list \<Rightarrow> string list" where
  "identifyStrengths breakdown =
     map (\<lambda>(key, value). replace_underscore key) (filter (\<lambda>(key, value). value \<ge> 4) breakdown)"

definition identifyGaps :: "(string \<times> int) list \<Rightarrow> string list" where
  "identifyGaps breakdown =
     map (\<lambda>(key, value). replace_underscore key) (filter (\<lambda>(key, value). value \<le> 2) breakdown)"

definition generateCVFeedback :: "cv_structured \<Rightarrow> string \<Rightarrow> match_result \<Rightarrow> string" where
  "generateCVFeedback cvStructured jobContext matchResult =
     (let strengths = identifyStrengths (cv_breakdown matchResult);
          gaps = identifyGaps (cv_breakdown matchResult)
      in ''Strong '' @ js_join '' and '' strengths @ '' demonstrate good fit for backend role. '' @
         (if length gaps > 0
          then ''Would benefit from developing '' @ js_join '' and '' gaps @
               '' to fully match requirements.''
          else ''Excellent alignment with all key requirements.''))"

record project_result =
  pr_correctness :: int
  pr_code_quality :: int
  pr_resilience :: int
  pr_documentation :: int
  pr_creativity :: int
  pr_overallScore :: rat

definition evaluateProject ::
  "document list \<Rightarrow> string \<Rightarrow> string \<Rightarrow> string + project_result" where
  "evaluateProject documents projectText scoringRubric =
     (case getContextForProjectEvaluation documents of
        Inl e \<Rightarrow> Inl e
      | Inr technicalRequirements \<Rightarrow>
          (let correctness = scoreCorrectnessWithRAG projectText technicalRequirements;
               codeQuality = scoreCodeQuality projectText;
               resilience = scoreResilienceWithRAG projectText technicalRequirements;
               documentation = scoreDocumentation projectText;
               creativity = scoreCreativity projectText;
               overallScore =
                 fadd (fadd (fadd (fadd (fmul (of_int correctness) (rd (3 / 10)))
                                        (fmul (of_int codeQuality) (rd (25 / 100))))
                                  (fmul (of_int resilience) (rd (2 / 10))))
                            (fmul (of_int documentation) (rd (15 / 100))))
                      (fmul (of_int creativity) (rd (1 / 10)))
           in Inr \<lparr> pr_correctness = correctness, pr_code_quality = codeQuality,
                    pr_resilience = resilience, pr_documentation = documentation,
                    pr_creativity = creativity,
                    pr_overallScore = fdiv (of_int (Math_round (fmul overallScore 10))) 10 \<rparr>))"

definition project_breakdown :: "project_result \<Rightarrow> (string \<times> int) list" where
  "project_breakdown p =
     [(''correctness'', pr_correctness p), (''code_quality'', pr_code_quality p),
      (''resilience'', pr_resilience p), (''documentation'', pr_documentation p),
      (''creativity'', pr_creativity p)]"

definition identifyProjectStrengths :: "(string \<times> int) list \<Rightarrow> string list" where
  "identifyProjectStrengths breakdown =
     map (\<lambda>(key, value). replace_underscore key) (filter (\<lambda>(key, value). value \<ge> 4) breakdown)"

definition identifyProjectImprovements :: "(string \<times> int) list \<Rightarrow> string list" where
  "identifyProjectImprovements breakdown =
     map (\<lambda>(key, value). replace_underscore key) (filter (\<lambda>(key, value). value \<le> 3) breakdown)"

definition generateProjectFeedback :: "string \<Rightarrow> string \<Rightarrow> project_result \<Rightarrow> string" where
  "generateProjectFeedback projectText scoringRubric projectScore =
     (let strengths = identifyProjectStrengths (project_breakdown projectScore);
          improvements = identifyProjectImprovements (project_breakdown projectScore)
      in (if length strengths > 0 then ''Demonstrates '' @ js_join '' and '' strengths @ ''. ''
          else '''') @
         (if length improvements > 0
          then ''Could improve '' @ js_join '' and '' improvements @ '' for production readiness.''
          else ''Excellent implementation meeting all requirements.''))"

definition recommendation :: "int \<Rightarrow> rat \<Rightarrow> string" where
  \<comment> \<open>the variable \<open>recommendation\<close> of \<open>generateOverallSummary\<close>\<close>
  "recommendation cvScore projScore =
     (if cvScore \<ge> 80 \<and> projScore \<ge> 4 then ''Strong candidate - highly recommended for hire''
      else if cvScore \<ge> 70 \<and> projScore \<ge> 35 / 10
           then ''Good candidate fit - recommended for final interview''
      else if cvScore \<ge> 60 \<and> projScore \<ge> 3
           then ''Potential candidate - needs technical discussion''
      else ''Requires further development before consideration'')"

definition generateOverallSummary ::
  "(rat \<Rightarrow> string) \<Rightarrow> match_result \<Rightarrow> string \<Rightarrow> project_result \<Rightarrow> string \<Rightarrow> string" where
  \<comment> \<open>the first argument is the built-in conversion of a number to a string, which prints
      the project score\<close>
  "generateOverallSummary numberToString cvMatchRate cvFeedback projectScore projectFeedback =
     (let cvScore = mr_score cvMatchRate;
          projScore = pr_overallScore projectScore
      in ''Overall Assessment: '' @ recommendation cvScore projScore @ ''. CV match of '' @
         showInt cvScore @ ''% shows '' @
         (if cvScore \<ge> 75 then ''strong'' else if cvScore \<ge> 60 then ''good'' else ''moderate'') @
         '' alignment with requirements. Project score of '' @ numberToString projScore @
         ''/5 indicates '' @
         (if projScore \<ge> 4 then ''excellent'' else if projScore \<ge> 35 / 10 then ''solid''
          else ''developing'') @
         '' technical execution.'')"

section \<open>Evaluation jobs (server.js)\<close>

record file_info =
  fi_filename :: string
  fi_originalName :: string
  fi_path :: string
  fi_mimetype :: string
  fi_size :: nat

record upload_data =
  up_id :: string
  up_cv :: file_info
  up_project :: file_info
  up_uploadedAt :: nat
  up_status :: string

definition mockContent :: "file_info \<Rightarrow> string" where
  \<comment> \<open>the template literal \<open>mockContent\<close> of \<open>extractFileContent\<close>, line by line\<close>
  "mockContent fileInfo =
     newline @
     ''    Mock extracted content from '' @ fi_originalName fileInfo @ newline @
     ''    File size: '' @ decimal (fi_size fileInfo) @ '' bytes'' @ newline @
     ''    File type: '' @ fi_mimetype fileInfo @ newline @
     ''    '' @ newline @
     ''    [In production, this would contain the actual extracted text from PDF/DOCX files]'' @ newline @
     ''    This mock demonstrates text extraction functionality for non-text files.'' @ newline @
     ''    ''"

definition extractFileContent_try :: "(string \<Rightarrow> string + string) \<Rightarrow> file_info \<Rightarrow> string + string" where
  \<comment> \<open>the \<open>try\<close> block of \<open>extractFileContent\<close>. The first argument is \<open>fs.readFileSync\<close>
      with the encoding \<open>utf8\<close>: the file's text, or \<open>Inl\<close> the message of the error it throws.\<close>
  "extractFileContent_try readFileSync fileInfo =
     (if fi_mimetype fileInfo = ''text/plain''
      then (case readFileSync (fi_path fileInfo) of
              Inl message \<Rightarrow> Inl message
            | Inr content \<Rightarrow> Inr content)
      else Inr (mockContent fileInfo))"

definition extractFileContent :: "(string \<Rightarrow> string + string) \<Rightarrow> file_info \<Rightarrow> string" where
  "extractFileContent readFileSync fileInfo =
     (case extractFileContent_try readFileSync fileInfo of
        Inr content \<Rightarrow> content
      | Inl message \<Rightarrow>
          ''Unable to extract content from '' @ fi_originalName fileInfo @ '': '' @ message)"

record evaluation_result =
  \<comment> \<open>the scores and texts of the result; its constant lists, the lists of matched
      requirements and criteria and the metadata are left out\<close>
  cv_match_rate :: rat
  cv_feedback :: string
  project_score :: rat
  project_feedback :: string
  overall_summary :: string
  detailed_cv_breakdown :: match_result
  detailed_project_breakdown :: project_result
  ai_cv_structured :: cv_structured

record job =
  job_id :: string
  job_uploadId :: string
  job_status :: string
  job_createdAt :: nat
  job_message :: string
  job_startedAt :: "nat option"
  job_result :: "evaluation_result option"
  job_completedAt :: "nat option"
  job_error :: "string option"
  job_failedAt :: "nat option"

record world =
  \<comment> \<open>what the pipeline reads from outside the job: the document store, the file system,
      the built-in printing of numbers and the number of arguments the engine's stack takes
      in one call\<close>
  w_documents :: "document list"
  w_readFileSync :: "string \<Rightarrow> string + string"
  w_numberToString :: "rat \<Rightarrow> string"
  w_maxArguments :: nat

definition job_failed :: "job \<Rightarrow> string \<Rightarrow> nat \<Rightarrow> job" where
  \<comment> \<open>the \<open>catch\<close> block of \<open>processEvaluation\<close>; the second argument is \<open>error.message\<close>\<close>
  "job_failed job message now =
     job\<lparr> job_status := ''failed'', job_error := Some message,
          job_message := ''AI evaluation failed - please try again'',
          job_failedAt := Some now \<rparr>"

definition job_completed :: "job \<Rightarrow> evaluation_result \<Rightarrow> nat \<Rightarrow> job" where
  \<comment> \<open>the update of \<open>processEvaluation\<close> that stores the result\<close>
  "job_completed job result now =
     job\<lparr> job_status := ''completed'', job_result := Some result,
          job_completedAt := Some now,
          job_message := ''AI evaluation completed successfully'' \<rparr>"

definition processEvaluation :: "world \<Rightarrow> nat \<Rightarrow> nat \<Rightarrow> job \<Rightarrow> upload_data \<Rightarrow> job list" where
  \<comment> \<open>The successive values of the job record, one for each \<open>evaluationJobs.set\<close> of the
      source. The record and the upload are the ones stored under \<open>evaluationId\<close> and
      \<open>uploadId\<close>, which the caller has just written and checked; the two times are the
      clock readings at the start and at the end.\<close>
  "processEvaluation w startTime endTime job uploadData =
     (let job1 = job\<lparr> job_status := ''processing'',
                       job_message := ''Running AI analysis pipeline...'',
                       job_startedAt := Some startTime \<rparr>;
          job2 = job1\<lparr> job_message := ''Extracting text from uploaded files...'' \<rparr>;
          cvText = extractFileContent (w_readFileSync w) (up_cv uploadData);
          projectText = extractFileContent (w_readFileSync w) (up_project uploadData);
          job3 = job2\<lparr> job_message := ''Analyzing CV with AI and retrieving job context...'' \<rparr>
      in case extractCVInfo (w_maxArguments w) cvText of
           Inl message \<Rightarrow> [job1, job2, job3, job_failed job3 message endTime]
         | Inr cvStructured \<Rightarrow>
             (let jobContext = ''Backend developer role requiring Node.js, databases, APIs, and AI/LLM experience''
              in case evaluateCVMatch (w_documents w) cvStructured jobContext of
                   Inl message \<Rightarrow> [job1, job2, job3, job_failed job3 message endTime]
                 | Inr cvMatchRate \<Rightarrow>
                     (let cvFeedback = generateCVFeedback cvStructured jobContext cvMatchRate;
                          job4 = job3\<lparr> job_message :=
                                   ''Evaluating project deliverable with enhanced scoring...'' \<rparr>;
                          scoringRubric = ''Evaluate based on correctness, code quality, resilience, documentation, and creativity''
                      in case evaluateProject (w_documents w) projectText scoringRubric of
                           Inl message \<Rightarrow>
                             [job1, job2, job3, job4, job_failed job4 message endTime]
                         | Inr projectScore \<Rightarrow>
                             (let projectFeedback =
                                    generateProjectFeedback projectText scoringRubric projectScore;
                                  job5 = job4\<lparr> job_message :=
                                           ''Compiling final evaluation results...'' \<rparr>;
                                  overallSummary =
                                    generateOverallSummary (w_numberToString w) cvMatchRate
                                      cvFeedback projectScore projectFeedback;
                                  result =
                                    \<lparr> cv_match_rate = fdiv (of_int (mr_score cvMatchRate)) 100,
                                      cv_feedback = cvFeedback,
                                      project_score = pr_overallScore projectScore,
                                      project_feedback = projectFeedback,
                                      overall_summary = overallSummary,
                                      detailed_cv_breakdown = cvMatchRate,
                                      detailed_project_breakdown = projectScore,
                                      ai_cv_structured = cvStructured \<rparr>;
                                  job6 = job_completed job5 result endTime
                              in [job1, job2, job3, job4, job5, job6]))))"

record server =
  uploadedFiles :: "string \<rightharpoonup> upload_data"
  evaluationJobs :: "string \<rightharpoonup> job"

definition post_evaluate ::
  "world \<Rightarrow> server \<Rightarrow> string option \<Rightarrow> string \<Rightarrow> nat \<Rightarrow> nat \<Rightarrow> nat
     \<Rightarrow> (string \<times> job list) response" where
  \<comment> \<open>\<open>POST /evaluate\<close>. The arguments after the server state are the \<open>uploadId\<close> of the
      request body, the fresh identifier, and the clock readings. The answer is the
      identifier of the new job together with the history of its record: the queued record
      the handler stores, then the values \<open>processEvaluation\<close> gives it.\<close>
  "post_evaluate w st uploadId evaluationId createdTime startTime endTime =
     (case uploadId of
        None \<Rightarrow> Failure 400 ''Invalid upload ID''
      | Some uid \<Rightarrow>
          (case (if uid = [] then None else uploadedFiles st uid) of
             None \<Rightarrow> Failure 400 ''Invalid upload ID''
           | Some uploadData \<Rightarrow>
               (let job = \<lparr> job_id = evaluationId, job_uploadId = uid, job_status = ''queued'',
                             job_createdAt = createdTime,
                             job_message = ''Evaluation queued for processing'',
                             job_startedAt = None, job_result = None, job_completedAt = None,
                             job_error = None, job_failedAt = None \<rparr>
                in Json (evaluationId,
                         job # processEvaluation w startTime endTime job uploadData))))"

definition in_progress :: "job \<Rightarrow> job \<Rightarrow> bool" where
  \<comment> \<open>\<open>j\<close> is the record \<open>job\<close> while it is processed: nothing final is written yet\<close>
  "in_progress job j \<longleftrightarrow>
     job_status j = ''processing'' \<and> job_id j = job_id job \<and>
     job_result j = job_result job \<and> job_error j = job_error job \<and>
     job_completedAt j = job_completedAt job \<and> job_failedAt j = job_failedAt job"

definition status_step :: "job \<Rightarrow> job \<Rightarrow> bool" where
  \<comment> \<open>two successive values of a job record: the status stays \<open>processing\<close>, or makes one
      of the three transitions\<close>
  "status_step a b \<longleftrightarrow>
     (job_status a = ''processing'' \<and> job_status b = ''processing'') \<or>
     (job_status a = ''queued'' \<and> job_status b = ''processing'') \<or>
     (job_status a = ''processing'' \<and> job_status b = ''completed'') \<or>
     (job_status a = ''processing'' \<and> job_status b = ''failed'')"

section \<open>The service with the language-model provider (ProductionAIService)\<close>

text \<open>
  The repository holds a second scoring service, \<open>ProductionAIService\<close>, which sends
  each stage to the provider through \<open>callOpenAI\<close> and falls back to fixed values. The
  provider is outside the program: what its call does on the attempt with a given number is
  a parameter, \<open>Inl\<close> the message of the error the call throws or \<open>Inr\<close> the content of
  the response (empty when the response has none). The waits are returned with the result.
  The built-in functions \<open>JSON.parse\<close> and \<open>JSON.stringify\<close> and the printing of a
  number are parameters as well; the values a stage parses are read at the types of the data
  model.
\<close>

record retry_config =
  maxRetries :: int
  baseDelay :: nat
  maxDelay :: nat

definition retryConfig :: "jsnumber \<Rightarrow> retry_config" where
  \<comment> \<open>the constructor's \<open>retryConfig\<close>; the argument is
      \<open>parseInt(process.env.AI_RETRY_MAX_ATTEMPTS)\<close>, \<open>NaN\<close> when the variable is unset\<close>
  "retryConfig envMaxAttempts =
     \<lparr> maxRetries = (case envMaxAttempts of NaN \<Rightarrow> 3 | Finite n \<Rightarrow> if n = 0 then 3 else n),
       baseDelay = 1000, maxDelay = 10000 \<rparr>"

datatype client = MockResponses | OpenAI "int \<Rightarrow> string + string"
  \<comment> \<open>\<open>useMockResponses\<close>, or the provider's behaviour attempt by attempt\<close>

definition generateMockResponse :: "string \<Rightarrow> string" where
  "generateMockResponse prompt =
     (if js_includes prompt ''Extract structured information''
      then ''{\"skills\":[\"Node.js\",\"Express.js\",\"PostgreSQL\",\"AWS\"],\"experience_years\":3,\"projects\":[{\"name\":\"Backend API\",\"description\":\"REST API development\",\"technologies\":[\"Node.js\",\"Express\"]}],\"achievements\":[\"API optimization\",\"Team leadership\"],\"education\":\"Computer Science\",\"communication_indicators\":[\"Team collaboration\"]}''
      else ''Mock response for development'')"

definition requestContent :: "string + string \<Rightarrow> string + string" where
  \<comment> \<open>the \<open>try\<close> block of \<open>callOpenAI\<close>, given what the provider's call does: a
      response without content is an error as well\<close>
  "requestContent outcome =
     (case outcome of
        Inl message \<Rightarrow> Inl message
      | Inr content \<Rightarrow>
          if content = [] then Inl ''No content received from OpenAI API'' else Inr content)"

definition retryDelay :: "retry_config \<Rightarrow> int \<Rightarrow> rat" where
  \<comment> \<open>the variable \<open>delay\<close> of \<open>callOpenAI\<close>\<close>
  "retryDelay cfg attempt =
     min (of_nat (baseDelay cfg) * 2 powi (attempt - 1)) (of_nat (maxDelay cfg))"

function callOpenAI ::
  "retry_config \<Rightarrow> client \<Rightarrow> rat \<Rightarrow> string \<Rightarrow> int \<Rightarrow> rat list \<times> (string + string)" where
  \<comment> \<open>The result is the list of the waits (the arguments of \<open>sleep\<close>, in milliseconds)
      and either the content or \<open>Inl\<close> the message of the error thrown. The third argument
      is the value of \<open>Math.random()\<close>, a binary64 number from 0 up to 1; the options only
      travel to the provider.\<close>
  "callOpenAI cfg cl random prompt attempt =
     (case cl of
        MockResponses \<Rightarrow> ([fadd 500 (fmul random 1000)], Inr (generateMockResponse prompt))
      | OpenAI api \<Rightarrow>
          (case requestContent (api attempt) of
             Inr content \<Rightarrow> ([], Inr content)
           | Inl message \<Rightarrow>
               if attempt < maxRetries cfg
               then (let delay = retryDelay cfg attempt;
                         (delays, outcome) = callOpenAI cfg cl random prompt (attempt + 1)
                     in (delay # delays, outcome))
               else ([], Inl (''OpenAI API failed after '' @ showInt (maxRetries cfg) @
                              '' attempts: '' @ message))))"
  by pat_completeness auto
termination
  by (relation "measure (\<lambda>(cfg, cl, random, prompt, attempt). nat (maxRetries cfg - attempt))")
     auto

declare callOpenAI.simps [simp del]

definition extractSkillsBasic :: "string \<Rightarrow> string list" where
  "extractSkillsBasic text =
     (let skillKeywords =
            [''node.js'', ''nodejs'', ''javascript'', ''python'', ''express'', ''react'',
             ''postgresql'', ''mysql'', ''mongodb'', ''redis'', ''aws'', ''docker'',
             ''rest'', ''api'', ''microservices'', ''ai'', ''llm'']
      in filter (\<lambda>skill. js_includes (toLowerCase text) skill) skillKeywords)"

definition extractExperienceBasic :: "nat \<Rightarrow> string \<Rightarrow> string + enat" where
  "extractExperienceBasic maxArguments text =
     (case yearMatches text of
        y # ys \<Rightarrow> Math_max_spread maxArguments (y # ys)
      | [] \<Rightarrow> Inr 2)"

definition fallbackExtractCVInfo :: "nat \<Rightarrow> string \<Rightarrow> string + cv_structured" where
  \<comment> \<open>\<open>Inl\<close> is the message of the error that \<open>extractExperienceBasic\<close> throws\<close>
  "fallbackExtractCVInfo maxArguments cvText =
     (let skills = extractSkillsBasic cvText
      in case extractExperienceBasic maxArguments cvText of
           Inl message \<Rightarrow> Inl message
         | Inr experience \<Rightarrow>
             Inr \<lparr> cv_skills = skills, cv_experience_years = experience,
                   cv_projects = [\<lparr> proj_name = ''Project Experience'',
                                     proj_description = ''Various projects mentioned'',
                                     proj_technologies = Some (take 3 skills) \<rparr>],
                   cv_achievements = [''Performance improvements'', ''Team collaboration''],
                   cv_education = ''Technical background indicated'',
                   cv_communication_indicators = [''Team work'', ''Documentation''] \<rparr>)"

definition production_extractCVInfo ::
  "retry_config \<Rightarrow> client \<Rightarrow> rat \<Rightarrow> (string \<Rightarrow> cv_structured option) \<Rightarrow> nat \<Rightarrow> string
     \<Rightarrow> rat list \<times> (string + cv_structured)" where
  \<comment> \<open>\<open>extractCVInfo\<close> of the production service. The fourth argument is \<open>JSON.parse\<close>
      read at the type of the data model: \<open>None\<close> when it throws or yields \<open>null\<close>,
      in which case the next statement throws inside the same \<open>try\<close>. The fallback runs
      in the \<open>catch\<close> block, so an error of its own leaves the method.\<close>
  "production_extractCVInfo cfg cl random JSON_parse maxArguments cvText =
     (let prompt =
            ''You are an expert HR analyst. Extract structured information from this CV text and return ONLY valid JSON.'' @ newline @
            newline @
            ''CV Text:'' @ newline @
            ''\"\"\"'' @ newline @
            take 3000 cvText @ newline @
            ''\"\"\"'' @ newline @
            newline @
            ''Extract and return ONLY this JSON structure (no other text):'' @ newline @
            ''{'' @ newline @
            ''  \"skills\": [\"list of technical skills found\"],'' @ newline @
            ''  \"experience_years\": number,'' @ newline @
            ''  \"projects\": [{\"name\": \"project name\", \"description\": \"brief description\", \"technologies\": [\"tech1\", \"tech2\"]}],'' @ newline @
            ''  \"achievements\": [\"quantifiable achievements found\"],'' @ newline @
            ''  \"education\": \"education background\",'' @ newline @
            ''  \"communication_indicators\": [\"teamwork, leadership, communication skills mentioned\"]'' @ newline @
            ''}'' @ newline @
            newline @
            ''Focus on technical skills, years of experience, project details, and measurable achievements.'';
          (delays, outcome) = callOpenAI cfg cl random prompt 1
      in case outcome of
           Inl message \<Rightarrow> (delays, fallbackExtractCVInfo maxArguments cvText)
         | Inr response \<Rightarrow>
             (case JSON_parse (trim response) of
                None \<Rightarrow> (delays, fallbackExtractCVInfo maxArguments cvText)
              | Some parsed \<Rightarrow> (delays, Inr parsed)))"

definition fallbackEvaluateCV :: "cv_structured \<Rightarrow> match_result" where
  "fallbackEvaluateCV cvStructured =
     \<lparr> mr_technical_skills = 3, mr_experience_level = 3, mr_achievements = 3,
       mr_cultural_fit = 3, mr_score = 70 \<rparr>"

definition production_evaluateCVMatch ::
  "retry_config \<Rightarrow> client \<Rightarrow> rat \<Rightarrow> document list \<Rightarrow> (cv_structured \<Rightarrow> string)
     \<Rightarrow> (string \<Rightarrow> match_result option) \<Rightarrow> cv_structured \<Rightarrow> string
     \<Rightarrow> rat list \<times> (string + match_result)" where
  \<comment> \<open>\<open>evaluateCVMatch\<close> of the production service. The context is fetched before the
      \<open>try\<close>, so the error of a missing document leaves the method. The fifth argument is
      \<open>JSON.stringify\<close> with two spaces of indentation, the sixth \<open>JSON.parse\<close>: \<open>None\<close>
      when it throws or yields a value that is no object, on which the assignment of
      \<open>rag_context_used\<close> throws.\<close>
  "production_evaluateCVMatch cfg cl random documents JSON_stringify JSON_parse cvStructured
       jobContext =
     (case getContextForCVEvaluation documents of
        Inl message \<Rightarrow> ([], Inl message)
      | Inr ragContext \<Rightarrow>
          (let prompt =
                 ''You are a senior technical recruiter evaluating a candidate for a Backend Engineer position.'' @ newline @
                 newline @
                 ''CANDIDATE PROFILE:'' @ newline @
                 JSON_stringify cvStructured @ newline @
                 newline @
                 ''JOB REQUIREMENTS:'' @ newline @
                 jc_summary ragContext @ newline @
                 newline @
                 ''Required Skills: '' @ js_join '', '' (jc_skills ragContext) @ newline @
                 ''Experience Requirements: '' @ js_join '', '' (jc_experience ragContext) @ newline @
                 newline @
                 ''Evaluate on 1-5 scale with weights:'' @ newline @
                 ''- Technical Skills (40%): Backend, databases, APIs, cloud, AI/LLM'' @ newline @
                 ''- Experience Level (25%): Years and complexity  '' @ newline @
                 ''- Achievements (20%): Impact and measurability'' @ newline @
                 ''- Cultural Fit (15%): Communication and collaboration'' @ newline @
                 newline @
                 ''Return ONLY this JSON:'' @ newline @
                 ''{'' @ newline @
                 ''  \"breakdown\": {'' @ newline @
                 ''    \"technical_skills\": {\"score\": 1-5, \"reasoning\": \"specific assessment\"},'' @ newline @
                 ''    \"experience_level\": {\"score\": 1-5, \"reasoning\": \"experience evaluation\"}, '' @ newline @
                 ''    \"achievements\": {\"score\": 1-5, \"reasoning\": \"achievement analysis\"},'' @ newline @
                 ''    \"cultural_fit\": {\"score\": 1-5, \"reasoning\": \"collaboration assessment\"}'' @ newline @
                 ''  },'' @ newline @
                 ''  \"score\": weighted_percentage_0_to_100,'' @ newline @
                 ''  \"matched_requirements\": [\"specific requirements met\"]'' @ newline @
                 ''}'';
               (delays, outcome) = callOpenAI cfg cl random prompt 1
           in case outcome of
                Inl message \<Rightarrow> (delays, Inr (fallbackEvaluateCV cvStructured))
              | Inr response \<Rightarrow>
                  (case JSON_parse (trim response) of
                     None \<Rightarrow> (delays, Inr (fallbackEvaluateCV cvStructured))
                   | Some parsed \<Rightarrow> (delays, Inr parsed))))"

definition showYears :: "(rat \<Rightarrow> string) \<Rightarrow> enat \<Rightarrow> string" where
  \<comment> \<open>a template literal's text of \<open>experience_years\<close>: an integer up to \<open>2 ^ 53\<close> prints
      its digits, a larger number is left to the built-in printing (the first argument)\<close>
  "showYears numberToString years =
     (case years of
        enat n \<Rightarrow> if int n \<le> 2 ^ 53 then decimal n else numberToString (of_nat n)
      | \<infinity> \<Rightarrow> ''Infinity'')"

definition fallbackCVFeedback :: "int \<Rightarrow> string" where
  "fallbackCVFeedback score =
     ''Solid technical background with '' @ showInt score @
     ''% alignment to role requirements. Good foundation for backend development. Consider developing additional AI/LLM integration skills.''"

definition production_generateCVFeedback ::
  "retry_config \<Rightarrow> client \<Rightarrow> rat \<Rightarrow> (rat \<Rightarrow> string) \<Rightarrow> cv_structured \<Rightarrow> string \<Rightarrow> match_result
     \<Rightarrow> rat list \<times> string" where
  \<comment> \<open>\<open>generateCVFeedback\<close> of the production service; the fourth argument is the
      built-in printing of a number\<close>
  "production_generateCVFeedback cfg cl random numberToString cvStructured jobContext
       matchResult =
     (let prompt =
            ''You are providing professional feedback to a job candidate.'' @ newline @
            newline @
            ''CANDIDATE: '' @ js_join '', '' (cv_skills cvStructured) @ '' with '' @
              showYears numberToString (cv_experience_years cvStructured) @
              '' years experience'' @ newline @
            ''EVALUATION SCORE: '' @ showInt (mr_score matchResult) @ ''%'' @ newline @
            ''STRENGTHS: '' @
              js_join '', '' (map (\<lambda>(k, v). k)
                (filter (\<lambda>(k, v). v \<ge> 4) (cv_breakdown matchResult))) @ newline @
            ''GAPS: '' @
              js_join '', '' (map (\<lambda>(k, v). k)
                (filter (\<lambda>(k, v). v \<le> 2) (cv_breakdown matchResult))) @ newline @
            newline @
            ''Write 2-3 sentences of professional, constructive feedback:'' @ newline @
            ''1. Acknowledge main strengths for this backend role'' @ newline @
            ''2. Identify key development areas'' @ newline @
            ''3. Keep encouraging but honest tone'' @ newline @
            newline @
            ''Return only the feedback text, no formatting.'';
          (delays, outcome) = callOpenAI cfg cl random prompt 1
      in case outcome of
           Inl message \<Rightarrow> (delays, fallbackCVFeedback (mr_score matchResult))
         | Inr response \<Rightarrow> (delays, trim response))"

definition fallbackEvaluateProject :: "string \<Rightarrow> project_result" where
  \<comment> \<open>the literal \<open>3.2\<close> is the binary64 value nearest to 3.2\<close>
  "fallbackEvaluateProject projectText =
     \<lparr> pr_correctness = 3, pr_code_quality = 3, pr_resilience = 3, pr_documentation = 4,
       pr_creativity = 3, pr_overallScore = rd (32 / 10) \<rparr>"

definition production_evaluateProject ::
  "retry_config \<Rightarrow> client \<Rightarrow> rat \<Rightarrow> document list \<Rightarrow> (string \<Rightarrow> project_result option)
     \<Rightarrow> string \<Rightarrow> string \<Rightarrow> rat list \<times> (string + project_result)" where
  \<comment> \<open>\<open>evaluateProject\<close> of the production service; the context and \<open>JSON.parse\<close> are as
      in \<open>production_evaluateCVMatch\<close>\<close>
  "production_evaluateProject cfg cl random documents JSON_parse projectText scoringRubric =
     (case getContextForProjectEvaluation documents of
        Inl message \<Rightarrow> ([], Inl message)
      | Inr ragContext \<Rightarrow>
          (let prompt =
                 ''You are a senior software architect evaluating a technical project.'' @ newline @
                 newline @
                 ''PROJECT DESCRIPTION:'' @ newline @
                 ''\"\"\"'' @ newline @
                 take 2000 projectText @ newline @
                 ''\"\"\"'' @ newline @
                 newline @
                 ''EVALUATION CRITERIA:'' @ newline @
                 ''- Correctness (30%): LLM integration, prompt design, chaining'' @ newline @
                 ''- Code Quality (25%): Structure, testing, maintainability'' @ newline @
                 ''- Resilience (20%): Error handling, retry mechanisms'' @ newline @
                 ''- Documentation (15%): Setup instructions, explanations'' @ newline @
                 ''- Creativity (10%): Additional features, innovation'' @ newline @
                 newline @
                 ''Rate each on 1-5 scale and return ONLY this JSON:'' @ newline @
                 ''{'' @ newline @
                 ''  \"breakdown\": {'' @ newline @
                 ''    \"correctness\": {\"score\": 1-5, \"reasoning\": \"LLM implementation assessment\"},'' @ newline @
                 ''    \"code_quality\": {\"score\": 1-5, \"reasoning\": \"code structure analysis\"},'' @ newline @
                 ''    \"resilience\": {\"score\": 1-5, \"reasoning\": \"error handling evaluation\"},'' @ newline @
                 ''    \"documentation\": {\"score\": 1-5, \"reasoning\": \"documentation quality\"},'' @ newline @
                 ''    \"creativity\": {\"score\": 1-5, \"reasoning\": \"innovation assessment\"}'' @ newline @
                 ''  },'' @ newline @
                 ''  \"overallScore\": weighted_average_decimal,'' @ newline @
                 ''  \"matched_criteria\": [\"criteria that were well implemented\"]'' @ newline @
                 ''}'';
               (delays, outcome) = callOpenAI cfg cl random prompt 1
           in case outcome of
                Inl message \<Rightarrow> (delays, Inr (fallbackEvaluateProject projectText))
              | Inr response \<Rightarrow>
                  (case JSON_parse (trim response) of
                     None \<Rightarrow> (delays, Inr (fallbackEvaluateProject projectText))
                   | Some parsed \<Rightarrow> (delays, Inr parsed))))"

definition fallbackProjectFeedback :: "(rat \<Rightarrow> string) \<Rightarrow> rat \<Rightarrow> string" where
  "fallbackProjectFeedback numberToString score =
     ''Project demonstrates '' @ numberToString score @
     ''/5 implementation quality. Good documentation and structure. Focus on enhancing error handling and testing coverage for production readiness.''"

definition production_generateProjectFeedback ::
  "retry_config \<Rightarrow> client \<Rightarrow> rat \<Rightarrow> (rat \<Rightarrow> string) \<Rightarrow> string \<Rightarrow> string \<Rightarrow> project_result
     \<Rightarrow> rat list \<times> string" where
  \<comment> \<open>\<open>generateProjectFeedback\<close> of the production service\<close>
  "production_generateProjectFeedback cfg cl random numberToString projectText scoringRubric
       projectScore =
     (let prompt =
            ''Provide technical feedback for this project submission:'' @ newline @
            newline @
            ''PROJECT SCORES:'' @ newline @
            ''- Correctness: '' @ showInt (pr_correctness projectScore) @ ''/5'' @ newline @
            ''- Code Quality: '' @ showInt (pr_code_quality projectScore) @ ''/5  '' @ newline @
            ''- Resilience: '' @ showInt (pr_resilience projectScore) @ ''/5'' @ newline @
            ''- Documentation: '' @ showInt (pr_documentation projectScore) @ ''/5'' @ newline @
            ''- Creativity: '' @ showInt (pr_creativity projectScore) @ ''/5'' @ newline @
            ''Overall: '' @ numberToString (pr_overallScore projectScore) @ ''/5'' @ newline @
            newline @
            ''Write 2-3 sentences focusing on:'' @ newline @
            ''1. What was implemented well'' @ newline @
            ''2. Key areas for improvement'' @ newline @
            ''3. Actionable next steps for production readiness'' @ newline @
            newline @
            ''Return only the feedback text.'';
          (delays, outcome) = callOpenAI cfg cl random prompt 1
      in case outcome of
           Inl message \<Rightarrow>
             (delays, fallbackProjectFeedback numberToString (pr_overallScore projectScore))
         | Inr response \<Rightarrow> (delays, trim response))"

definition fallbackOverallSummary :: "(rat \<Rightarrow> string) \<Rightarrow> int \<Rightarrow> rat \<Rightarrow> string" where
  "fallbackOverallSummary numberToString cvScore projectScore =
     ''Candidate shows '' @ showInt cvScore @ ''% CV alignment and '' @
     numberToString projectScore @
     ''/5 project execution. Solid technical foundation with growth potential. Recommended for technical interview to assess learning ability and cultural fit.''"

definition production_generateOverallSummary ::
  "retry_config \<Rightarrow> client \<Rightarrow> rat \<Rightarrow> (rat \<Rightarrow> string) \<Rightarrow> match_result \<Rightarrow> string \<Rightarrow> project_result
     \<Rightarrow> string \<Rightarrow> rat list \<times> string" where
  \<comment> \<open>\<open>generateOverallSummary\<close> of the production service\<close>
  "production_generateOverallSummary cfg cl random numberToString cvMatchRate cvFeedback
       projectScore projectFeedback =
     (let prompt =
            ''As hiring manager, provide final candidate assessment:'' @ newline @
            newline @
            ''EVALUATION RESULTS:'' @ newline @
            ''- CV Match: '' @ showInt (mr_score cvMatchRate) @ ''% '' @ newline @
            ''- CV Feedback: '' @ cvFeedback @ newline @
            ''- Project Score: '' @ numberToString (pr_overallScore projectScore) @ ''/5'' @ newline @
            ''- Project Feedback: '' @ projectFeedback @ newline @
            newline @
            ''Write 3-4 sentences including:'' @ newline @
            ''1. Overall fit assessment for backend + AI role'' @ newline @
            ''2. Key strengths demonstrated  '' @ newline @
            ''3. Main concerns or development needs'' @ newline @
            ''4. Clear hiring recommendation (highly recommended/recommended/needs discussion/not recommended)'' @ newline @
            newline @
            ''Be specific about technical capabilities and growth potential.'';
          (delays, outcome) = callOpenAI cfg cl random prompt 1
      in case outcome of
           Inl message \<Rightarrow>
             (delays, fallbackOverallSummary numberToString (mr_score cvMatchRate)
                        (pr_overallScore projectScore))
         | Inr response \<Rightarrow> (delays, trim response))"

definition timeout_api :: "int \<Rightarrow> string + string" where
  \<comment> \<open>a provider whose every call fails\<close>
  "timeout_api attempt = Inl ''Request timed out.''"

section \<open>A small instance\<close>

definition example_documents :: "document list" where
  \<comment> \<open>a document store with the two documents the pipeline looks up; both are shorter
      than the 50 characters a chunk needs, so neither has chunks\<close>
  "example_documents =
     [\<lparr> doc_id = ''job-requirements'',
        doc_content = ''Required Technical Skills: Node.js'',
        doc_category = ''job-description'', doc_chunks = [],
        doc_keywords = [''required'', ''technical'', ''skills'', ''node''] \<rparr>,
      \<lparr> doc_id = ''scoring-rubric'',
        doc_content = ''SCORE 5: Strong backend expertise'',
        doc_category = ''evaluation-criteria'', doc_chunks = [],
        doc_keywords = [''score'', ''strong'', ''backend'', ''expertise''] \<rparr>]"

definition example_cv :: cv_structured where
  "example_cv =
     \<lparr> cv_skills = [''node.js''], cv_experience_years = 5,
       cv_projects = [\<lparr> proj_name = ''Mentioned Project'',
                         proj_description = ''Project experience indicated'',
                         proj_technologies = None \<rparr>],
       cv_achievements = [''led performance/systems''],
       cv_education = ''Formal technical education'',
       cv_communication_indicators = [''team skills''] \<rparr>"

definition example_world :: world where
  "example_world =
     \<lparr> w_documents = example_documents,
       w_readFileSync = (\<lambda>path. Inr ''5 years of Node.js''),
       w_numberToString = (\<lambda>x. ''1.4''), w_maxArguments = 100000 \<rparr>"

definition example_upload :: upload_data where
  "example_upload =
     \<lparr> up_id = ''u1'',
       up_cv = \<lparr> fi_filename = ''f1'', fi_originalName = ''cv.txt'', fi_path = ''uploads/f1'',
                 fi_mimetype = ''text/plain'', fi_size = 18 \<rparr>,
       up_project = \<lparr> fi_filename = ''f2'', fi_originalName = ''report.pdf'',
                 fi_path = ''uploads/f2'', fi_mimetype = ''application/pdf'', fi_size = 2048 \<rparr>,
       up_uploadedAt = 0, up_status = ''uploaded'' \<rparr>"

definition example_server :: server where
  "example_server = \<lparr> uploadedFiles = [''u1'' \<mapsto> example_upload], evaluationJobs = Map.empty \<rparr>"

definition tie_project :: string where
  \<comment> \<open>a project report of 200 characters: a line of keywords and a rule of 172 signs\<close>
  "tie_project = ''express node.js modular test'' @ replicate 172 (CHR ''='')"

definition flaky_api :: "int \<Rightarrow> string + string" where
  \<comment> \<open>a provider whose first call fails and whose later calls answer\<close>
  "flaky_api attempt =
     (if attempt < 2 then Inl ''Request timed out.'' else Inr '' Good fit. '')"

definition short_project :: string where
  \<comment> \<open>a project report with the same weighted average as \<open>tie_project\<close>\<close>
  "short_project = ''express node.js modular test robust''"

chapter \<open>Properties\<close>

section \<open>Retrieval engine: scoring and ranking\<close>

lemma inner_loop:
  "foldl (\<lambda>score chunkWord.
       if js_includes chunkWord queryWord \<or> js_includes queryWord chunkWord
       then score + (if length queryWord > 3 then 2 else 1) else score) a chunkWords
   = a + (\<Sum>chunkWord \<leftarrow> chunkWords. wordWeight queryWord chunkWord)"
  by (induction chunkWords arbitrary: a) (auto simp: wordWeight_def)

lemma outer_loop:
  "foldl (\<lambda>score queryWord. foldl (\<lambda>score chunkWord.
       if js_includes chunkWord queryWord \<or> js_includes queryWord chunkWord
       then score + (if length queryWord > 3 then 2 else 1) else score) score chunkWords) a queryWords
   = a + (\<Sum>queryWord \<leftarrow> queryWords. \<Sum>chunkWord \<leftarrow> chunkWords. wordWeight queryWord chunkWord)"
  by (induction queryWords arbitrary: a) (simp_all add: inner_loop)

text \<open>\<open>js_includes\<close> is the substring test, and the tokens of \<open>split_ws\<close> are the
  text between the runs of whitespace.\<close>

lemma js_includes_sublist: "js_includes s t \<longleftrightarrow> sublist t s"
  by (induction s) (auto simp: sublist_Cons_right)

lemma split_from_no_space:
  "\<forall>c \<in> set acc. \<not> isSpace c \<Longrightarrow> t \<in> set (split_from acc s) \<Longrightarrow> c \<in> set t \<Longrightarrow> \<not> isSpace c"
  by (induction acc s rule: split_from.induct) (auto split: if_splits)

lemma split_from_concat:
  "concat (split_from acc s) = rev acc @ filter (\<lambda>c. \<not> isSpace c) s"
proof (induction acc s rule: split_from.induct)
  case (1 acc)
  then show ?case by simp
next
  case (2 acc c cs)
  have "filter (\<lambda>c. \<not> isSpace c) (dropWhile isSpace cs) = filter (\<lambda>c. \<not> isSpace c) cs"
    by (induction cs) auto
  with 2 show ?case by auto
qed

lemma split_ws_tokens:
  "concat (split_ws s) = filter (\<lambda>c. \<not> isSpace c) s"
  "t \<in> set (split_ws s) \<Longrightarrow> c \<in> set t \<Longrightarrow> \<not> isSpace c"
  using split_from_no_space [of "[]" t s c] by (simp_all add: split_ws_def split_from_concat)

text \<open>
  Claim C2, as the code has it. The score of a chunk for a query is the sum, over every pair
  of a query token and a chunk token (both texts case-folded and split at whitespace) where
  one token contains the other, of 2 points when the query token is longer than 3 characters
  and 1 point otherwise, plus 3 points exactly when at least one query token occurs as a
  substring of the case-folded chunk. The bonus looks at the tokens, not at the raw query.
\<close>

theorem relevance_score_formula:
  "chunkScore query chunk =
     pairPoints chunk query +
     (if \<exists>word \<in> set (queryWordsOf query). js_includes (toLowerCase chunk) word then 3 else 0)"
  by (simp add: chunkScore_def calculateRelevanceScore_def pairPoints_def outer_loop
      list_ex_iff Let_def)

theorem relevance_score_formula_witness:
  "chunkScore ''backend skills'' ''Backend developer'' = 5 \<and>
   pairPoints ''Backend developer'' ''backend skills'' = 2 \<and>
   (\<exists>word \<in> set (queryWordsOf ''backend skills'').
      js_includes (toLowerCase ''Backend developer'') word)"
proof -
  have p: "pairPoints ''Backend developer'' ''backend skills'' = 2"
    by code_simp
  have b: "\<exists>word \<in> set (queryWordsOf ''backend skills'').
      js_includes (toLowerCase ''Backend developer'') word"
    by code_simp
  show ?thesis
    using relevance_score_formula [of "''backend skills''" "''Backend developer''"] p b
    by simp
qed

text \<open>
  The claim as written gives the bonus when the raw query is a substring of the chunk. The
  query \<open>backend skills\<close> is not a substring of the chunk \<open>backend developer\<close>, yet
  the chunk scores 2 + 3.
\<close>

theorem relevance_bonus_counterexample:
  "chunkScore ''backend skills'' ''backend developer'' \<noteq>
     pairPoints ''backend developer'' ''backend skills'' +
     (if js_includes ''backend developer'' ''backend skills'' then 3 else 0)"
  by code_simp

lemma insert_by_insort:
  "insert_by (\<lambda>a b. int (f b) - int (f a)) x xs = insort_key (\<lambda>a. - int (f a)) x xs"
  by (induction xs) auto

lemma js_sort_sort_key:
  "js_sort (\<lambda>a b. int (f b) - int (f a)) xs = sort_key (\<lambda>a. - int (f a)) xs"
  by (induction xs) (auto simp: js_sort_def sort_key_def insert_by_insort)

lemma insort_key_map:
  "insort_key g (h x) (map h xs) = map h (insort_key (\<lambda>a. g (h a)) x xs)"
  by (induction xs) auto

lemma sort_key_map: "sort_key g (map h xs) = map h (sort_key (\<lambda>a. g (h a)) xs)"
  by (induction xs) (auto simp: insort_key_map)

lemma sorted_desc:
  "sorted (map (\<lambda>a. - int (f a)) xs) \<longleftrightarrow> sorted_wrt (\<lambda>a b. f b \<le> f a) xs"
  by (induction xs) auto

lemma findRelevantChunks_alt:
  "findRelevantChunks chunks query =
     take 3 (sort_key (\<lambda>c. - int (chunkScore query c))
               (filter (\<lambda>c. 0 < chunkScore query c) chunks))"
proof -
  let ?sc = "\<lambda>chunk. calculateRelevanceScore chunk (split_ws (toLowerCase query))"
  have f: "filter (\<lambda>item. 0 < snd item) (map (\<lambda>chunk. (chunk, ?sc chunk)) chunks)
        = map (\<lambda>chunk. (chunk, ?sc chunk)) (filter (\<lambda>c. 0 < ?sc c) chunks)"
    by (simp add: filter_map comp_def)
  have s: "sort_key (\<lambda>a. - int (snd a)) (map (\<lambda>chunk. (chunk, ?sc chunk)) ys)
        = map (\<lambda>chunk. (chunk, ?sc chunk)) (sort_key (\<lambda>c. - int (?sc c)) ys)" for ys
    by (simp add: sort_key_map)
  show ?thesis
    by (simp add: findRelevantChunks_def Let_def js_sort_sort_key f s take_map comp_def
        chunkScore_def queryWordsOf_def)
qed

lemma findRelevantChunks_nonempty:
  "findRelevantChunks chunks query \<noteq> [] \<longleftrightarrow> (\<exists>c \<in> set chunks. 0 < chunkScore query c)"
proof -
  let ?pos = "filter (\<lambda>c. 0 < chunkScore query c) chunks"
  have "findRelevantChunks chunks query = [] \<longleftrightarrow>
        sort_key (\<lambda>c. - int (chunkScore query c)) ?pos = []"
    by (simp add: findRelevantChunks_alt)
  also have "\<dots> \<longleftrightarrow> ?pos = []"
    by (metis length_sort length_0_conv)
  finally show ?thesis by (auto simp: filter_empty_conv)
qed

text \<open>
  Claim C3. \<open>findRelevantChunks\<close> returns the first three chunks of a ranking of the input
  that holds exactly the chunks with a score above 0 (as often as the input has them), is in
  descending order of score, and keeps chunks of equal score in the order of the input.
\<close>

theorem rank_top3:
  "\<exists>ranked.
      findRelevantChunks chunks query = take 3 ranked \<and>
      mset ranked = mset (filter (\<lambda>c. 0 < chunkScore query c) chunks) \<and>
      sorted_wrt (\<lambda>a b. chunkScore query b \<le> chunkScore query a) ranked \<and>
      (\<forall>k. filter (\<lambda>c. chunkScore query c = k) ranked =
           filter (\<lambda>c. chunkScore query c = k)
             (filter (\<lambda>c. 0 < chunkScore query c) chunks))"
proof -
  let ?pos = "filter (\<lambda>c. 0 < chunkScore query c) chunks"
  let ?key = "\<lambda>c. - int (chunkScore query c)"
  let ?ranked = "sort_key ?key ?pos"
  have 1: "findRelevantChunks chunks query = take 3 ?ranked"
    by (rule findRelevantChunks_alt)
  have 2: "mset ?ranked = mset ?pos" by simp
  have "sorted (map ?key ?ranked)" by (rule sorted_sort_key)
  then have 3: "sorted_wrt (\<lambda>a b. chunkScore query b \<le> chunkScore query a) ?ranked"
    by (simp only: sorted_desc)
  have 4: "filter (\<lambda>c. chunkScore query c = k) ?ranked =
           filter (\<lambda>c. chunkScore query c = k) ?pos" for k
  proof -
    have "filter (\<lambda>c. ?key c = - int k) ?ranked = filter (\<lambda>c. ?key c = - int k) ?pos"
      by (rule sort_key_stable)
    then show ?thesis by simp
  qed
  from 1 2 3 4 show ?thesis by blast
qed

theorem rank_top3_witness:
  "findRelevantChunks
     [''xx'', ''backend api'', ''node backend backend'', ''backend apj'', ''a backend'', ''skills'']
     ''backend skills'' = [''node backend backend'', ''a backend'', ''backend api''] \<and>
   (\<exists>ranked.
      [''node backend backend'', ''a backend'', ''backend api''] = take 3 ranked \<and>
      sorted_wrt (\<lambda>a b. chunkScore ''backend skills'' b \<le> chunkScore ''backend skills'' a) ranked)"
proof -
  have e: "findRelevantChunks
     [''xx'', ''backend api'', ''node backend backend'', ''backend apj'', ''a backend'', ''skills'']
     ''backend skills'' = [''node backend backend'', ''a backend'', ''backend api'']"
    by code_simp
  show ?thesis
    using rank_top3 [of "[''xx'', ''backend api'', ''node backend backend'', ''backend apj'',
      ''a backend'', ''skills'']" "''backend skills''"] e
    by auto
qed

section \<open>Document search\<close>

lemma length_slice_to: "0 \<le> n \<Longrightarrow> int (length (slice_to xs (Finite n))) \<le> n"
  by auto

lemma set_slice_to: "set (slice_to xs l) \<subseteq> set xs"
  by (cases l) (auto dest: in_set_takeD)

lemma sorted_wrt_take: "sorted_wrt P xs \<Longrightarrow> sorted_wrt P (take n xs)"
  by (metis append_take_drop_id sorted_wrt_append)

lemma sorted_wrt_slice_to: "sorted_wrt P xs \<Longrightarrow> sorted_wrt P (slice_to xs l)"
  by (cases l) (auto simp: sorted_wrt_take)

lemma searchDocuments_member:
  assumes "r \<in> set (searchDocuments documents query limit)"
  shows "0 < totalRelevance r \<and>
         (\<exists>doc \<in> set documents.
            sr_id r = doc_id doc \<and> sr_category r = doc_category doc \<and>
            relevantChunks r = findRelevantChunks (doc_chunks doc) query \<and>
            totalRelevance r = length (relevantChunks r) \<and>
            (\<exists>c \<in> set (doc_chunks doc). 0 < chunkScore query c))"
proof -
  let ?mk = "\<lambda>doc. \<lparr> sr_id = doc_id doc, sr_category = doc_category doc,
                     relevantChunks = findRelevantChunks (doc_chunks doc) query,
                     totalRelevance = length (findRelevantChunks (doc_chunks doc) query) \<rparr>"
  have "set (searchDocuments documents query limit)
          \<subseteq> set (sort_key (\<lambda>a. - int (totalRelevance a))
                     (filter (\<lambda>result. totalRelevance result > 0) (map ?mk documents)))"
    unfolding searchDocuments_def js_sort_sort_key by (rule set_slice_to)
  with assms have "r \<in> set (filter (\<lambda>result. totalRelevance result > 0) (map ?mk documents))"
    by (auto simp only: set_sort)
  then obtain doc where d: "doc \<in> set documents" "r = ?mk doc" "0 < totalRelevance r"
    by auto
  from d(2,3) have "findRelevantChunks (doc_chunks doc) query \<noteq> []" by auto
  then have "\<exists>c \<in> set (doc_chunks doc). 0 < chunkScore query c"
    by (simp only: findRelevantChunks_nonempty)
  with d show ?thesis by auto
qed

lemma searchDocuments_sorted:
  "sorted_wrt (\<lambda>a b. totalRelevance b \<le> totalRelevance a) (searchDocuments documents query limit)"
proof -
  have "sorted (map (\<lambda>a. - int (totalRelevance a))
          (sort_key (\<lambda>a. - int (totalRelevance a)) xs))" for xs :: "search_result list"
    by (rule sorted_sort_key)
  then show ?thesis
    by (simp add: searchDocuments_def js_sort_sort_key sorted_desc sorted_wrt_slice_to)
qed

text \<open>
  Claim C9, as the code has it. The search handler answers 400 (the query parameter is
  required) when the query is absent or empty. For a non-empty query it answers with the
  result list of \<open>searchDocuments\<close>, which has at most \<open>n\<close> entries when the limit is a
  number \<open>n \<ge> 0\<close> (at most 3 when no limit is given), holds only documents with at least
  one chunk of positive score (so each entry has a relevance above 0, its number of ranked
  chunks), and is in descending order of that count.
\<close>

theorem search_documents_results:
  "vectordb_search documents parseInt None limit
     = Failure 400 ''Query parameter \"q\" is required'' \<and>
   vectordb_search documents parseInt (Some []) limit
     = Failure 400 ''Query parameter \"q\" is required'' \<and>
   (query \<noteq> [] \<longrightarrow>
     (\<exists>results.
        vectordb_search documents parseInt (Some query) limit = Json results \<and>
        (limit = None \<longrightarrow> length results \<le> 3) \<and>
        (\<forall>l n. limit = Some l \<and> parseInt l = Finite n \<and> 0 \<le> n \<longrightarrow> int (length results) \<le> n) \<and>
        (\<forall>r \<in> set results.
           0 < totalRelevance r \<and>
           (\<exists>doc \<in> set documents.
              sr_id r = doc_id doc \<and>
              relevantChunks r = findRelevantChunks (doc_chunks doc) query \<and>
              totalRelevance r = length (relevantChunks r) \<and>
              (\<exists>c \<in> set (doc_chunks doc). 0 < chunkScore query c))) \<and>
        sorted_wrt (\<lambda>a b. totalRelevance b \<le> totalRelevance a) results))"
proof -
  have a: "vectordb_search documents parseInt None limit
     = Failure 400 ''Query parameter \"q\" is required''"
    by (simp add: vectordb_search_def)
  have b: "vectordb_search documents parseInt (Some []) limit
     = Failure 400 ''Query parameter \"q\" is required''"
    by (simp add: vectordb_search_def)
  have c: "\<exists>results.
        vectordb_search documents parseInt (Some query) limit = Json results \<and>
        (limit = None \<longrightarrow> length results \<le> 3) \<and>
        (\<forall>l n. limit = Some l \<and> parseInt l = Finite n \<and> 0 \<le> n \<longrightarrow> int (length results) \<le> n) \<and>
        (\<forall>r \<in> set results.
           0 < totalRelevance r \<and>
           (\<exists>doc \<in> set documents.
              sr_id r = doc_id doc \<and>
              relevantChunks r = findRelevantChunks (doc_chunks doc) query \<and>
              totalRelevance r = length (relevantChunks r) \<and>
              (\<exists>c \<in> set (doc_chunks doc). 0 < chunkScore query c))) \<and>
        sorted_wrt (\<lambda>a b. totalRelevance b \<le> totalRelevance a) results" if q: "query \<noteq> []"
  proof -
    let ?lim = "case limit of None \<Rightarrow> Finite 3 | Some l \<Rightarrow> parseInt l"
    let ?res = "searchDocuments documents query ?lim"
    have 1: "vectordb_search documents parseInt (Some query) limit = Json ?res"
      using q by (simp add: vectordb_search_def)
    have 2: "limit = None \<longrightarrow> length ?res \<le> 3"
      using length_slice_to [of 3] by (auto simp: searchDocuments_def)
    have 3: "\<forall>l n. limit = Some l \<and> parseInt l = Finite n \<and> 0 \<le> n \<longrightarrow> int (length ?res) \<le> n"
      using length_slice_to by (auto simp: searchDocuments_def)
    have 4: "\<forall>r \<in> set ?res.
           0 < totalRelevance r \<and>
           (\<exists>doc \<in> set documents.
              sr_id r = doc_id doc \<and>
              relevantChunks r = findRelevantChunks (doc_chunks doc) query \<and>
              totalRelevance r = length (relevantChunks r) \<and>
              (\<exists>c \<in> set (doc_chunks doc). 0 < chunkScore query c))"
      using searchDocuments_member by blast
    have 5: "sorted_wrt (\<lambda>a b. totalRelevance b \<le> totalRelevance a) ?res"
      by (rule searchDocuments_sorted)
    from 1 2 3 4 5 show ?thesis by blast
  qed
  from a b c show ?thesis by blast
qed

theorem search_documents_results_witness:
  "''backend'' \<noteq> [] \<and>
   (\<exists>results.
      vectordb_search
        [\<lparr> doc_id = ''job-requirements'', doc_content = ''We need a backend engineer'',
           doc_category = ''job-description'', doc_chunks = [''We need a backend engineer''],
           doc_keywords = [''backend'', ''engineer''] \<rparr>,
         \<lparr> doc_id = ''scoring-rubric'', doc_content = ''Strong backend expertise'',
           doc_category = ''evaluation-criteria'', doc_chunks = [''Strong backend expertise''],
           doc_keywords = [''backend'', ''expertise''] \<rparr>]
        (\<lambda>l. Finite 1) (Some ''backend'') (Some ''1'') = Json results \<and>
      int (length results) \<le> 1 \<and>
      (\<forall>r \<in> set results. 0 < totalRelevance r))"
  using search_documents_results
    [of "[\<lparr> doc_id = ''job-requirements'', doc_content = ''We need a backend engineer'',
           doc_category = ''job-description'', doc_chunks = [''We need a backend engineer''],
           doc_keywords = [''backend'', ''engineer''] \<rparr>,
         \<lparr> doc_id = ''scoring-rubric'', doc_content = ''Strong backend expertise'',
           doc_category = ''evaluation-criteria'', doc_chunks = [''Strong backend expertise''],
           doc_keywords = [''backend'', ''expertise''] \<rparr>]"
        "\<lambda>l. Finite 1" "Some ''1''" "''backend''"]
  by (elim conjE) (simp, blast)

text \<open>
  The claim as written bounds the result by every limit \<open>n\<close>. A negative limit reaches
  \<open>slice(0, n)\<close> unchecked, which then drops the last \<open>-n\<close> entries: with two matching
  documents and the limit \<open>-1\<close> one result comes back.
\<close>

theorem search_negative_limit_counterexample:
  "length (searchDocuments
     [\<lparr> doc_id = ''job-requirements'', doc_content = ''We need a backend engineer'',
        doc_category = ''job-description'', doc_chunks = [''We need a backend engineer''],
        doc_keywords = [''backend'', ''engineer''] \<rparr>,
      \<lparr> doc_id = ''scoring-rubric'', doc_content = ''Strong backend expertise'',
        doc_category = ''evaluation-criteria'', doc_chunks = [''Strong backend expertise''],
        doc_keywords = [''backend'', ''expertise''] \<rparr>]
     ''backend'' (Finite (- 1))) = 1 \<and>
   \<not> (1 \<le> (- 1 :: int))"
  by code_simp

section \<open>The job state machine\<close>

lemma processEvaluation_shape:
  "\<exists>js l. processEvaluation w startTime endTime job uploadData = js @ [l] \<and>
          js \<noteq> [] \<and> (\<forall>j \<in> set js. in_progress job j) \<and>
          ((\<exists>m. l = job_failed (last js) m endTime) \<or>
           (\<exists>r. l = job_completed (last js) r endTime))"
proof (cases "extractCVInfo (w_maxArguments w)
                (extractFileContent (w_readFileSync w) (up_cv uploadData))")
  case (Inl m)
  then show ?thesis
    unfolding processEvaluation_def Let_def
    by (simp add: in_progress_def) blast
next
  case ex: (Inr cvStructured)
  show ?thesis
  proof (cases "evaluateCVMatch (w_documents w) cvStructured
                  ''Backend developer role requiring Node.js, databases, APIs, and AI/LLM experience''")
    case (Inl m)
    with ex show ?thesis
      unfolding processEvaluation_def Let_def
      by (simp add: in_progress_def) blast
  next
    case cv: (Inr cvMatchRate)
    show ?thesis
    proof (cases "evaluateProject (w_documents w)
                    (extractFileContent (w_readFileSync w) (up_project uploadData))
                    ''Evaluate based on correctness, code quality, resilience, documentation, and creativity''")
      case (Inl m)
      with ex cv show ?thesis
        unfolding processEvaluation_def Let_def
        by (simp add: in_progress_def) blast
    next
      case (Inr projectScore)
      with ex cv show ?thesis
        unfolding processEvaluation_def Let_def
        by (simp add: in_progress_def) blast
    qed
  qed
qed

text \<open>The mock service's extraction raises only in \<open>Math.max(...years)\<close>, when the text has
  more year matches than the engine's stack takes as arguments.\<close>

lemma extractExperience_Inl:
  "extractExperience maxArguments text = Inl m \<longleftrightarrow>
     maxArguments < length (yearMatches text) \<and> m = ''Maximum call stack size exceeded''"
  by (auto simp: extractExperience_def Math_max_spread_def split: list.splits)

lemma extractCVInfo_Inl:
  "extractCVInfo maxArguments cvText = Inl m \<longleftrightarrow>
     maxArguments < length (yearMatches cvText) \<and> m = ''Maximum call stack size exceeded''"
proof -
  have "extractCVInfo maxArguments cvText = Inl m \<longleftrightarrow>
        extractExperience maxArguments cvText = Inl m"
    by (simp add: extractCVInfo_def Let_def split: sum.splits)
  then show ?thesis by (simp only: extractExperience_Inl)
qed

lemma extractCVInfo_Inr:
  assumes "length (yearMatches cvText) \<le> maxArguments"
  shows "\<exists>cvStructured. extractCVInfo maxArguments cvText = Inr cvStructured"
proof (cases "extractCVInfo maxArguments cvText")
  case (Inl m)
  with assms show ?thesis by (simp add: extractCVInfo_Inl)
next
  case (Inr c)
  then show ?thesis by blast
qed

lemma yearMatches_example: "yearMatches ''5 years of Node.js'' = [enat 5]"
  by (simp add: isDigit_def isSpace_def startsWith_def toLowerCase_def lowerChar_def
      parseInt_digits_def parseDigits_def Let_def)


lemma in_progress_queued:
  assumes "in_progress job j" "job_result job = None" "job_error job = None"
    "job_completedAt job = None" "job_failedAt job = None"
  shows "job_status j = ''processing'' \<and> job_result j = None \<and> job_error j = None \<and>
         job_completedAt j = None \<and> job_failedAt j = None"
  using assms by (simp add: in_progress_def)

lemma job_failed_fields:
  "job_status (job_failed j m t) = ''failed'' \<and> job_error (job_failed j m t) = Some m \<and>
   job_failedAt (job_failed j m t) = Some t \<and> job_result (job_failed j m t) = job_result j \<and>
   job_completedAt (job_failed j m t) = job_completedAt j"
  by (simp add: job_failed_def)

lemma job_completed_fields:
  "job_status (job_completed j r t) = ''completed'' \<and>
   job_result (job_completed j r t) = Some r \<and>
   job_completedAt (job_completed j r t) = Some t \<and>
   job_error (job_completed j r t) = job_error j \<and>
   job_failedAt (job_completed j r t) = job_failedAt j"
  by (simp add: job_completed_def)

lemma successively_snoc:
  "xs \<noteq> [] \<Longrightarrow> successively P (xs @ [y]) \<longleftrightarrow> successively P xs \<and> P (last xs) y"
  by (induction xs rule: induct_list012) auto

lemma successively_all:
  "(\<And>a b. a \<in> set xs \<Longrightarrow> b \<in> set xs \<Longrightarrow> P a b) \<Longrightarrow> successively P xs"
  by (induction xs rule: induct_list012) auto

text \<open>
  Claim C1. Take the history of the record of any job that \<open>POST /evaluate\<close> creates. Every
  status in it is one of \<open>queued\<close>, \<open>processing\<close>, \<open>completed\<close>, \<open>failed\<close>; it starts
  at \<open>queued\<close>, and a change of status is \<open>queued\<close> to \<open>processing\<close>, \<open>processing\<close> to
  \<open>completed\<close> or \<open>processing\<close> to \<open>failed\<close>. Before its last value the record holds no
  result, no error and neither \<open>completedAt\<close> nor \<open>failedAt\<close>; the last value is terminal
  and holds either the result with \<open>completedAt\<close>, or the error with \<open>failedAt\<close>, and
  nothing is written after it.
\<close>

theorem job_lifecycle:
  assumes "post_evaluate w st uploadId evaluationId createdTime startTime endTime
             = Json (eid, history)"
  shows "history \<noteq> [] \<and> job_status (hd history) = ''queued'' \<and>
   (\<forall>j \<in> set history. job_status j \<in> {''queued'', ''processing'', ''completed'', ''failed''}) \<and>
   successively status_step history \<and>
   (\<forall>j \<in> set (butlast history).
      job_status j \<in> {''queued'', ''processing''} \<and> job_result j = None \<and> job_error j = None \<and>
      job_completedAt j = None \<and> job_failedAt j = None) \<and>
   ((job_status (last history) = ''completed'' \<and> job_result (last history) \<noteq> None \<and>
     job_error (last history) = None \<and> job_completedAt (last history) = Some endTime \<and>
     job_failedAt (last history) = None) \<or>
    (job_status (last history) = ''failed'' \<and> job_error (last history) \<noteq> None \<and>
     job_result (last history) = None \<and> job_failedAt (last history) = Some endTime \<and>
     job_completedAt (last history) = None))"
proof -
  from assms obtain uid uploadData where
    h: "history = \<lparr> job_id = evaluationId, job_uploadId = uid, job_status = ''queued'',
                     job_createdAt = createdTime,
                     job_message = ''Evaluation queued for processing'',
                     job_startedAt = None, job_result = None, job_completedAt = None,
                     job_error = None, job_failedAt = None \<rparr>
                   # processEvaluation w startTime endTime 
                   \<lparr> job_id = evaluationId, job_uploadId = uid, job_status = ''queued'',
                     job_createdAt = createdTime,
                     job_message = ''Evaluation queued for processing'',
                     job_startedAt = None, job_result = None, job_completedAt = None,
                     job_error = None, job_failedAt = None \<rparr> uploadData"
    by (auto simp: post_evaluate_def Let_def split: option.splits if_splits)
  define job where "job = \<lparr> job_id = evaluationId, job_uploadId = uid, job_status = ''queued'',
                     job_createdAt = createdTime,
                     job_message = ''Evaluation queued for processing'',
                     job_startedAt = None, job_result = None, job_completedAt = None,
                     job_error = None, job_failedAt = None \<rparr>"
  have j0: "job_status job = ''queued''" "job_result job = None" "job_error job = None"
    "job_completedAt job = None" "job_failedAt job = None"
    by (simp_all add: job_def)
  obtain js l where s: "processEvaluation w startTime endTime job uploadData = js @ [l]"
    "js \<noteq> []" "\<forall>j \<in> set js. in_progress job j"
    "(\<exists>m. l = job_failed (last js) m endTime) \<or> (\<exists>r. l = job_completed (last js) r endTime)"
    using processEvaluation_shape by blast
  have hist: "history = (job # js) @ [l]" using h s(1) by (simp add: job_def)
  have run: "job_status j = ''processing'' \<and> job_result j = None \<and> job_error j = None \<and>
         job_completedAt j = None \<and> job_failedAt j = None" if "j \<in> set js" for j
    using that s(3) j0 in_progress_queued by blast
  have lastjs: "last js \<in> set js" using s(2) by simp
  have 1: "history \<noteq> [] \<and> job_status (hd history) = ''queued''" by (simp add: hist j0)
  have bl: "butlast history = job # js" by (simp add: hist)
  have la: "last history = l" by (simp add: hist)
  have 3: "\<forall>j \<in> set (butlast history).
      job_status j \<in> {''queued'', ''processing''} \<and> job_result j = None \<and> job_error j = None \<and>
      job_completedAt j = None \<and> job_failedAt j = None"
    unfolding bl using run j0 by auto
  have 4: "(job_status l = ''completed'' \<and> job_result l \<noteq> None \<and>
     job_error l = None \<and> job_completedAt l = Some endTime \<and> job_failedAt l = None) \<or>
    (job_status l = ''failed'' \<and> job_error l \<noteq> None \<and>
     job_result l = None \<and> job_failedAt l = Some endTime \<and> job_completedAt l = None)"
    using s(4) run [OF lastjs] job_failed_fields job_completed_fields by auto
  have "successively status_step js"
    by (rule successively_all) (use run in \<open>simp add: status_step_def\<close>)
  moreover have "status_step job (hd js)"
    using s(2) run [of "hd js"] j0 by (simp add: status_step_def)
  ultimately have "successively status_step (job # js)"
    using s(2) by (cases js) auto
  moreover have "status_step (last (job # js)) l"
    using s(2) 4 run [OF lastjs] by (auto simp: status_step_def)
  ultimately have 2: "successively status_step history"
    unfolding hist by (subst successively_snoc) simp_all
  have 5: "\<forall>j \<in> set history.
             job_status j \<in> {''queued'', ''processing'', ''completed'', ''failed''}"
  proof
    fix j assume "j \<in> set history"
    then have "j \<in> set (butlast history) \<or> j = l"
      unfolding hist by auto
    then show "job_status j \<in> {''queued'', ''processing'', ''completed'', ''failed''}"
      using 3 4 by auto
  qed
  from 1 2 3 4 5 show ?thesis unfolding la by blast
qed


theorem job_lifecycle_witness:
  "post_evaluate
     \<lparr> w_documents = [], w_readFileSync = (\<lambda>p. Inr ''5 years of Node.js''),
       w_numberToString = (\<lambda>x. ''?''), w_maxArguments = 100000 \<rparr>
     \<lparr> uploadedFiles =
         [''u1'' \<mapsto> \<lparr> up_id = ''u1'',
                        up_cv = \<lparr> fi_filename = ''f1'', fi_originalName = ''cv.txt'',
                                  fi_path = ''uploads/f1'', fi_mimetype = ''text/plain'',
                                  fi_size = 18 \<rparr>,
                        up_project = \<lparr> fi_filename = ''f2'', fi_originalName = ''report.pdf'',
                                  fi_path = ''uploads/f2'', fi_mimetype = ''application/pdf'',
                                  fi_size = 2048 \<rparr>,
                        up_uploadedAt = 0, up_status = ''uploaded'' \<rparr>],
       evaluationJobs = Map.empty \<rparr>
     (Some ''u1'') ''e1'' 1 2 9
   = Json (''e1'',
       [\<lparr> job_id = ''e1'', job_uploadId = ''u1'', job_status = ''queued'', job_createdAt = 1,
          job_message = ''Evaluation queued for processing'', job_startedAt = None,
          job_result = None, job_completedAt = None, job_error = None, job_failedAt = None \<rparr>,
        \<lparr> job_id = ''e1'', job_uploadId = ''u1'', job_status = ''processing'', job_createdAt = 1,
          job_message = ''Running AI analysis pipeline...'', job_startedAt = Some 2,
          job_result = None, job_completedAt = None, job_error = None, job_failedAt = None \<rparr>,
        \<lparr> job_id = ''e1'', job_uploadId = ''u1'', job_status = ''processing'', job_createdAt = 1,
          job_message = ''Extracting text from uploaded files...'', job_startedAt = Some 2,
          job_result = None, job_completedAt = None, job_error = None, job_failedAt = None \<rparr>,
        \<lparr> job_id = ''e1'', job_uploadId = ''u1'', job_status = ''processing'', job_createdAt = 1,
          job_message = ''Analyzing CV with AI and retrieving job context...'',
          job_startedAt = Some 2,
          job_result = None, job_completedAt = None, job_error = None, job_failedAt = None \<rparr>,
        \<lparr> job_id = ''e1'', job_uploadId = ''u1'', job_status = ''failed'', job_createdAt = 1,
          job_message = ''AI evaluation failed - please try again'', job_startedAt = Some 2,
          job_result = None, job_completedAt = None,
          job_error = Some ''Job requirements not loaded'', job_failedAt = Some 9 \<rparr>]) \<and>
   successively status_step
       [\<lparr> job_id = ''e1'', job_uploadId = ''u1'', job_status = ''queued'', job_createdAt = 1,
          job_message = ''Evaluation queued for processing'', job_startedAt = None,
          job_result = None, job_completedAt = None, job_error = None, job_failedAt = None \<rparr>,
        \<lparr> job_id = ''e1'', job_uploadId = ''u1'', job_status = ''processing'', job_createdAt = 1,
          job_message = ''Running AI analysis pipeline...'', job_startedAt = Some 2,
          job_result = None, job_completedAt = None, job_error = None, job_failedAt = None \<rparr>,
        \<lparr> job_id = ''e1'', job_uploadId = ''u1'', job_status = ''processing'', job_createdAt = 1,
          job_message = ''Extracting text from uploaded files...'', job_startedAt = Some 2,
          job_result = None, job_completedAt = None, job_error = None, job_failedAt = None \<rparr>,
        \<lparr> job_id = ''e1'', job_uploadId = ''u1'', job_status = ''processing'', job_createdAt = 1,
          job_message = ''Analyzing CV with AI and retrieving job context...'',
          job_startedAt = Some 2,
          job_result = None, job_completedAt = None, job_error = None, job_failedAt = None \<rparr>,
        \<lparr> job_id = ''e1'', job_uploadId = ''u1'', job_status = ''failed'', job_createdAt = 1,
          job_message = ''AI evaluation failed - please try again'', job_startedAt = Some 2,
          job_result = None, job_completedAt = None,
          job_error = Some ''Job requirements not loaded'', job_failedAt = Some 9 \<rparr>]"
proof -
  let ?w = "\<lparr> w_documents = [], w_readFileSync = (\<lambda>p. Inr ''5 years of Node.js''),
       w_numberToString = (\<lambda>x. ''?''), w_maxArguments = 100000 \<rparr>"
  have cv: "evaluateCVMatch (w_documents ?w) c j = Inl ''Job requirements not loaded''" for c j
    by (simp add: evaluateCVMatch_def getContextForCVEvaluation_def getJobRequirements_def)
  have "length (yearMatches ''5 years of Node.js'') \<le> 100000"
    by (simp only: yearMatches_example) simp
  from extractCVInfo_Inr [OF this]
  obtain c where ex: "extractCVInfo 100000 ''5 years of Node.js'' = Inr c" by blast
  have tx: "extractFileContent (\<lambda>p. Inr ''5 years of Node.js'')
              \<lparr> fi_filename = ''f1'', fi_originalName = ''cv.txt'', fi_path = ''uploads/f1'',
                fi_mimetype = ''text/plain'', fi_size = 18 \<rparr> = ''5 years of Node.js''"
    by (simp add: extractFileContent_def extractFileContent_try_def)
  have e: "post_evaluate ?w
     \<lparr> uploadedFiles =
         [''u1'' \<mapsto> \<lparr> up_id = ''u1'',
                        up_cv = \<lparr> fi_filename = ''f1'', fi_originalName = ''cv.txt'',
                                  fi_path = ''uploads/f1'', fi_mimetype = ''text/plain'',
                                  fi_size = 18 \<rparr>,
                        up_project = \<lparr> fi_filename = ''f2'', fi_originalName = ''report.pdf'',
                                  fi_path = ''uploads/f2'', fi_mimetype = ''application/pdf'',
                                  fi_size = 2048 \<rparr>,
                        up_uploadedAt = 0, up_status = ''uploaded'' \<rparr>],
       evaluationJobs = Map.empty \<rparr>
     (Some ''u1'') ''e1'' 1 2 9
   = Json (''e1'',
       [\<lparr> job_id = ''e1'', job_uploadId = ''u1'', job_status = ''queued'', job_createdAt = 1,
          job_message = ''Evaluation queued for processing'', job_startedAt = None,
          job_result = None, job_completedAt = None, job_error = None, job_failedAt = None \<rparr>,
        \<lparr> job_id = ''e1'', job_uploadId = ''u1'', job_status = ''processing'', job_createdAt = 1,
          job_message = ''Running AI analysis pipeline...'', job_startedAt = Some 2,
          job_result = None, job_completedAt = None, job_error = None, job_failedAt = None \<rparr>,
        \<lparr> job_id = ''e1'', job_uploadId = ''u1'', job_status = ''processing'', job_createdAt = 1,
          job_message = ''Extracting text from uploaded files...'', job_startedAt = Some 2,
          job_result = None, job_completedAt = None, job_error = None, job_failedAt = None \<rparr>,
        \<lparr> job_id = ''e1'', job_uploadId = ''u1'', job_status = ''processing'', job_createdAt = 1,
          job_message = ''Analyzing CV with AI and retrieving job context...'',
          job_startedAt = Some 2,
          job_result = None, job_completedAt = None, job_error = None, job_failedAt = None \<rparr>,
        \<lparr> job_id = ''e1'', job_uploadId = ''u1'', job_status = ''failed'', job_createdAt = 1,
          job_message = ''AI evaluation failed - please try again'', job_startedAt = Some 2,
          job_result = None, job_completedAt = None,
          job_error = Some ''Job requirements not loaded'', job_failedAt = Some 9 \<rparr>])"
    unfolding post_evaluate_def processEvaluation_def Let_def cv
    by (simp add: job_failed_def tx ex)
  from job_lifecycle [OF e] e show ?thesis by blast
qed

section \<open>Text extraction\<close>

lemma getJobRequirements_Inl:
  "getJobRequirements documents (Some q) = Inl m \<longleftrightarrow>
     find (\<lambda>doc. doc_id doc = ''job-requirements'') documents = None \<and>
     m = ''Job requirements not loaded''"
  by (auto simp: getJobRequirements_def split: option.splits)

lemma getScoringRubric_Inl:
  "getScoringRubric documents (Some q) = Inl m \<longleftrightarrow>
     find (\<lambda>doc. doc_id doc = ''scoring-rubric'') documents = None \<and>
     m = ''Scoring rubric not loaded''"
  by (auto simp: getScoringRubric_def split: option.splits)

lemma evaluateCVMatch_Inl:
  "evaluateCVMatch documents cvStructured jobContext = Inl m \<longleftrightarrow>
     (find (\<lambda>doc. doc_id doc = ''job-requirements'') documents = None \<and>
      m = ''Job requirements not loaded'') \<or>
     (find (\<lambda>doc. doc_id doc = ''job-requirements'') documents \<noteq> None \<and>
      find (\<lambda>doc. doc_id doc = ''scoring-rubric'') documents = None \<and>
      m = ''Scoring rubric not loaded'')"
proof -
  have "evaluateCVMatch documents cvStructured jobContext = Inl m \<longleftrightarrow>
        getContextForCVEvaluation documents = Inl m"
    by (simp add: evaluateCVMatch_def Let_def split: sum.splits)
  also have "\<dots> \<longleftrightarrow>
     getJobRequirements documents
       (Some ''technical skills experience backend requirements'') = Inl m \<or>
     (\<exists>t. getJobRequirements documents
       (Some ''technical skills experience backend requirements'') = Inr t) \<and>
     getScoringRubric documents (Some ''CV evaluation technical skills experience'') = Inl m"
    by (auto simp: getContextForCVEvaluation_def split: sum.splits)
  also have "(\<exists>t. getJobRequirements documents
       (Some ''technical skills experience backend requirements'') = Inr t) \<longleftrightarrow>
     find (\<lambda>doc. doc_id doc = ''job-requirements'') documents \<noteq> None"
    by (auto simp: getJobRequirements_def split: option.splits)
  finally show ?thesis
    by (simp only: getJobRequirements_Inl getScoringRubric_Inl)
qed

lemma evaluateCVMatch_Inr:
  assumes "evaluateCVMatch documents cvStructured jobContext = Inr r"
  shows "find (\<lambda>doc. doc_id doc = ''job-requirements'') documents \<noteq> None \<and>
         find (\<lambda>doc. doc_id doc = ''scoring-rubric'') documents \<noteq> None"
  using assms
    evaluateCVMatch_Inl [of documents cvStructured jobContext "''Job requirements not loaded''"]
    evaluateCVMatch_Inl [of documents cvStructured jobContext "''Scoring rubric not loaded''"]
  by auto

lemma evaluateProject_Inl:
  "evaluateProject documents projectText scoringRubric = Inl m \<longleftrightarrow>
     (find (\<lambda>doc. doc_id doc = ''scoring-rubric'') documents = None \<and>
      m = ''Scoring rubric not loaded'') \<or>
     (find (\<lambda>doc. doc_id doc = ''scoring-rubric'') documents \<noteq> None \<and>
      find (\<lambda>doc. doc_id doc = ''job-requirements'') documents = None \<and>
      m = ''Job requirements not loaded'')"
proof -
  have "evaluateProject documents projectText scoringRubric = Inl m \<longleftrightarrow>
        getContextForProjectEvaluation documents = Inl m"
    by (simp add: evaluateProject_def Let_def split: sum.splits)
  also have "\<dots> \<longleftrightarrow>
     getScoringRubric documents
       (Some ''project evaluation correctness code quality resilience'') = Inl m \<or>
     (\<exists>t. getScoringRubric documents
       (Some ''project evaluation correctness code quality resilience'') = Inr t) \<and>
     getJobRequirements documents
       (Some ''LLM chaining RAG implementation error handling'') = Inl m"
    by (auto simp: getContextForProjectEvaluation_def split: sum.splits)
  also have "(\<exists>t. getScoringRubric documents
       (Some ''project evaluation correctness code quality resilience'') = Inr t) \<longleftrightarrow>
     find (\<lambda>doc. doc_id doc = ''scoring-rubric'') documents \<noteq> None"
    by (auto simp: getScoringRubric_def split: option.splits)
  finally show ?thesis
    by (simp only: getJobRequirements_Inl getScoringRubric_Inl)
qed

lemma processEvaluation_prefix:
  "\<exists>j1 j2 j3 rest.
     processEvaluation w startTime endTime job uploadData = j1 # j2 # j3 # rest \<and> rest \<noteq> [] \<and>
     job_status j1 = ''processing'' \<and> job_status j2 = ''processing'' \<and>
     job_status j3 = ''processing'' \<and>
     job_message j2 = ''Extracting text from uploaded files...'' \<and>
     job_message j3 = ''Analyzing CV with AI and retrieving job context...''"
  unfolding processEvaluation_def Let_def
  by (simp split: sum.split)

lemma length_yearMatches: "length (yearMatches t) \<le> length t"
proof (induction t rule: yearMatches.induct)
  case 1
  then show ?case by simp
next
  case (2 c cs)
  show ?case
  proof (cases "isDigit c")
    case False
    with 2 show ?thesis by simp
  next
    case d: True
    define rest where "rest = dropWhile isSpace (dropWhile isDigit cs)"
    have r: "length rest \<le> length cs"
      unfolding rest_def
      by (rule order_trans [OF length_dropWhile_le length_dropWhile_le])
    have k: "length (dropWhile isDigit cs) \<le> length cs" by (rule length_dropWhile_le)
    show ?thesis
    proof (cases "startsWith (toLowerCase rest) ''year'' \<or> startsWith (toLowerCase rest) ''yr''")
      case True
      with 2(1) [OF d refl rest_def] have "length (yearMatches rest) \<le> length rest"
        by simp
      with d True r show ?thesis by (simp add: rest_def [symmetric] Let_def)
    next
      case False
      with 2(2) [OF d refl rest_def]
      have "length (yearMatches (dropWhile isDigit cs)) \<le> length (dropWhile isDigit cs)"
        by simp
      with d False k show ?thesis by (simp add: rest_def [symmetric] Let_def)
    qed
  qed
qed

text \<open>A job fails exactly when \<open>extractCVInfo\<close> raises or a document of the store is
  missing, and its error is the message of the first of these steps.\<close>

lemma processEvaluation_failed:
  "job_status (last (processEvaluation w startTime endTime job uploadData)) = ''failed'' \<longleftrightarrow>
     w_maxArguments w
       < length (yearMatches (extractFileContent (w_readFileSync w) (up_cv uploadData))) \<or>
     find (\<lambda>doc. doc_id doc = ''job-requirements'') (w_documents w) = None \<or>
     find (\<lambda>doc. doc_id doc = ''scoring-rubric'') (w_documents w) = None"
proof (cases "extractCVInfo (w_maxArguments w)
                (extractFileContent (w_readFileSync w) (up_cv uploadData))")
  case (Inl m)
  then have "job_status (last (processEvaluation w startTime endTime job uploadData)) = ''failed''"
    unfolding processEvaluation_def Let_def by (simp add: job_failed_def)
  with Inl show ?thesis by (simp add: extractCVInfo_Inl)
next
  case ex: (Inr cvStructured)
  then have n: "\<not> w_maxArguments w
       < length (yearMatches (extractFileContent (w_readFileSync w) (up_cv uploadData)))"
    using extractCVInfo_Inl
      [of "w_maxArguments w" "extractFileContent (w_readFileSync w) (up_cv uploadData)"
          "''Maximum call stack size exceeded''"]
    by simp
  show ?thesis
  proof (cases "evaluateCVMatch (w_documents w) cvStructured
                  ''Backend developer role requiring Node.js, databases, APIs, and AI/LLM experience''")
    case (Inl m)
    with ex have "job_status (last (processEvaluation w startTime endTime job uploadData))
                   = ''failed''"
      unfolding processEvaluation_def Let_def by (simp add: job_failed_def)
    with Inl show ?thesis by (auto simp: evaluateCVMatch_Inl)
  next
    case cv: (Inr cvMatchRate)
    then have d: "find (\<lambda>doc. doc_id doc = ''job-requirements'') (w_documents w) \<noteq> None"
      "find (\<lambda>doc. doc_id doc = ''scoring-rubric'') (w_documents w) \<noteq> None"
      using evaluateCVMatch_Inr by blast+
    show ?thesis
    proof (cases "evaluateProject (w_documents w)
                    (extractFileContent (w_readFileSync w) (up_project uploadData))
                    ''Evaluate based on correctness, code quality, resilience, documentation, and creativity''")
      case (Inl m)
      with d show ?thesis by (auto simp: evaluateProject_Inl)
    next
      case (Inr projectScore)
      with ex cv have "job_status (last (processEvaluation w startTime endTime job uploadData))
                     = ''completed''"
        unfolding processEvaluation_def Let_def by (simp add: job_completed_def)
      with n d show ?thesis by simp
    qed
  qed
qed

lemma processEvaluation_error:
  assumes "job_status (last (processEvaluation w startTime endTime job uploadData)) = ''failed''"
  shows "job_error (last (processEvaluation w startTime endTime job uploadData)) =
     Some (if w_maxArguments w
                < length (yearMatches (extractFileContent (w_readFileSync w) (up_cv uploadData)))
           then ''Maximum call stack size exceeded''
           else if find (\<lambda>doc. doc_id doc = ''job-requirements'') (w_documents w) = None
           then ''Job requirements not loaded''
           else ''Scoring rubric not loaded'')"
proof (cases "extractCVInfo (w_maxArguments w)
                (extractFileContent (w_readFileSync w) (up_cv uploadData))")
  case (Inl m)
  then have "job_error (last (processEvaluation w startTime endTime job uploadData)) = Some m"
    unfolding processEvaluation_def Let_def by (simp add: job_failed_def)
  with Inl show ?thesis by (simp add: extractCVInfo_Inl)
next
  case ex: (Inr cvStructured)
  then have n: "\<not> w_maxArguments w
       < length (yearMatches (extractFileContent (w_readFileSync w) (up_cv uploadData)))"
    using extractCVInfo_Inl
      [of "w_maxArguments w" "extractFileContent (w_readFileSync w) (up_cv uploadData)"
          "''Maximum call stack size exceeded''"]
    by simp
  show ?thesis
  proof (cases "evaluateCVMatch (w_documents w) cvStructured
                  ''Backend developer role requiring Node.js, databases, APIs, and AI/LLM experience''")
    case (Inl m)
    with ex have "job_error (last (processEvaluation w startTime endTime job uploadData)) = Some m"
      unfolding processEvaluation_def Let_def by (simp add: job_failed_def)
    with Inl n show ?thesis by (auto simp: evaluateCVMatch_Inl)
  next
    case cv: (Inr cvMatchRate)
    then have d: "find (\<lambda>doc. doc_id doc = ''job-requirements'') (w_documents w) \<noteq> None"
      "find (\<lambda>doc. doc_id doc = ''scoring-rubric'') (w_documents w) \<noteq> None"
      using evaluateCVMatch_Inr by blast+
    from assms n d show ?thesis by (simp add: processEvaluation_failed)
  qed
qed

text \<open>
  The failure of \<open>Math.max(...years)\<close>, on an engine whose stack takes one argument: with
  both documents in the store and a CV file that reads \<open>1yr 2yr\<close>, the job fails with the
  message of the \<open>RangeError\<close>.
\<close>

lemma spread_failure_example:
  "job_status (last (processEvaluation
       \<lparr> w_documents = example_documents, w_readFileSync = (\<lambda>p. Inr ''1yr 2yr''),
         w_numberToString = (\<lambda>x. ''?''), w_maxArguments = 1 \<rparr> 2 9 job example_upload))
     = ''failed'' \<and>
   job_error (last (processEvaluation
       \<lparr> w_documents = example_documents, w_readFileSync = (\<lambda>p. Inr ''1yr 2yr''),
         w_numberToString = (\<lambda>x. ''?''), w_maxArguments = 1 \<rparr> 2 9 job example_upload))
     = Some ''Maximum call stack size exceeded''"
proof -
  define w where "w = \<lparr> w_documents = example_documents,
       w_readFileSync = (\<lambda>p. Inr ''1yr 2yr''),
       w_numberToString = (\<lambda>x. ''?''), w_maxArguments = 1 \<rparr>"
  have y: "yearMatches ''1yr 2yr'' = [enat 1, enat 2]"
    by (simp add: isDigit_def isSpace_def startsWith_def toLowerCase_def lowerChar_def
        parseInt_digits_def parseDigits_def Let_def)
  have tx: "extractFileContent (w_readFileSync w) (up_cv example_upload) = ''1yr 2yr''"
    by (simp add: w_def example_upload_def extractFileContent_def extractFileContent_try_def)
  have lim: "w_maxArguments w
               < length (yearMatches (extractFileContent (w_readFileSync w) (up_cv example_upload)))"
    unfolding tx y by (simp add: w_def)
  then have f: "job_status (last (processEvaluation w 2 9 job example_upload)) = ''failed''"
    by (simp only: processEvaluation_failed simp_thms)
  from processEvaluation_error [OF f] lim
  have "job_error (last (processEvaluation w 2 9 job example_upload))
          = Some ''Maximum call stack size exceeded''"
    by (simp only: if_True)
  with f show ?thesis unfolding w_def by (intro conjI)
qed

text \<open>
  Claim C10. \<open>extractFileContent\<close> returns a string for every file record and every
  behaviour of the file system: the contents of a \<open>text/plain\<close> file, the message
  \<open>Unable to extract content from <name>: <message>\<close> when reading it fails, and the
  fixed mock text for any other type. In \<open>processEvaluation\<close> the records written up to
  and after the extraction step are \<open>processing\<close> whatever the file system does. A job
  fails exactly when a later step raises: \<open>extractCVInfo\<close>, on a CV text with more year
  matches than the engine's stack takes as the arguments of \<open>Math.max\<close>, or the lookup of a
  document that the store does not hold; its error is the message of that step.
\<close>

theorem extractFileContent_total:
  "extractFileContent readFileSync fileInfo =
     (if fi_mimetype fileInfo = ''text/plain''
      then (case readFileSync (fi_path fileInfo) of
              Inr content \<Rightarrow> content
            | Inl message \<Rightarrow>
                ''Unable to extract content from '' @ fi_originalName fileInfo @ '': '' @ message)
      else [CHR 0x0A] @
           ''    Mock extracted content from '' @ fi_originalName fileInfo @ [CHR 0x0A] @
           ''    File size: '' @ decimal (fi_size fileInfo) @ '' bytes'' @ [CHR 0x0A] @
           ''    File type: '' @ fi_mimetype fileInfo @ [CHR 0x0A] @
           ''    '' @ [CHR 0x0A] @
           ''    [In production, this would contain the actual extracted text from PDF/DOCX files]'' @ [CHR 0x0A] @
           ''    This mock demonstrates text extraction functionality for non-text files.'' @ [CHR 0x0A] @
           ''    '') \<and>
   (\<exists>j1 j2 j3 rest.
      processEvaluation w startTime endTime job uploadData = j1 # j2 # j3 # rest \<and> rest \<noteq> [] \<and>
      job_status j1 = ''processing'' \<and> job_status j2 = ''processing'' \<and>
      job_status j3 = ''processing'' \<and>
      job_message j2 = ''Extracting text from uploaded files...'' \<and>
      job_message j3 = ''Analyzing CV with AI and retrieving job context...'') \<and>
   (job_status (last (processEvaluation w startTime endTime job uploadData)) = ''failed'' \<longleftrightarrow>
      w_maxArguments w
        < length (yearMatches (extractFileContent (w_readFileSync w) (up_cv uploadData))) \<or>
      find (\<lambda>doc. doc_id doc = ''job-requirements'') (w_documents w) = None \<or>
      find (\<lambda>doc. doc_id doc = ''scoring-rubric'') (w_documents w) = None) \<and>
   (job_status (last (processEvaluation w startTime endTime job uploadData)) = ''failed'' \<longrightarrow>
      job_error (last (processEvaluation w startTime endTime job uploadData)) =
        Some (if w_maxArguments w
                   < length (yearMatches
                       (extractFileContent (w_readFileSync w) (up_cv uploadData)))
              then ''Maximum call stack size exceeded''
              else if find (\<lambda>doc. doc_id doc = ''job-requirements'') (w_documents w) = None
              then ''Job requirements not loaded''
              else ''Scoring rubric not loaded''))"
proof -
  have 1: "extractFileContent readFileSync fileInfo =
     (if fi_mimetype fileInfo = ''text/plain''
      then (case readFileSync (fi_path fileInfo) of
              Inr content \<Rightarrow> content
            | Inl message \<Rightarrow>
                ''Unable to extract content from '' @ fi_originalName fileInfo @ '': '' @ message)
      else [CHR 0x0A] @
           ''    Mock extracted content from '' @ fi_originalName fileInfo @ [CHR 0x0A] @
           ''    File size: '' @ decimal (fi_size fileInfo) @ '' bytes'' @ [CHR 0x0A] @
           ''    File type: '' @ fi_mimetype fileInfo @ [CHR 0x0A] @
           ''    '' @ [CHR 0x0A] @
           ''    [In production, this would contain the actual extracted text from PDF/DOCX files]'' @ [CHR 0x0A] @
           ''    This mock demonstrates text extraction functionality for non-text files.'' @ [CHR 0x0A] @
           ''    '')"
    by (simp add: extractFileContent_def extractFileContent_try_def mockContent_def newline_def
        split: sum.splits)
  note 2 = processEvaluation_prefix [of w startTime endTime job uploadData]
  note 3 = processEvaluation_failed [of w startTime endTime job uploadData]
  have 4: "job_status (last (processEvaluation w startTime endTime job uploadData)) = ''failed'' \<longrightarrow>
      job_error (last (processEvaluation w startTime endTime job uploadData)) =
        Some (if w_maxArguments w
                   < length (yearMatches
                       (extractFileContent (w_readFileSync w) (up_cv uploadData)))
              then ''Maximum call stack size exceeded''
              else if find (\<lambda>doc. doc_id doc = ''job-requirements'') (w_documents w) = None
              then ''Job requirements not loaded''
              else ''Scoring rubric not loaded'')"
    using processEvaluation_error [of w startTime endTime job uploadData] by blast
  show ?thesis
    apply (rule conjI)
     apply (rule 1)
    apply (rule conjI)
     apply (rule 2)
    apply (rule conjI)
     apply (rule 3)
    apply (rule 4)
    done
qed

theorem extractFileContent_total_witness:
  "extractFileContent (\<lambda>p. Inl ''ENOENT: no such file or directory'')
     \<lparr> fi_filename = ''f1'', fi_originalName = ''cv.txt'', fi_path = ''uploads/f1'',
       fi_mimetype = ''text/plain'', fi_size = 18 \<rparr>
     = ''Unable to extract content from cv.txt: ENOENT: no such file or directory'' \<and>
   job_status (last (processEvaluation
     \<lparr> w_documents = [], w_readFileSync = (\<lambda>p. Inl ''ENOENT: no such file or directory''),
       w_numberToString = (\<lambda>x. ''?''), w_maxArguments = 100000 \<rparr> 2 9
     \<lparr> job_id = ''e1'', job_uploadId = ''u1'', job_status = ''queued'', job_createdAt = 0,
       job_message = ''Evaluation queued for processing'', job_startedAt = None,
       job_result = None, job_completedAt = None, job_error = None, job_failedAt = None \<rparr>
     \<lparr> up_id = ''u1'',
       up_cv = \<lparr> fi_filename = ''f1'', fi_originalName = ''cv.txt'', fi_path = ''uploads/f1'',
                 fi_mimetype = ''text/plain'', fi_size = 18 \<rparr>,
       up_project = \<lparr> fi_filename = ''f2'', fi_originalName = ''report.pdf'',
                 fi_path = ''uploads/f2'', fi_mimetype = ''application/pdf'', fi_size = 2048 \<rparr>,
       up_uploadedAt = 0, up_status = ''uploaded'' \<rparr>)) = ''failed'' \<and>
   job_error (last (processEvaluation
     \<lparr> w_documents = [], w_readFileSync = (\<lambda>p. Inl ''ENOENT: no such file or directory''),
       w_numberToString = (\<lambda>x. ''?''), w_maxArguments = 100000 \<rparr> 2 9
     \<lparr> job_id = ''e1'', job_uploadId = ''u1'', job_status = ''queued'', job_createdAt = 0,
       job_message = ''Evaluation queued for processing'', job_startedAt = None,
       job_result = None, job_completedAt = None, job_error = None, job_failedAt = None \<rparr>
     \<lparr> up_id = ''u1'',
       up_cv = \<lparr> fi_filename = ''f1'', fi_originalName = ''cv.txt'', fi_path = ''uploads/f1'',
                 fi_mimetype = ''text/plain'', fi_size = 18 \<rparr>,
       up_project = \<lparr> fi_filename = ''f2'', fi_originalName = ''report.pdf'',
                 fi_path = ''uploads/f2'', fi_mimetype = ''application/pdf'', fi_size = 2048 \<rparr>,
       up_uploadedAt = 0, up_status = ''uploaded'' \<rparr>)) = Some ''Job requirements not loaded''"
proof -
  define w where "w = \<lparr> w_documents = [],
       w_readFileSync = (\<lambda>p. Inl ''ENOENT: no such file or directory''),
       w_numberToString = (\<lambda>x. ''?''), w_maxArguments = 100000 \<rparr>"
  define cv where "cv = \<lparr> fi_filename = ''f1'', fi_originalName = ''cv.txt'',
       fi_path = ''uploads/f1'', fi_mimetype = ''text/plain'', fi_size = 18 \<rparr>"
  define u where "u = \<lparr> up_id = ''u1'', up_cv = cv,
       up_project = \<lparr> fi_filename = ''f2'', fi_originalName = ''report.pdf'',
                 fi_path = ''uploads/f2'', fi_mimetype = ''application/pdf'', fi_size = 2048 \<rparr>,
       up_uploadedAt = 0, up_status = ''uploaded'' \<rparr>"
  define j where "j = \<lparr> job_id = ''e1'', job_uploadId = ''u1'', job_status = ''queued'',
       job_createdAt = 0, job_message = ''Evaluation queued for processing'',
       job_startedAt = None, job_result = None, job_completedAt = None, job_error = None,
       job_failedAt = None \<rparr>"
  note t = extractFileContent_total [of "\<lambda>p. Inl ''ENOENT: no such file or directory''" cv w 2 9 j u]
  have tx: "extractFileContent (\<lambda>p. Inl ''ENOENT: no such file or directory'') cv
              = ''Unable to extract content from cv.txt: ENOENT: no such file or directory''"
    using t [THEN conjunct1] by (simp add: cv_def)
  have "length (yearMatches (extractFileContent (w_readFileSync w) (up_cv u)))
          \<le> length (extractFileContent (w_readFileSync w) (up_cv u))"
    by (rule length_yearMatches)
  also have "\<dots> \<le> 100000" by (simp add: w_def u_def tx)
  finally have lim: "\<not> w_maxArguments w
                      < length (yearMatches (extractFileContent (w_readFileSync w) (up_cv u)))"
    by (simp add: w_def)
  have docs: "find (\<lambda>doc. doc_id doc = ''job-requirements'') (w_documents w) = None"
    by (simp add: w_def)
  from t docs have f: "job_status (last (processEvaluation w 2 9 j u)) = ''failed''"
    by blast
  with t have "job_error (last (processEvaluation w 2 9 j u)) =
        Some (if w_maxArguments w
                   < length (yearMatches (extractFileContent (w_readFileSync w) (up_cv u)))
              then ''Maximum call stack size exceeded''
              else if find (\<lambda>doc. doc_id doc = ''job-requirements'') (w_documents w) = None
              then ''Job requirements not loaded''
              else ''Scoring rubric not loaded'')"
    by blast
  with lim docs have e: "job_error (last (processEvaluation w 2 9 j u))
                          = Some ''Job requirements not loaded''"
    by simp
  from tx f e show ?thesis
    unfolding w_def cv_def u_def j_def by (intro conjI)
qed

section \<open>Hiring recommendation\<close>

text \<open>
  Claim C6. The recommendation of the overall summary is chosen from the CV score and the
  project score by the thresholds 80 and 4.0, then 70 and 3.5, then 60 and 3.0, tested in
  this order, and the summary text opens with it.
\<close>

theorem hiring_recommendation:
  "(recommendation cv proj = ''Strong candidate - highly recommended for hire''
      \<longleftrightarrow> cv \<ge> 80 \<and> proj \<ge> 4) \<and>
   (recommendation cv proj = ''Good candidate fit - recommended for final interview''
      \<longleftrightarrow> \<not> (cv \<ge> 80 \<and> proj \<ge> 4) \<and> cv \<ge> 70 \<and> proj \<ge> 35 / 10) \<and>
   (recommendation cv proj = ''Potential candidate - needs technical discussion''
      \<longleftrightarrow> \<not> (cv \<ge> 80 \<and> proj \<ge> 4) \<and> \<not> (cv \<ge> 70 \<and> proj \<ge> 35 / 10) \<and>
          cv \<ge> 60 \<and> proj \<ge> 3) \<and>
   (recommendation cv proj = ''Requires further development before consideration''
      \<longleftrightarrow> \<not> (cv \<ge> 80 \<and> proj \<ge> 4) \<and> \<not> (cv \<ge> 70 \<and> proj \<ge> 35 / 10) \<and>
          \<not> (cv \<ge> 60 \<and> proj \<ge> 3)) \<and>
   prefix (''Overall Assessment: '' @
             recommendation (mr_score cvMatchRate) (pr_overallScore projectScore) @
             ''. CV match of '')
     (generateOverallSummary numberToString cvMatchRate cvFeedback projectScore projectFeedback)"
proof -
  have p: "prefix (''Overall Assessment: '' @
             recommendation (mr_score cvMatchRate) (pr_overallScore projectScore) @
             ''. CV match of '')
     (generateOverallSummary numberToString cvMatchRate cvFeedback projectScore projectFeedback)"
  proof (rule prefixI)
    show "generateOverallSummary numberToString cvMatchRate cvFeedback projectScore projectFeedback
        = (''Overall Assessment: '' @
             recommendation (mr_score cvMatchRate) (pr_overallScore projectScore) @
             ''. CV match of '') @
          (showInt (mr_score cvMatchRate) @ ''% shows '' @
           (if mr_score cvMatchRate \<ge> 75 then ''strong''
            else if mr_score cvMatchRate \<ge> 60 then ''good'' else ''moderate'') @
           '' alignment with requirements. Project score of '' @
           numberToString (pr_overallScore projectScore) @ ''/5 indicates '' @
           (if pr_overallScore projectScore \<ge> 4 then ''excellent''
            else if pr_overallScore projectScore \<ge> 35 / 10 then ''solid'' else ''developing'') @
           '' technical execution.'')"
      unfolding generateOverallSummary_def Let_def by (simp only: append_assoc)
  qed
  have r: "(recommendation cv proj = ''Strong candidate - highly recommended for hire''
      \<longleftrightarrow> cv \<ge> 80 \<and> proj \<ge> 4) \<and>
   (recommendation cv proj = ''Good candidate fit - recommended for final interview''
      \<longleftrightarrow> \<not> (cv \<ge> 80 \<and> proj \<ge> 4) \<and> cv \<ge> 70 \<and> proj \<ge> 35 / 10) \<and>
   (recommendation cv proj = ''Potential candidate - needs technical discussion''
      \<longleftrightarrow> \<not> (cv \<ge> 80 \<and> proj \<ge> 4) \<and> \<not> (cv \<ge> 70 \<and> proj \<ge> 35 / 10) \<and>
          cv \<ge> 60 \<and> proj \<ge> 3) \<and>
   (recommendation cv proj = ''Requires further development before consideration''
      \<longleftrightarrow> \<not> (cv \<ge> 80 \<and> proj \<ge> 4) \<and> \<not> (cv \<ge> 70 \<and> proj \<ge> 35 / 10) \<and>
          \<not> (cv \<ge> 60 \<and> proj \<ge> 3))"
    unfolding recommendation_def by simp
  from r p show ?thesis by (simp only: simp_thms)
qed

theorem hiring_recommendation_witness:
  "recommendation 72 (37 / 10) = ''Good candidate fit - recommended for final interview'' \<and>
   recommendation 85 (39 / 10) = ''Good candidate fit - recommended for final interview'' \<and>
   recommendation 59 5 = ''Requires further development before consideration''"
  using hiring_recommendation [of 72 "37 / 10"] hiring_recommendation [of 85 "39 / 10"]
    hiring_recommendation [of 59 5]
  by simp

section \<open>Rounding to binary64\<close>

text \<open>The exponent brackets its argument, and rounding a positive number moves it by at
  most half a unit in the last place without leaving the binade's closed range.\<close>

lemma bitlength_bounds: "0 < n \<Longrightarrow> 2 ^ (bitlength n - 1) \<le> n \<and> n < 2 ^ bitlength n"
proof (induction n rule: bitlength.induct)
  case (1 n)
  show ?case
  proof (cases "n div 2 = 0")
    case True
    with 1 have "n = 1" by (simp add: div_eq_0_iff) 
    then show ?thesis by simp
  next
    case False
    with 1 have ih: "2 ^ (bitlength (n div 2) - 1) \<le> n div 2" "n div 2 < 2 ^ bitlength (n div 2)"
      by auto
    have b: "bitlength n = Suc (bitlength (n div 2))" using 1 by simp
    have pos: "0 < bitlength (n div 2)" using False by simp
    have "2 ^ (bitlength n - 1) = 2 * 2 ^ (bitlength (n div 2) - 1)"
      using b pos by (cases "bitlength (n div 2)") auto
    also have "\<dots> \<le> 2 * (n div 2)" using ih(1) by simp
    also have "\<dots> \<le> n" by simp
    finally have l: "2 ^ (bitlength n - 1) \<le> n" .
    have "n < 2 * (n div 2) + 2" by presburger
    also have "\<dots> \<le> 2 * 2 ^ bitlength (n div 2)" using ih(2) by simp
    finally have "n < 2 ^ bitlength n" using b by simp
    with l show ?thesis by simp
  qed
qed


lemma ilog2_bounds:
  assumes "0 < x"
  shows "2 powi (ilog2 x) \<le> x \<and> x < 2 powi (ilog2 x + 1)"
proof -
  obtain p q where pq: "quotient_of x = (p, q)" by (cases "quotient_of x")
  then have q: "0 < q" by (rule quotient_of_denom_pos)
  have x: "x = of_int p / of_int q" using pq by (rule quotient_of_div)
  with assms q have p: "0 < p" by (simp add: zero_less_divide_iff)
  define a where "a = bitlength (nat p)"
  define b where "b = bitlength (nat q)"
  have A: "2 ^ (a - 1) \<le> nat p \<and> nat p < 2 ^ a"
    unfolding a_def using p by (intro bitlength_bounds) simp
  have B: "2 ^ (b - 1) \<le> nat q \<and> nat q < 2 ^ b"
    unfolding b_def using q by (intro bitlength_bounds) simp
  have a1: "1 \<le> a" using p by (simp add: a_def)
  have b1: "1 \<le> b" using q by (simp add: b_def)
  have pa: "(2::rat) ^ (a - 1) \<le> of_int p" "of_int p < (2::rat) ^ a"
  proof -
    from A have "int (2 ^ (a - 1)) \<le> int (nat p)" "int (nat p) < int (2 ^ a)"
      by (simp_all only: of_nat_le_iff of_nat_less_iff)
    with p have "2 ^ (a - 1) \<le> p" "p < 2 ^ a" by simp_all
    then have "rat_of_int (2 ^ (a - 1)) \<le> of_int p" "rat_of_int p < of_int (2 ^ a)"
      by (simp_all only: of_int_le_iff of_int_less_iff)
    then show "(2::rat) ^ (a - 1) \<le> of_int p" "of_int p < (2::rat) ^ a" by simp_all
  qed
  have qb: "(2::rat) ^ (b - 1) \<le> of_int q" "of_int q < (2::rat) ^ b"
  proof -
    from B have "int (2 ^ (b - 1)) \<le> int (nat q)" "int (nat q) < int (2 ^ b)"
      by (simp_all only: of_nat_le_iff of_nat_less_iff)
    with q have "2 ^ (b - 1) \<le> q" "q < 2 ^ b" by simp_all
    then have "rat_of_int (2 ^ (b - 1)) \<le> of_int q" "rat_of_int q < of_int (2 ^ b)"
      by (simp_all only: of_int_le_iff of_int_less_iff)
    then show "(2::rat) ^ (b - 1) \<le> of_int q" "of_int q < (2::rat) ^ b" by simp_all
  qed
  define k where "k = int a - int b"
  have il: "ilog2 x = (if 2 powi k \<le> x then k else k - 1)"
    by (simp add: ilog2_def pq k_def a_def b_def Let_def)
  have low: "(2::rat) powi (k - 1) \<le> x"
  proof -
    have "(2::rat) powi (k - 1) = 2 powi (int (a - 1) - int b)"
      using a1 by (simp add: k_def of_nat_diff algebra_simps)
    also have "\<dots> = 2 ^ (a - 1) / 2 ^ b"
      by (simp add: power_int_diff)
    also have "\<dots> \<le> of_int p / of_int q"
      using pa(1) qb(2) q p by (intro frac_le) simp_all
    finally show ?thesis by (simp add: x)
  qed
  have up: "x < (2::rat) powi (k + 1)"
  proof -
    have "of_int p / of_int q < (2::rat) ^ a / of_int q"
      using pa(2) q by (simp add: divide_strict_right_mono)
    also have "\<dots> \<le> 2 ^ a / 2 ^ (b - 1)"
      using qb(1) by (intro frac_le) simp_all
    also have "\<dots> = 2 powi (int a - int (b - 1))"
      by (simp add: power_int_diff)
    also have "\<dots> = 2 powi (k + 1)"
      using b1 by (simp add: k_def of_nat_diff algebra_simps)
    finally show ?thesis by (simp add: x)
  qed
  show ?thesis
  proof (cases "2 powi k \<le> x")
    case True
    with il up show ?thesis by simp
  next
    case False
    with il low show ?thesis by simp
  qed
qed

lemma round_even_err: "\<bar>of_int (round_even m) - m\<bar> \<le> 1 / 2"
proof -
  have "of_int \<lfloor>m\<rfloor> \<le> m" "m < of_int \<lfloor>m\<rfloor> + 1" by linarith+
  then show ?thesis
    by (auto simp: round_even_def Let_def abs_le_iff)
qed

lemma round_even_le: "m \<le> of_int N \<Longrightarrow> round_even m \<le> N"
proof -
  assume a: "m \<le> of_int N"
  have f: "\<lfloor>m\<rfloor> \<le> N" using a by (simp add: floor_le_iff)
  show ?thesis
  proof (cases "\<lfloor>m\<rfloor> = N")
    case True
    then have "m - of_int \<lfloor>m\<rfloor> \<le> 0" using a by simp
    then show ?thesis using True by (simp add: round_even_def Let_def)
  next
    case False
    with f have "\<lfloor>m\<rfloor> + 1 \<le> N" by simp
    with f show ?thesis by (auto simp: round_even_def Let_def)
  qed
qed

lemma round_even_ge: "of_int N \<le> m \<Longrightarrow> N \<le> round_even m"
proof -
  assume a: "of_int N \<le> m"
  then have "N \<le> \<lfloor>m\<rfloor>" by (simp add: le_floor_iff)
  then show ?thesis by (auto simp: round_even_def Let_def)
qed


lemma rd_pos_err:
  assumes "0 < x"
  shows "\<bar>rd_pos x - x\<bar> \<le> 2 powi (ilog2 x - 53)"
proof -
  define e where "e = ilog2 x - 52"
  define s :: rat where "s = 2 powi e"
  have s: "0 < s" by (simp add: s_def)
  define n where "n = round_even (x / s)"
  have r: "rd_pos x = of_int n * s"
    by (simp add: rd_pos_def Let_def e_def s_def n_def)
  have "rd_pos x - x = (of_int n - x / s) * s"
    using s by (simp add: r field_simps)
  then have "\<bar>rd_pos x - x\<bar> = \<bar>of_int n - x / s\<bar> * s"
    using s by (simp add: abs_mult)
  also have "\<dots> \<le> (1 / 2) * s"
    using s round_even_err [of "x / s"] by (intro mult_right_mono) (simp_all add: n_def)
  also have "\<dots> = 2 powi (e - 1)"
    by (simp add: s_def power_int_diff)
  finally show ?thesis by (simp add: e_def)
qed

lemma rd_pos_bounds:
  assumes "0 < x"
  shows "2 powi (ilog2 x) \<le> rd_pos x \<and> rd_pos x \<le> 2 powi (ilog2 x + 1)"
proof -
  define e where "e = ilog2 x - 52"
  define s :: rat where "s = 2 powi e"
  have s: "0 < s" by (simp add: s_def)
  define n where "n = round_even (x / s)"
  have r: "rd_pos x = of_int n * s"
    by (simp add: rd_pos_def Let_def e_def s_def n_def)
  note b = ilog2_bounds [OF assms]
  have lo: "(2::rat) powi (ilog2 x) = of_int (2 ^ 52) * s"
    by (simp add: s_def e_def power_int_diff)
  have hi: "(2::rat) powi (ilog2 x + 1) = of_int (2 ^ 53) * s"
    by (simp add: s_def e_def power_int_diff power_int_add)
  have "of_int (2 ^ 52) \<le> x / s"
    using b s lo by (simp add: pos_le_divide_eq)
  then have n1: "2 ^ 52 \<le> n" unfolding n_def by (rule round_even_ge)
  have "x / s \<le> of_int (2 ^ 53)"
    using b s hi by (simp add: pos_divide_le_eq)
  then have n2: "n \<le> 2 ^ 53" unfolding n_def by (rule round_even_le)
  have "of_int (2 ^ 52) * s \<le> of_int n * s"
    using n1 s by (intro mult_right_mono) (simp_all only: of_int_le_iff less_imp_le)
  moreover have "of_int n * s \<le> of_int (2 ^ 53) * s"
    using n2 s by (intro mult_right_mono) (simp_all only: of_int_le_iff less_imp_le)
  ultimately show ?thesis by (simp only: r lo hi) 
qed

lemma two_powi_less_cancel: "(2::rat) powi a < 2 powi b \<Longrightarrow> a < b"
proof (rule ccontr)
  assume l: "(2::rat) powi a < 2 powi b" and "\<not> a < b"
  then have "b \<le> a" by simp
  then have "(2::rat) powi b \<le> 2 powi a" by (intro power_int_increasing) simp_all
  with l show False by simp
qed

lemma two_powi_mono: "a \<le> b \<Longrightarrow> (2::rat) powi a \<le> 2 powi b"
  by (intro power_int_increasing) simp_all

lemma ilog2_less: "0 < x \<Longrightarrow> x < 2 powi j \<Longrightarrow> ilog2 x < j"
proof -
  assume x: "0 < x" "x < 2 powi j"
  have "(2::rat) powi (ilog2 x) < 2 powi j"
    using ilog2_bounds [OF x(1)] x(2) by linarith
  then show ?thesis by (rule two_powi_less_cancel)
qed

lemma ilog2_ge: "0 < x \<Longrightarrow> 2 powi j \<le> x \<Longrightarrow> j \<le> ilog2 x"
proof -
  assume x: "0 < x" "2 powi j \<le> x"
  have "(2::rat) powi j < 2 powi (ilog2 x + 1)"
    using ilog2_bounds [OF x(1)] x(2) by linarith
  then have "j < ilog2 x + 1" by (rule two_powi_less_cancel)
  then show ?thesis by simp
qed

lemma rd_err:
  assumes "0 < x" "x < 2 powi j"
  shows "\<bar>rd x - x\<bar> \<le> 2 powi (j - 54)"
proof -
  have "ilog2 x - 53 \<le> j - 54" using ilog2_less [OF assms] by simp
  then have "(2::rat) powi (ilog2 x - 53) \<le> 2 powi (j - 54)"
    by (rule two_powi_mono)
  with rd_pos_err [OF assms(1)] assms(1) show ?thesis by (simp add: rd_def)
qed

lemma rd_ge: 
  assumes "2 powi j \<le> x"
  shows "2 powi j \<le> rd x"
proof -
  have "(0::rat) < 2 powi j" by simp
  with assms have x: "0 < x" by linarith
  have "(2::rat) powi j \<le> 2 powi (ilog2 x)"
    using ilog2_ge [OF x assms] by (rule two_powi_mono)
  with rd_pos_bounds [OF x] x show ?thesis by (simp add: rd_def)
qed

lemma rd_le:
  assumes "0 < x" "x < 2 powi j"
  shows "rd x \<le> 2 powi j"
proof -
  have "ilog2 x + 1 \<le> j" using ilog2_less [OF assms] by simp
  then have "(2::rat) powi (ilog2 x + 1) \<le> 2 powi j"
    by (rule two_powi_mono)
  with rd_pos_bounds [OF assms(1)] assms(1) show ?thesis by (simp add: rd_def)
qed

section \<open>Weighted scores\<close>

text \<open>Every number the weighted sums compute lies strictly between 0 and 128, where one
  rounding moves a value by at most \<open>rd_unit\<close>.\<close>

lemma rd_unit_bounds: "0 < rd_unit" "1000000 * rd_unit \<le> 1"
  by (simp_all add: rd_unit_def)

lemma rd_near:
  assumes "0 < x" "x < 128"
  shows "\<bar>rd x - x\<bar> \<le> rd_unit"
proof -
  have "x < 2 powi 7" using assms(2) by simp
  from rd_err [OF assms(1) this] show ?thesis
    by (simp add: power_int_minus field_simps rd_unit_def)
qed

lemma term_near:
  fixes s :: int and q :: rat
  assumes s: "1 \<le> s" "s \<le> 5" and q: "1 / 10 \<le> q" "q \<le> 1"
  shows "\<bar>fmul (of_int s) (rd q) - of_int s * q\<bar> \<le> 6 * rd_unit"
proof -
  note u = rd_unit_bounds
  have s': "(1::rat) \<le> of_int s" "of_int s \<le> (5::rat)" using s by simp_all
  have k: "\<bar>rd q - q\<bar> \<le> rd_unit" using q by (intro rd_near) simp_all
  have kb: "1 / 20 \<le> rd q" "rd q \<le> 2" using k q u by linarith+
  have "of_int s * (1 / 20) \<le> of_int s * rd q" using s' kb by (intro mult_left_mono) simp_all
  then have pos: "0 < of_int s * rd q" using s' by linarith
  have "of_int s * rd q \<le> 5 * 2" using s' kb by (intro mult_mono) simp_all
  then have lt: "of_int s * rd q < 128" by simp
  have e1: "\<bar>rd (of_int s * rd q) - of_int s * rd q\<bar> \<le> rd_unit"
    using pos lt by (rule rd_near)
  have "\<bar>of_int s * rd q - of_int s * q\<bar> = of_int s * \<bar>rd q - q\<bar>"
    using s' by (simp add: abs_mult flip: right_diff_distrib)
  also have "\<dots> \<le> 5 * rd_unit" using s' k by (intro mult_mono) simp_all
  finally have e2: "\<bar>of_int s * rd q - of_int s * q\<bar> \<le> 5 * rd_unit" .
  from e1 e2 show ?thesis unfolding fmul_def by linarith
qed

lemma sum_near:
  fixes a b x y :: rat
  assumes "\<bar>a - x\<bar> \<le> e1" "\<bar>b - y\<bar> \<le> e2"
    and "e1 \<le> 1 / 100" "e2 \<le> 1 / 100" "1 / 10 \<le> x" "1 / 10 \<le> y" "x + y \<le> 100"
  shows "\<bar>fadd a b - (x + y)\<bar> \<le> e1 + e2 + rd_unit"
proof -
  have pos: "0 < a + b" using assms by linarith
  have lt: "a + b < 128" using assms by linarith
  have "\<bar>rd (a + b) - (a + b)\<bar> \<le> rd_unit" using pos lt by (rule rd_near)
  with assms(1,2) show ?thesis unfolding fadd_def by linarith
qed

lemma scale_near:
  fixes a x c :: rat
  assumes "\<bar>a - x\<bar> \<le> e" "e \<le> 1 / 100" "1 \<le> x" "x \<le> 5" "1 \<le> c" "c \<le> 20"
  shows "\<bar>fmul a c - x * c\<bar> \<le> e * c + rd_unit"
proof -
  have ab: "99 / 100 \<le> a" "a \<le> 6" using assms by linarith+
  have "(99 / 100) * 1 \<le> a * c" using ab assms(5) by (intro mult_mono) simp_all
  then have pos: "0 < a * c" by simp
  have "a * c \<le> 6 * 20" using ab assms(5,6) by (intro mult_mono) simp_all
  then have lt: "a * c < 128" by simp
  have e1: "\<bar>rd (a * c) - a * c\<bar> \<le> rd_unit" using pos lt by (rule rd_near)
  have "\<bar>a * c - x * c\<bar> = \<bar>a - x\<bar> * c"
    using assms(5) by (simp add: abs_mult flip: left_diff_distrib)
  also have "\<dots> \<le> e * c" using assms(1,5) by (intro mult_right_mono) simp_all
  finally have e2: "\<bar>a * c - x * c\<bar> \<le> e * c" .
  from e1 e2 show ?thesis unfolding fmul_def by linarith
qed

lemma Math_round_near:
  fixes N :: int
  assumes "\<bar>x - of_int N\<bar> < 1 / 2"
  shows "Math_round x = N"
proof -
  have "of_int N \<le> x + 1 / 2" "x + 1 / 2 < of_int N + 1" using assms by linarith+
  then show ?thesis unfolding Math_round_def by (rule floor_unique)
qed

lemma Math_round_err: "\<bar>of_int (Math_round x) - x\<bar> \<le> 1 / 2"
  unfolding Math_round_def by linarith

text \<open>Each criterion score lies between 1 and 5, whatever the keyword tests find.\<close>

lemma if_chain_range:
  "1 \<le> (if a then 5 else if b then 4 else if c then 3 else if d then 2 else (1::int)) \<and>
   (if a then 5 else if b then 4 else if c then 3 else if d then 2 else (1::int)) \<le> 5"
  by simp

lemma scoreTechnicalSkillsWithRAG_range:
  "1 \<le> scoreTechnicalSkillsWithRAG skills jobRequirements \<and>
   scoreTechnicalSkillsWithRAG skills jobRequirements \<le> 5"
  unfolding scoreTechnicalSkillsWithRAG_def Let_def by (rule if_chain_range)

lemma scoreExperience_range: "1 \<le> scoreExperience years \<and> scoreExperience years \<le> 5"
  by (simp add: scoreExperience_def)

lemma Math_round_range:
  fixes x :: rat
  assumes "1 \<le> x" "x \<le> 5"
  shows "1 \<le> Math_round x \<and> Math_round x \<le> 5"
proof -
  have "1 \<le> \<lfloor>x + 1 / 2\<rfloor>" using assms(1) by (simp add: le_floor_iff)
  moreover have "\<lfloor>x + 1 / 2\<rfloor> < 6" using assms(2) by (simp add: floor_less_iff)
  ultimately show ?thesis by (simp add: Math_round_def)
qed

lemma experience_chain_range:
  fixes b :: rat
  assumes "1 \<le> b" "b \<le> 5"
  shows "1 \<le> Math_round (if A then min 5 ((if D then min 5 (b + 1) else b) + 1 / 2)
                            else (if D then min 5 (b + 1) else b)) \<and>
         Math_round (if A then min 5 ((if D then min 5 (b + 1) else b) + 1 / 2)
                            else (if D then min 5 (b + 1) else b)) \<le> 5"
  using assms by (intro Math_round_range) (simp_all add: min_def)

lemma scoreExperienceWithRAG_range:
  "1 \<le> scoreExperienceWithRAG years experienceRequirements \<and>
   scoreExperienceWithRAG years experienceRequirements \<le> 5"
proof -
  have b: "(1::rat) \<le> of_int (scoreExperience years)" "of_int (scoreExperience years) \<le> (5::rat)"
    using scoreExperience_range [of years] by simp_all
  show ?thesis
    unfolding scoreExperienceWithRAG_def Let_def
    by (rule experience_chain_range [OF b])
qed

lemma scoreAchievements_range:
  "2 \<le> scoreAchievements xs \<and> scoreAchievements xs \<le> 5"
  by (simp add: scoreAchievements_def)

lemma scoreCulturalFit_range:
  "2 \<le> scoreCulturalFit xs \<and> scoreCulturalFit xs \<le> 5"
  by (simp add: scoreCulturalFit_def)

lemma bonus_chain_range:
  "1 \<le> min 5 (Math_round
      (if e then (if d then (if c then (if b then (if a then (1::rat) + 1 else 1) + 1
                                         else (if a then 1 + 1 else 1)) + 1
                              else (if b then (if a then 1 + 1 else 1) + 1
                                    else (if a then 1 + 1 else 1))) + 1
                   else (if c then (if b then (if a then 1 + 1 else 1) + 1
                                    else (if a then 1 + 1 else 1)) + 1
                         else (if b then (if a then 1 + 1 else 1) + 1
                               else (if a then 1 + 1 else 1)))) + 1 / 2
       else (if d then (if c then (if b then (if a then 1 + 1 else 1) + 1
                                   else (if a then 1 + 1 else 1)) + 1
                        else (if b then (if a then 1 + 1 else 1) + 1
                              else (if a then 1 + 1 else 1))) + 1
             else (if c then (if b then (if a then 1 + 1 else 1) + 1
                              else (if a then 1 + 1 else 1)) + 1
                   else (if b then (if a then 1 + 1 else 1) + 1
                         else (if a then 1 + 1 else 1)))))) \<and>
   min 5 (Math_round
      (if e then (if d then (if c then (if b then (if a then (1::rat) + 1 else 1) + 1
                                         else (if a then 1 + 1 else 1)) + 1
                              else (if b then (if a then 1 + 1 else 1) + 1
                                    else (if a then 1 + 1 else 1))) + 1
                   else (if c then (if b then (if a then 1 + 1 else 1) + 1
                                    else (if a then 1 + 1 else 1)) + 1
                         else (if b then (if a then 1 + 1 else 1) + 1
                               else (if a then 1 + 1 else 1)))) + 1 / 2
       else (if d then (if c then (if b then (if a then 1 + 1 else 1) + 1
                                   else (if a then 1 + 1 else 1)) + 1
                        else (if b then (if a then 1 + 1 else 1) + 1
                              else (if a then 1 + 1 else 1))) + 1
             else (if c then (if b then (if a then 1 + 1 else 1) + 1
                              else (if a then 1 + 1 else 1)) + 1
                   else (if b then (if a then 1 + 1 else 1) + 1
                         else (if a then 1 + 1 else 1)))))) \<le> 5"
  by (simp add: Math_round_def)

lemma scoreCorrectnessWithRAG_range:
  "1 \<le> scoreCorrectnessWithRAG projectText technicalRequirements \<and>
   scoreCorrectnessWithRAG projectText technicalRequirements \<le> 5"
  unfolding scoreCorrectnessWithRAG_def Let_def by (rule bonus_chain_range)

lemma scoreResilienceWithRAG_range:
  "1 \<le> scoreResilienceWithRAG projectText technicalRequirements \<and>
   scoreResilienceWithRAG projectText technicalRequirements \<le> 5"
  unfolding scoreResilienceWithRAG_def Let_def by (rule bonus_chain_range)

lemma scoreCodeQuality_range:
  "2 \<le> scoreCodeQuality projectText \<and> scoreCodeQuality projectText \<le> 5"
  unfolding scoreCodeQuality_def Let_def by simp

lemma scoreDocumentation_range:
  "2 \<le> scoreDocumentation projectText \<and> scoreDocumentation projectText \<le> 5"
  unfolding scoreDocumentation_def Let_def by simp

lemma scoreCreativity_range:
  "1 \<le> scoreCreativity projectText \<and> scoreCreativity projectText \<le> 5"
  by (simp add: scoreCreativity_def)

lemma weighted_cv_score:
  fixes t e a c :: int
  assumes "1 \<le> t" "t \<le> 5" "1 \<le> e" "e \<le> 5" "1 \<le> a" "a \<le> 5" "1 \<le> c" "c \<le> 5"
  shows "Math_round (fmul (fadd (fadd (fadd (fmul (of_int t) (rd (4 / 10)))
                                        (fmul (of_int e) (rd (25 / 100))))
                                  (fmul (of_int a) (rd (2 / 10))))
                            (fmul (of_int c) (rd (15 / 100)))) 20)
         = 8 * t + 5 * e + 4 * a + 3 * c"
proof -
  note u = rd_unit_bounds
  let ?x1 = "rat_of_int t * (4 / 10)" and ?x2 = "rat_of_int e * (25 / 100)"
  let ?x3 = "rat_of_int a * (2 / 10)" and ?x4 = "rat_of_int c * (15 / 100)"
  have r: "(1::rat) \<le> of_int t" "of_int t \<le> (5::rat)" "(1::rat) \<le> of_int e" "of_int e \<le> (5::rat)"
    "(1::rat) \<le> of_int a" "of_int a \<le> (5::rat)" "(1::rat) \<le> of_int c" "of_int c \<le> (5::rat)"
    using assms by simp_all
  have p1: "\<bar>fmul (of_int t) (rd (4 / 10)) - ?x1\<bar> \<le> 6 * rd_unit"
    using assms by (intro term_near) simp_all
  have p2: "\<bar>fmul (of_int e) (rd (25 / 100)) - ?x2\<bar> \<le> 6 * rd_unit"
    using assms by (intro term_near) simp_all
  have p3: "\<bar>fmul (of_int a) (rd (2 / 10)) - ?x3\<bar> \<le> 6 * rd_unit"
    using assms by (intro term_near) simp_all
  have p4: "\<bar>fmul (of_int c) (rd (15 / 100)) - ?x4\<bar> \<le> 6 * rd_unit"
    using assms by (intro term_near) simp_all
  have s1: "\<bar>fadd (fmul (of_int t) (rd (4 / 10))) (fmul (of_int e) (rd (25 / 100)))
              - (?x1 + ?x2)\<bar> \<le> 6 * rd_unit + 6 * rd_unit + rd_unit"
    using p1 p2 by (rule sum_near) (use r u in linarith)+
  have s2: "\<bar>fadd (fadd (fmul (of_int t) (rd (4 / 10))) (fmul (of_int e) (rd (25 / 100))))
                   (fmul (of_int a) (rd (2 / 10)))
              - ((?x1 + ?x2) + ?x3)\<bar> \<le> (6 * rd_unit + 6 * rd_unit + rd_unit) + 6 * rd_unit + rd_unit"
    using s1 p3 by (rule sum_near) (use r u in linarith)+
  have s3: "\<bar>fadd (fadd (fadd (fmul (of_int t) (rd (4 / 10))) (fmul (of_int e) (rd (25 / 100))))
                         (fmul (of_int a) (rd (2 / 10))))
                   (fmul (of_int c) (rd (15 / 100)))
              - (((?x1 + ?x2) + ?x3) + ?x4)\<bar>
             \<le> ((6 * rd_unit + 6 * rd_unit + rd_unit) + 6 * rd_unit + rd_unit) + 6 * rd_unit + rd_unit"
    using s2 p4 by (rule sum_near) (use r u in linarith)+
  have sc: "\<bar>fmul (fadd (fadd (fadd (fmul (of_int t) (rd (4 / 10))) (fmul (of_int e) (rd (25 / 100))))
                         (fmul (of_int a) (rd (2 / 10))))
                   (fmul (of_int c) (rd (15 / 100)))) 20
              - (((?x1 + ?x2) + ?x3) + ?x4) * 20\<bar>
             \<le> (((6 * rd_unit + 6 * rd_unit + rd_unit) + 6 * rd_unit + rd_unit) + 6 * rd_unit + rd_unit) * 20
                + rd_unit"
    using s3 by (rule scale_near) (use r u in linarith)+
  have w: "(((?x1 + ?x2) + ?x3) + ?x4) * 20 = of_int (8 * t + 5 * e + 4 * a + 3 * c)"
    by simp
  define X where "X = fmul (fadd (fadd (fadd (fmul (of_int t) (rd (4 / 10)))
                                        (fmul (of_int e) (rd (25 / 100))))
                                  (fmul (of_int a) (rd (2 / 10))))
                            (fmul (of_int c) (rd (15 / 100)))) 20"
  define N where "N = rat_of_int (8 * t + 5 * e + 4 * a + 3 * c)"
  from sc have "\<bar>X - N\<bar> \<le> 541 * rd_unit"
    unfolding w X_def [symmetric] N_def [symmetric] by (simp add: algebra_simps)
  with u have "\<bar>X - N\<bar> < 1 / 2" by linarith
  then show ?thesis
    unfolding X_def N_def by (rule Math_round_near)
qed

lemma project_sum_scaled:
  fixes c q r d v :: int
  assumes "1 \<le> c" "c \<le> 5" "1 \<le> q" "q \<le> 5" "1 \<le> r" "r \<le> 5" "1 \<le> d" "d \<le> 5"
    "1 \<le> v" "v \<le> 5"
  shows "\<bar>fmul (fadd (fadd (fadd (fadd
            (fmul (of_int c) (rd (3 / 10)))
            (fmul (of_int q) (rd (25 / 100))))
            (fmul (of_int r) (rd (2 / 10))))
            (fmul (of_int d) (rd (15 / 100))))
            (fmul (of_int v) (rd (1 / 10)))) 10
          - rat_of_int (6 * c + 5 * q + 4 * r + 3 * d + 2 * v) / 2\<bar> \<le> 341 * rd_unit"
proof -
  note u = rd_unit_bounds
  let ?x1 = "rat_of_int c * (3 / 10)" and ?x2 = "rat_of_int q * (25 / 100)"
  let ?x3 = "rat_of_int r * (2 / 10)" and ?x4 = "rat_of_int d * (15 / 100)"
  let ?x5 = "rat_of_int v * (1 / 10)"
  let ?S = "fadd (fadd (fadd (fadd
            (fmul (of_int c) (rd (3 / 10)))
            (fmul (of_int q) (rd (25 / 100))))
            (fmul (of_int r) (rd (2 / 10))))
            (fmul (of_int d) (rd (15 / 100))))
            (fmul (of_int v) (rd (1 / 10)))"
  have b: "(1::rat) \<le> of_int c" "of_int c \<le> (5::rat)" "(1::rat) \<le> of_int q" "of_int q \<le> (5::rat)"
    "(1::rat) \<le> of_int r" "of_int r \<le> (5::rat)" "(1::rat) \<le> of_int d" "of_int d \<le> (5::rat)"
    "(1::rat) \<le> of_int v" "of_int v \<le> (5::rat)"
    using assms by simp_all
  have p1: "\<bar>fmul (of_int c) (rd (3 / 10)) - ?x1\<bar> \<le> 6 * rd_unit"
    using assms by (intro term_near) simp_all
  have p2: "\<bar>fmul (of_int q) (rd (25 / 100)) - ?x2\<bar> \<le> 6 * rd_unit"
    using assms by (intro term_near) simp_all
  have p3: "\<bar>fmul (of_int r) (rd (2 / 10)) - ?x3\<bar> \<le> 6 * rd_unit"
    using assms by (intro term_near) simp_all
  have p4: "\<bar>fmul (of_int d) (rd (15 / 100)) - ?x4\<bar> \<le> 6 * rd_unit"
    using assms by (intro term_near) simp_all
  have p5: "\<bar>fmul (of_int v) (rd (1 / 10)) - ?x5\<bar> \<le> 6 * rd_unit"
    using assms by (intro term_near) simp_all
  have s1: "\<bar>fadd (fmul (of_int c) (rd (3 / 10))) (fmul (of_int q) (rd (25 / 100)))
              - (?x1 + ?x2)\<bar> \<le> 6 * rd_unit + 6 * rd_unit + rd_unit"
    using p1 p2 by (rule sum_near) (use b u in linarith)+
  have s2: "\<bar>fadd (fadd (fmul (of_int c) (rd (3 / 10))) (fmul (of_int q) (rd (25 / 100))))
                   (fmul (of_int r) (rd (2 / 10)))
              - ((?x1 + ?x2) + ?x3)\<bar> \<le> (6 * rd_unit + 6 * rd_unit + rd_unit) + 6 * rd_unit + rd_unit"
    using s1 p3 by (rule sum_near) (use b u in linarith)+
  have s3: "\<bar>fadd (fadd (fadd (fmul (of_int c) (rd (3 / 10))) (fmul (of_int q) (rd (25 / 100))))
                         (fmul (of_int r) (rd (2 / 10))))
                   (fmul (of_int d) (rd (15 / 100)))
              - (((?x1 + ?x2) + ?x3) + ?x4)\<bar>
             \<le> ((6 * rd_unit + 6 * rd_unit + rd_unit) + 6 * rd_unit + rd_unit) + 6 * rd_unit + rd_unit"
    using s2 p4 by (rule sum_near) (use b u in linarith)+
  have s4: "\<bar>?S - ((((?x1 + ?x2) + ?x3) + ?x4) + ?x5)\<bar>
             \<le> (((6 * rd_unit + 6 * rd_unit + rd_unit) + 6 * rd_unit + rd_unit) + 6 * rd_unit + rd_unit)
                + 6 * rd_unit + rd_unit"
    using s3 p5 by (rule sum_near) (use b u in linarith)+
  have sc: "\<bar>fmul ?S 10 - ((((?x1 + ?x2) + ?x3) + ?x4) + ?x5) * 10\<bar>
             \<le> ((((6 * rd_unit + 6 * rd_unit + rd_unit) + 6 * rd_unit + rd_unit) + 6 * rd_unit + rd_unit)
                + 6 * rd_unit + rd_unit) * 10 + rd_unit"
    using s4 by (rule scale_near) (use b u in linarith)+
  define M where "M = 6 * c + 5 * q + 4 * r + 3 * d + 2 * v"
  have w: "((((?x1 + ?x2) + ?x3) + ?x4) + ?x5) * 10 = of_int M / 2"
    by (simp add: M_def)
  define X where "X = fmul ?S 10"
  from sc have "\<bar>X - of_int M / 2\<bar> \<le> 341 * rd_unit"
    unfolding w X_def [symmetric] by (simp add: algebra_simps)
  then show ?thesis unfolding X_def M_def .
qed

lemma weighted_project_score:
  fixes c q r d v :: int
  assumes "1 \<le> c" "c \<le> 5" "1 \<le> q" "q \<le> 5" "1 \<le> r" "r \<le> 5" "1 \<le> d" "d \<le> 5"
    "1 \<le> v" "v \<le> 5"
  shows "\<bar>rat_of_int (Math_round (fmul (fadd (fadd (fadd (fadd
            (fmul (of_int c) (rd (3 / 10)))
            (fmul (of_int q) (rd (25 / 100))))
            (fmul (of_int r) (rd (2 / 10))))
            (fmul (of_int d) (rd (15 / 100))))
            (fmul (of_int v) (rd (1 / 10)))) 10))
          - 10 * (3 / 10 * of_int c + 25 / 100 * of_int q + 2 / 10 * of_int r
                  + 15 / 100 * of_int d + 1 / 10 * of_int v)\<bar> \<le> 1 / 2"
proof -
  note u = rd_unit_bounds
  let ?S = "fadd (fadd (fadd (fadd
            (fmul (of_int c) (rd (3 / 10)))
            (fmul (of_int q) (rd (25 / 100))))
            (fmul (of_int r) (rd (2 / 10))))
            (fmul (of_int d) (rd (15 / 100))))
            (fmul (of_int v) (rd (1 / 10)))"
  define n where "n = Math_round (fmul ?S 10)"
  define M where "M = 6 * c + 5 * q + 4 * r + 3 * d + 2 * v"
  define X where "X = fmul ?S 10"
  have "\<bar>of_int n - X\<bar> \<le> 1 / 2" unfolding n_def X_def by (rule Math_round_err)
  moreover have "\<bar>X - of_int M / 2\<bar> \<le> 341 * rd_unit"
    unfolding X_def M_def by (rule project_sum_scaled [OF assms])
  ultimately have "\<bar>rat_of_int n - of_int M / 2\<bar> < 1" using u by linarith
  then have "rat_of_int (2 * n - M) < of_int 2" "rat_of_int (- 2) < of_int (2 * n - M)"
    by (simp_all add: abs_less_iff)
  then have "2 * n - M < 2" "- 2 < 2 * n - M"
    by (simp_all only: of_int_less_iff)
  then have "2 * n - M \<le> 1" "- 1 \<le> 2 * n - M" by linarith+
  then have "rat_of_int (2 * n - M) \<le> of_int 1" "rat_of_int (- 1) \<le> of_int (2 * n - M)"
    by (simp_all only: of_int_le_iff)
  then have "2 * rat_of_int n - of_int M \<le> 1" "- 1 \<le> 2 * rat_of_int n - of_int M"
    by simp_all
  then have k: "\<bar>rat_of_int n - of_int M / 2\<bar> \<le> 1 / 2"
    by linarith
  have m: "10 * (3 / 10 * of_int c + 25 / 100 * of_int q + 2 / 10 * of_int r
                  + 15 / 100 * of_int d + 1 / 10 * of_int v) = rat_of_int M / 2"
    by (simp add: M_def)
  have "\<bar>rat_of_int n - 10 * (3 / 10 * of_int c + 25 / 100 * of_int q + 2 / 10 * of_int r
                  + 15 / 100 * of_int d + 1 / 10 * of_int v)\<bar> \<le> 1 / 2"
    using k by (simp only: m)
  then show ?thesis unfolding n_def .
qed

text \<open>
  Ten times the weighted average of the project scores is half of an integer. Where it is an
  integer, \<open>Math.round\<close> returns it. Where it is not (the sum of the scores of code quality
  and documentation is odd), the average ends in 5 at the second decimal place, and
  \<open>Math.round\<close> returns the integer above or the one below as the sum computed in
  binary64, times 10, reaches the tie or stays under it.
\<close>

lemma project_round_cases:
  fixes c q r d v :: int and X W :: rat
  assumes rng: "1 \<le> c" "c \<le> 5" "1 \<le> q" "q \<le> 5" "1 \<le> r" "r \<le> 5" "1 \<le> d" "d \<le> 5"
    "1 \<le> v" "v \<le> 5"
  defines "X \<equiv> fmul (fadd (fadd (fadd (fadd
            (fmul (of_int c) (rd (3 / 10)))
            (fmul (of_int q) (rd (25 / 100))))
            (fmul (of_int r) (rd (2 / 10))))
            (fmul (of_int d) (rd (15 / 100))))
            (fmul (of_int v) (rd (1 / 10)))) 10"
    and "W \<equiv> 3 / 10 * of_int c + 25 / 100 * of_int q + 2 / 10 * of_int r
                  + 15 / 100 * of_int d + 1 / 10 * of_int v"
  shows "even (q + d) \<Longrightarrow> rat_of_int (Math_round X) / 10 = W"
    and "odd (q + d) \<Longrightarrow> 10 * W \<le> X \<Longrightarrow> rat_of_int (Math_round X) / 10 = W + 1 / 20"
    and "odd (q + d) \<Longrightarrow> X < 10 * W \<Longrightarrow> rat_of_int (Math_round X) / 10 = W - 1 / 20"
proof -
  note u = rd_unit_bounds
  define M where "M = 6 * c + 5 * q + 4 * r + 3 * d + 2 * v"
  have near: "\<bar>X - of_int M / 2\<bar> \<le> 341 * rd_unit"
    unfolding X_def M_def by (rule project_sum_scaled [OF rng])
  have W: "10 * W = rat_of_int M / 2" by (simp add: W_def M_def)
  have par: "even M \<longleftrightarrow> even (q + d)" unfolding M_def by presburger
  show "rat_of_int (Math_round X) / 10 = W" if "even (q + d)"
  proof -
    from that par obtain k where k: "M = 2 * k" by (auto elim: evenE)
    then have h: "rat_of_int M / 2 = of_int k" by simp
    from near u have "\<bar>X - of_int k\<bar> < 1 / 2" unfolding h by linarith
    then have "Math_round X = k" by (rule Math_round_near)
    with W h show ?thesis by simp
  qed
  show "rat_of_int (Math_round X) / 10 = W + 1 / 20" if "odd (q + d)" and t: "10 * W \<le> X"
  proof -
    from that par obtain k where k: "M = 2 * k + 1" by (auto elim: oddE)
    then have h: "rat_of_int M / 2 = of_int k + 1 / 2" by simp
    from t have lo: "rat_of_int k + 1 / 2 \<le> X" unfolding W h .
    from near u have hi: "X < rat_of_int k + 1" unfolding h by linarith
    have "Math_round X = k + 1"
      unfolding Math_round_def using lo hi by (intro floor_unique) simp_all
    then have "rat_of_int (Math_round X) = 10 * W + 1 / 2" unfolding W h by simp
    then show ?thesis by simp
  qed
  show "rat_of_int (Math_round X) / 10 = W - 1 / 20" if "odd (q + d)" and t: "X < 10 * W"
  proof -
    from that par obtain k where k: "M = 2 * k + 1" by (auto elim: oddE)
    then have h: "rat_of_int M / 2 = of_int k + 1 / 2" by simp
    from t have hi: "X < rat_of_int k + 1 / 2" unfolding W h .
    from near u have lo: "rat_of_int k \<le> X" unfolding h by linarith
    have "Math_round X = k"
      unfolding Math_round_def using lo hi by (intro floor_unique) simp_all
    then have "rat_of_int (Math_round X) = 10 * W - 1 / 2" unfolding W h by simp
    then show ?thesis by simp
  qed
qed

lemma rd_tenth_apart:
  fixes x :: rat
  assumes "19 / 20 \<le> x" "x \<le> 5"
  shows "rd x \<noteq> rd (x + 1 / 10)"
proof -
  note u = rd_unit_bounds
  have "\<bar>rd x - x\<bar> \<le> rd_unit" using assms by (intro rd_near) simp_all
  moreover have "\<bar>rd (x + 1 / 10) - (x + 1 / 10)\<bar> \<le> rd_unit"
    using assms by (intro rd_near) simp_all
  ultimately show ?thesis using u by linarith
qed

lemma rd_one: "rd 1 = 1"
  by code_simp

lemma rd_five: "rd 5 = 5"
  by code_simp

lemma rd_unit_interval:
  assumes "0 < x" "x \<le> 1"
  shows "0 \<le> rd x \<and> rd x \<le> 1"
proof -
  have "(0::rat) < 2 powi (ilog2 x)" by simp
  with rd_pos_bounds [OF assms(1)] have "0 \<le> rd_pos x" by linarith
  with assms(1) have lo: "0 \<le> rd x" by (simp add: rd_def)
  have "rd x \<le> 1"
  proof (cases "x = 1")
    case True
    then show ?thesis by (simp add: rd_one)
  next
    case False
    with assms(2) have "x < 2 powi 0" by simp
    from rd_le [OF assms(1) this] show ?thesis by simp
  qed
  with lo show ?thesis by simp
qed

lemma rd_tenths_range:
  fixes n :: int
  assumes "10 \<le> n" "n \<le> 50"
  shows "1 \<le> rd (of_int n / 10) \<and> rd (of_int n / 10) \<le> 5"
proof -
  have r: "(10::rat) \<le> of_int n" "of_int n \<le> (50::rat)" using assms by simp_all
  then have "(2::rat) powi 0 \<le> of_int n / 10" by simp
  then have lo: "1 \<le> rd (of_int n / 10)" using rd_ge [of 0 "of_int n / 10"] by simp
  have "rd (of_int n / 10) \<le> 5"
  proof (cases "n = 50")
    case True
    then show ?thesis by (simp add: rd_five)
  next
    case False
    with assms have "n \<le> 49" by simp
    then have "rat_of_int n \<le> 49" by simp
    then have x: "rat_of_int n / 10 \<le> 49 / 10" by simp
    have "\<bar>rd (of_int n / 10) - of_int n / 10\<bar> \<le> rd_unit"
      using r by (intro rd_near) simp_all
    with x rd_unit_bounds show ?thesis by linarith
  qed
  with lo show ?thesis by simp
qed

text \<open>What the reported scores need: the range of the final score of the CV match and of
  the overall score of the project.\<close>

lemma evaluateCVMatch_score_range:
  assumes "evaluateCVMatch documents cvStructured jobContext = Inr m"
  shows "0 \<le> mr_score m \<and> mr_score m \<le> 100"
proof -
  from assms obtain ctx where ctx: "getContextForCVEvaluation documents = Inr ctx"
    by (auto simp: evaluateCVMatch_def split: sum.splits)
  define t where "t = scoreTechnicalSkillsWithRAG (cv_skills cvStructured) (jc_skills ctx)"
  define e where "e = scoreExperienceWithRAG (cv_experience_years cvStructured) (jc_experience ctx)"
  define a where "a = scoreAchievements (cv_achievements cvStructured)"
  define c where "c = scoreCulturalFit (cv_communication_indicators cvStructured)"
  have rng: "1 \<le> t" "t \<le> 5" "1 \<le> e" "e \<le> 5" "1 \<le> a" "a \<le> 5" "1 \<le> c" "c \<le> 5"
    using scoreTechnicalSkillsWithRAG_range [of "cv_skills cvStructured" "jc_skills ctx"]
      scoreExperienceWithRAG_range [of "cv_experience_years cvStructured" "jc_experience ctx"]
      scoreAchievements_range [of "cv_achievements cvStructured"]
      scoreCulturalFit_range [of "cv_communication_indicators cvStructured"]
    by (simp_all add: t_def e_def a_def c_def)
  have "mr_score m = Math_round (fmul (fadd (fadd (fadd (fmul (of_int t) (rd (4 / 10)))
                                        (fmul (of_int e) (rd (25 / 100))))
                                  (fmul (of_int a) (rd (2 / 10))))
                            (fmul (of_int c) (rd (15 / 100)))) 20)"
    using assms unfolding evaluateCVMatch_def ctx Let_def t_def e_def a_def c_def by auto
  then have "mr_score m = 8 * t + 5 * e + 4 * a + 3 * c"
    using weighted_cv_score [OF rng] by simp
  with rng show ?thesis by linarith
qed

lemma evaluateProject_overall_range:
  assumes "evaluateProject documents projectText scoringRubric = Inr p"
  shows "1 \<le> pr_overallScore p \<and> pr_overallScore p \<le> 5"
proof -
  from assms obtain reqs where ctx: "getContextForProjectEvaluation documents = Inr reqs"
    by (auto simp: evaluateProject_def split: sum.splits)
  define c where "c = scoreCorrectnessWithRAG projectText reqs"
  define q where "q = scoreCodeQuality projectText"
  define r where "r = scoreResilienceWithRAG projectText reqs"
  define d where "d = scoreDocumentation projectText"
  define v where "v = scoreCreativity projectText"
  have rng: "1 \<le> c" "c \<le> 5" "1 \<le> q" "q \<le> 5" "1 \<le> r" "r \<le> 5" "1 \<le> d" "d \<le> 5"
    "1 \<le> v" "v \<le> 5"
    using scoreCorrectnessWithRAG_range [of projectText reqs]
      scoreCodeQuality_range [of projectText]
      scoreResilienceWithRAG_range [of projectText reqs]
      scoreDocumentation_range [of projectText]
      scoreCreativity_range [of projectText]
    by (simp_all add: c_def q_def r_def d_def v_def)
  define n where "n = Math_round (fmul (fadd (fadd (fadd (fadd
            (fmul (of_int c) (rd (3 / 10)))
            (fmul (of_int q) (rd (25 / 100))))
            (fmul (of_int r) (rd (2 / 10))))
            (fmul (of_int d) (rd (15 / 100))))
            (fmul (of_int v) (rd (1 / 10)))) 10)"
  define W :: rat where "W = 3 / 10 * of_int c + 25 / 100 * of_int q + 2 / 10 * of_int r
                  + 15 / 100 * of_int d + 1 / 10 * of_int v"
  have o: "pr_overallScore p = rd (of_int n / 10)"
    using assms
    unfolding evaluateProject_def ctx Let_def c_def q_def r_def d_def v_def n_def fdiv_def
    by auto
  have near: "\<bar>rat_of_int n - 10 * W\<bar> \<le> 1 / 2"
    unfolding n_def W_def by (rule weighted_project_score [OF rng])
  have rr: "(1::rat) \<le> of_int c" "of_int c \<le> (5::rat)" "(1::rat) \<le> of_int q" "of_int q \<le> (5::rat)"
    "(1::rat) \<le> of_int r" "of_int r \<le> (5::rat)" "(1::rat) \<le> of_int d" "of_int d \<le> (5::rat)"
    "(1::rat) \<le> of_int v" "of_int v \<le> (5::rat)"
    using rng by simp_all
  have Wb: "1 \<le> W" "W \<le> 5" unfolding W_def using rr by linarith+
  with near have "9 < rat_of_int n" "rat_of_int n < 51" by linarith+
  then have "rat_of_int 9 < of_int n" "rat_of_int n < of_int 51" by simp_all
  then have "9 < n" "n < 51" by (simp_all only: of_int_less_iff)
  then have nb: "10 \<le> n" "n \<le> 50" by simp_all
  show ?thesis unfolding o using rd_tenths_range [OF nb] .
qed

text \<open>
  Claim C4. When the CV match is evaluated, its four criterion scores are those of the
  four scoring functions, each between 1 and 5, and the final score is exactly 20 times
  their weighted average with the weights 0.40, 0.25, 0.20 and 0.15: the sum computed in
  binary64 is close enough to that integer for \<open>Math.round\<close> to return it. It lies
  between 0 and 100.
\<close>

theorem cv_match_score:
  assumes "evaluateCVMatch documents cvStructured jobContext = Inr m"
  shows "rat_of_int (mr_score m) =
           20 * (4 / 10 * of_int (mr_technical_skills m) + 25 / 100 * of_int (mr_experience_level m)
                 + 2 / 10 * of_int (mr_achievements m) + 15 / 100 * of_int (mr_cultural_fit m)) \<and>
         (\<exists>ctx. getContextForCVEvaluation documents = Inr ctx \<and>
            mr_technical_skills m
              = scoreTechnicalSkillsWithRAG (cv_skills cvStructured) (jc_skills ctx) \<and>
            mr_experience_level m
              = scoreExperienceWithRAG (cv_experience_years cvStructured) (jc_experience ctx)) \<and>
         mr_achievements m = scoreAchievements (cv_achievements cvStructured) \<and>
         mr_cultural_fit m = scoreCulturalFit (cv_communication_indicators cvStructured) \<and>
         1 \<le> mr_technical_skills m \<and> mr_technical_skills m \<le> 5 \<and>
         1 \<le> mr_experience_level m \<and> mr_experience_level m \<le> 5 \<and>
         1 \<le> mr_achievements m \<and> mr_achievements m \<le> 5 \<and>
         1 \<le> mr_cultural_fit m \<and> mr_cultural_fit m \<le> 5 \<and>
         0 \<le> mr_score m \<and> mr_score m \<le> 100"
proof -
  from assms obtain ctx where ctx: "getContextForCVEvaluation documents = Inr ctx"
    by (auto simp: evaluateCVMatch_def split: sum.splits)
  define t where "t = scoreTechnicalSkillsWithRAG (cv_skills cvStructured) (jc_skills ctx)"
  define e where "e = scoreExperienceWithRAG (cv_experience_years cvStructured) (jc_experience ctx)"
  define a where "a = scoreAchievements (cv_achievements cvStructured)"
  define c where "c = scoreCulturalFit (cv_communication_indicators cvStructured)"
  have rng: "1 \<le> t" "t \<le> 5" "1 \<le> e" "e \<le> 5" "1 \<le> a" "a \<le> 5" "1 \<le> c" "c \<le> 5"
    using scoreTechnicalSkillsWithRAG_range [of "cv_skills cvStructured" "jc_skills ctx"]
      scoreExperienceWithRAG_range [of "cv_experience_years cvStructured" "jc_experience ctx"]
      scoreAchievements_range [of "cv_achievements cvStructured"]
      scoreCulturalFit_range [of "cv_communication_indicators cvStructured"]
    by (simp_all add: t_def e_def a_def c_def)
  have m: "m = \<lparr> mr_technical_skills = t, mr_experience_level = e, mr_achievements = a,
                  mr_cultural_fit = c,
                  mr_score = Math_round (fmul (fadd (fadd (fadd (fmul (of_int t) (rd (4 / 10)))
                                        (fmul (of_int e) (rd (25 / 100))))
                                  (fmul (of_int a) (rd (2 / 10))))
                            (fmul (of_int c) (rd (15 / 100)))) 20) \<rparr>"
    using assms unfolding evaluateCVMatch_def ctx Let_def t_def e_def a_def c_def by simp
  have s: "mr_score m = 8 * t + 5 * e + 4 * a + 3 * c"
    unfolding m using weighted_cv_score [OF rng] by simp
  have f: "mr_technical_skills m = t" "mr_experience_level m = e" "mr_achievements m = a"
    "mr_cultural_fit m = c"
    by (simp_all add: m)
  have 1: "rat_of_int (mr_score m) =
           20 * (4 / 10 * of_int (mr_technical_skills m) + 25 / 100 * of_int (mr_experience_level m)
                 + 2 / 10 * of_int (mr_achievements m) + 15 / 100 * of_int (mr_cultural_fit m))"
    unfolding s f by simp
  have 2: "0 \<le> mr_score m \<and> mr_score m \<le> 100" unfolding s using rng by linarith
  from 1 2 ctx rng show ?thesis
    unfolding f by (auto simp: t_def e_def a_def c_def)
qed

theorem cv_match_score_witness:
  "evaluateCVMatch example_documents example_cv ''Backend developer role''
     = Inr \<lparr> mr_technical_skills = 1, mr_experience_level = 5, mr_achievements = 3,
             mr_cultural_fit = 3, mr_score = 54 \<rparr> \<and>
   rat_of_int 54 = 20 * (4 / 10 * of_int 1 + 25 / 100 * of_int 5 + 2 / 10 * of_int 3
                         + 15 / 100 * of_int 3)"
proof -
  have ctx: "getContextForCVEvaluation example_documents
      = Inr \<lparr> jc_skills = [], jc_experience = [],
              jc_summary = ''Backend engineer role focusing on AI-powered systems, LLM integration, and scalable architecture'' \<rparr>"
    by (simp add: getContextForCVEvaluation_def getJobRequirements_def getScoringRubric_def
        example_documents_def findRelevantChunks_def js_sort_def extractJobContext_def
        extractBulletPoints_def split_on_def Let_def)
  then obtain m where m: "evaluateCVMatch example_documents example_cv ''Backend developer role'' = Inr m"
    by (simp add: evaluateCVMatch_def Let_def)
  have t: "scoreTechnicalSkillsWithRAG [''node.js''] [] = 1" by code_simp
  have e: "scoreExperienceWithRAG 5 [] = 5" by code_simp
  have a: "scoreAchievements [''led performance/systems''] = 3" by (simp add: scoreAchievements_def)
  have c: "scoreCulturalFit [''team skills''] = 3" by (simp add: scoreCulturalFit_def)
  from cv_match_score [OF m] ctx t e a c
  have "mr_technical_skills m = 1" "mr_experience_level m = 5" "mr_achievements m = 3"
    "mr_cultural_fit m = 3" "rat_of_int (mr_score m) = 54"
    by (simp_all add: example_cv_def)
  then have "m = \<lparr> mr_technical_skills = 1, mr_experience_level = 5, mr_achievements = 3,
             mr_cultural_fit = 3, mr_score = 54 \<rparr>"
    by (cases m) simp
  with m show ?thesis by simp
qed

text \<open>
  Claim C5, as the code has it. When the project is evaluated, its five criterion scores
  are those of the five scoring functions, each between 1 and 5, and the overall score lies
  between 1.0 and 5.0. It is \<open>Math.round(S * 10) / 10\<close> for the weighted sum \<open>S\<close> computed
  from left to right in binary64. The weighted average of the scores, with the weights 0.30, 0.25, 0.20, 0.15 and
  0.10, has one decimal place when the scores of code quality and documentation have an
  even sum, and the overall score is then the binary64 value of that average. When their
  sum is odd the average ends in 5 at the second decimal place, and the overall score is the
  binary64 value of one of the two tenths beside it: the upper one exactly when the sum
  computed in binary64, times 10, reaches ten times the average, the lower one when it
  stays under it. In both cases it is a tenth nearest to the average.
\<close>

theorem project_overall_score:
  assumes "evaluateProject documents projectText scoringRubric = Inr p"
  shows "pr_overallScore p =
           fdiv (of_int (Math_round (fmul (fadd (fadd (fadd (fadd
                      (fmul (of_int (pr_correctness p)) (rd (3 / 10)))
                      (fmul (of_int (pr_code_quality p)) (rd (25 / 100))))
                      (fmul (of_int (pr_resilience p)) (rd (2 / 10))))
                      (fmul (of_int (pr_documentation p)) (rd (15 / 100))))
                      (fmul (of_int (pr_creativity p)) (rd (1 / 10)))) 10))) 10 \<and>
         (even (pr_code_quality p + pr_documentation p) \<longrightarrow>
            pr_overallScore p =
              rd (3 / 10 * of_int (pr_correctness p) + 25 / 100 * of_int (pr_code_quality p)
                  + 2 / 10 * of_int (pr_resilience p) + 15 / 100 * of_int (pr_documentation p)
                  + 1 / 10 * of_int (pr_creativity p))) \<and>
         (odd (pr_code_quality p + pr_documentation p) \<longrightarrow>
            (pr_overallScore p =
               rd (3 / 10 * of_int (pr_correctness p) + 25 / 100 * of_int (pr_code_quality p)
                   + 2 / 10 * of_int (pr_resilience p) + 15 / 100 * of_int (pr_documentation p)
                   + 1 / 10 * of_int (pr_creativity p) + 1 / 20) \<or>
             pr_overallScore p =
               rd (3 / 10 * of_int (pr_correctness p) + 25 / 100 * of_int (pr_code_quality p)
                   + 2 / 10 * of_int (pr_resilience p) + 15 / 100 * of_int (pr_documentation p)
                   + 1 / 10 * of_int (pr_creativity p) - 1 / 20)) \<and>
            (pr_overallScore p =
               rd (3 / 10 * of_int (pr_correctness p) + 25 / 100 * of_int (pr_code_quality p)
                   + 2 / 10 * of_int (pr_resilience p) + 15 / 100 * of_int (pr_documentation p)
                   + 1 / 10 * of_int (pr_creativity p) + 1 / 20)
             \<longleftrightarrow>
             10 * (3 / 10 * of_int (pr_correctness p) + 25 / 100 * of_int (pr_code_quality p)
                   + 2 / 10 * of_int (pr_resilience p) + 15 / 100 * of_int (pr_documentation p)
                   + 1 / 10 * of_int (pr_creativity p))
               \<le> fmul (fadd (fadd (fadd (fadd
                      (fmul (of_int (pr_correctness p)) (rd (3 / 10)))
                      (fmul (of_int (pr_code_quality p)) (rd (25 / 100))))
                      (fmul (of_int (pr_resilience p)) (rd (2 / 10))))
                      (fmul (of_int (pr_documentation p)) (rd (15 / 100))))
                      (fmul (of_int (pr_creativity p)) (rd (1 / 10)))) 10)) \<and>
         (\<exists>n :: int.
            pr_overallScore p = rd (of_int n / 10) \<and>
            \<bar>rat_of_int n / 10
               - (3 / 10 * of_int (pr_correctness p) + 25 / 100 * of_int (pr_code_quality p)
                  + 2 / 10 * of_int (pr_resilience p) + 15 / 100 * of_int (pr_documentation p)
                  + 1 / 10 * of_int (pr_creativity p))\<bar> \<le> 1 / 20) \<and>
         (\<exists>reqs. getContextForProjectEvaluation documents = Inr reqs \<and>
            pr_correctness p = scoreCorrectnessWithRAG projectText reqs \<and>
            pr_resilience p = scoreResilienceWithRAG projectText reqs) \<and>
         pr_code_quality p = scoreCodeQuality projectText \<and>
         pr_documentation p = scoreDocumentation projectText \<and>
         pr_creativity p = scoreCreativity projectText \<and>
         1 \<le> pr_correctness p \<and> pr_correctness p \<le> 5 \<and>
         1 \<le> pr_code_quality p \<and> pr_code_quality p \<le> 5 \<and>
         1 \<le> pr_resilience p \<and> pr_resilience p \<le> 5 \<and>
         1 \<le> pr_documentation p \<and> pr_documentation p \<le> 5 \<and>
         1 \<le> pr_creativity p \<and> pr_creativity p \<le> 5 \<and>
         1 \<le> pr_overallScore p \<and> pr_overallScore p \<le> 5"
proof -
  from assms obtain reqs where ctx: "getContextForProjectEvaluation documents = Inr reqs"
    by (auto simp: evaluateProject_def split: sum.splits)
  define c where "c = scoreCorrectnessWithRAG projectText reqs"
  define q where "q = scoreCodeQuality projectText"
  define r where "r = scoreResilienceWithRAG projectText reqs"
  define d where "d = scoreDocumentation projectText"
  define v where "v = scoreCreativity projectText"
  have rng: "1 \<le> c" "c \<le> 5" "1 \<le> q" "q \<le> 5" "1 \<le> r" "r \<le> 5" "1 \<le> d" "d \<le> 5"
    "1 \<le> v" "v \<le> 5"
    using scoreCorrectnessWithRAG_range [of projectText reqs]
      scoreCodeQuality_range [of projectText]
      scoreResilienceWithRAG_range [of projectText reqs]
      scoreDocumentation_range [of projectText]
      scoreCreativity_range [of projectText]
    by (simp_all add: c_def q_def r_def d_def v_def)
  define X where "X = fmul (fadd (fadd (fadd (fadd
            (fmul (of_int c) (rd (3 / 10)))
            (fmul (of_int q) (rd (25 / 100))))
            (fmul (of_int r) (rd (2 / 10))))
            (fmul (of_int d) (rd (15 / 100))))
            (fmul (of_int v) (rd (1 / 10)))) 10"
  define n where "n = Math_round X"
  define W :: rat where "W = 3 / 10 * of_int c + 25 / 100 * of_int q + 2 / 10 * of_int r
                  + 15 / 100 * of_int d + 1 / 10 * of_int v"
  have p: "p = \<lparr> pr_correctness = c, pr_code_quality = q, pr_resilience = r,
                  pr_documentation = d, pr_creativity = v,
                  pr_overallScore = fdiv (of_int n) 10 \<rparr>"
    using assms
    unfolding evaluateProject_def ctx Let_def c_def q_def r_def d_def v_def n_def X_def
    by simp
  have f: "pr_correctness p = c" "pr_code_quality p = q" "pr_resilience p = r"
    "pr_documentation p = d" "pr_creativity p = v" "pr_overallScore p = rd (of_int n / 10)"
    by (simp_all add: p fdiv_def)
  have near: "\<bar>rat_of_int n - 10 * W\<bar> \<le> 1 / 2"
    unfolding n_def X_def W_def by (rule weighted_project_score [OF rng])
  then have 1: "\<bar>rat_of_int n / 10 - W\<bar> \<le> 1 / 20" by linarith
  have rr: "(1::rat) \<le> of_int c" "of_int c \<le> (5::rat)" "(1::rat) \<le> of_int q" "of_int q \<le> (5::rat)"
    "(1::rat) \<le> of_int r" "of_int r \<le> (5::rat)" "(1::rat) \<le> of_int d" "of_int d \<le> (5::rat)"
    "(1::rat) \<le> of_int v" "of_int v \<le> (5::rat)"
    using rng by simp_all
  have Wb: "1 \<le> W" "W \<le> 5" unfolding W_def using rr by linarith+
  with near have "9 < rat_of_int n" "rat_of_int n < 51" by linarith+
  then have "rat_of_int 9 < of_int n" "rat_of_int n < of_int 51" by simp_all
  then have "9 < n" "n < 51" by (simp_all only: of_int_less_iff)
  then have nb: "10 \<le> n" "n \<le> 50" by simp_all
  have range: "1 \<le> pr_overallScore p \<and> pr_overallScore p \<le> 5"
    unfolding f using rd_tenths_range [OF nb] .
  have ev: "rat_of_int n / 10 = W" if "even (q + d)"
    unfolding n_def X_def W_def using rng that by (rule project_round_cases(1))
  have up: "rat_of_int n / 10 = W + 1 / 20" if "odd (q + d)" "10 * W \<le> X"
    using rng that unfolding n_def X_def W_def by (rule project_round_cases(2))
  have dn: "rat_of_int n / 10 = W - 1 / 20" if "odd (q + d)" "X < 10 * W"
    using rng that unfolding n_def X_def W_def by (rule project_round_cases(3))
  have e: "W - 1 / 20 + 1 / 10 = W + 1 / 20" by simp
  have "rd (W - 1 / 20) \<noteq> rd (W - 1 / 20 + 1 / 10)"
    using Wb by (intro rd_tenth_apart) linarith+
  then have apart: "rd (W - 1 / 20) \<noteq> rd (W + 1 / 20)" unfolding e .
  have A: "even (q + d) \<longrightarrow> rd (of_int n / 10) = rd W"
  proof
    assume "even (q + d)"
    then have "rat_of_int n / 10 = W" by (rule ev)
    then show "rd (of_int n / 10) = rd W" by (simp only:)
  qed
  have B: "odd (q + d) \<longrightarrow>
            (rd (of_int n / 10) = rd (W + 1 / 20) \<or> rd (of_int n / 10) = rd (W - 1 / 20)) \<and>
            (rd (of_int n / 10) = rd (W + 1 / 20) \<longleftrightarrow> 10 * W \<le> X)"
  proof
    assume o: "odd (q + d)"
    show "(rd (of_int n / 10) = rd (W + 1 / 20) \<or> rd (of_int n / 10) = rd (W - 1 / 20)) \<and>
            (rd (of_int n / 10) = rd (W + 1 / 20) \<longleftrightarrow> 10 * W \<le> X)"
    proof (cases "10 * W \<le> X")
      case True
      have e: "rat_of_int n / 10 = W + 1 / 20" using o True by (rule up)
      show ?thesis by (simp only: e True simp_thms)
    next
      case False
      then have "X < 10 * W" by simp
      with o have e: "rat_of_int n / 10 = W - 1 / 20" by (rule dn)
      show ?thesis by (simp only: e False apart simp_thms)
    qed
  qed
  have C': "\<exists>m :: int. pr_overallScore p = rd (of_int m / 10) \<and> \<bar>rat_of_int m / 10 - W\<bar> \<le> 1 / 20"
    unfolding f using 1 by blast
  have D: "\<exists>reqs. getContextForProjectEvaluation documents = Inr reqs \<and>
            pr_correctness p = scoreCorrectnessWithRAG projectText reqs \<and>
            pr_resilience p = scoreResilienceWithRAG projectText reqs"
    using ctx f(1,3) c_def r_def by blast
  have A': "even (pr_code_quality p + pr_documentation p) \<longrightarrow> pr_overallScore p = rd W"
    unfolding f using A .
  have B': "odd (pr_code_quality p + pr_documentation p) \<longrightarrow>
            (pr_overallScore p = rd (W + 1 / 20) \<or> pr_overallScore p = rd (W - 1 / 20)) \<and>
            (pr_overallScore p = rd (W + 1 / 20) \<longleftrightarrow> 10 * W \<le> X)"
    unfolding f using B .
  have Wp: "3 / 10 * of_int (pr_correctness p) + 25 / 100 * of_int (pr_code_quality p)
                  + 2 / 10 * of_int (pr_resilience p) + 15 / 100 * of_int (pr_documentation p)
                  + 1 / 10 * of_int (pr_creativity p) = W"
    unfolding f W_def ..
  have Xp: "fmul (fadd (fadd (fadd (fadd
                      (fmul (of_int (pr_correctness p)) (rd (3 / 10)))
                      (fmul (of_int (pr_code_quality p)) (rd (25 / 100))))
                      (fmul (of_int (pr_resilience p)) (rd (2 / 10))))
                      (fmul (of_int (pr_documentation p)) (rd (15 / 100))))
                      (fmul (of_int (pr_creativity p)) (rd (1 / 10)))) 10 = X"
    unfolding f X_def ..
  have E: "pr_code_quality p = scoreCodeQuality projectText"
    "pr_documentation p = scoreDocumentation projectText"
    "pr_creativity p = scoreCreativity projectText"
    unfolding f q_def d_def v_def by simp_all
  have R: "1 \<le> pr_correctness p" "pr_correctness p \<le> 5"
    "1 \<le> pr_code_quality p" "pr_code_quality p \<le> 5"
    "1 \<le> pr_resilience p" "pr_resilience p \<le> 5"
    "1 \<le> pr_documentation p" "pr_documentation p \<le> 5"
    "1 \<le> pr_creativity p" "pr_creativity p \<le> 5"
    unfolding f using rng by simp_all
  have F: "pr_overallScore p = fdiv (of_int (Math_round X)) 10"
    unfolding f fdiv_def n_def ..
  show ?thesis
    unfolding Wp Xp
    using F A' B' C' D E R range [THEN conjunct1] range [THEN conjunct2]
    by (intro conjI) assumption+
qed

theorem project_overall_score_witness:
  "evaluateProject example_documents ''retry'' ''Evaluate based on correctness''
     = Inr \<lparr> pr_correctness = 1, pr_code_quality = 2, pr_resilience = 1,
             pr_documentation = 2, pr_creativity = 1, pr_overallScore = rd (14 / 10) \<rparr> \<and>
   even (2 + 2 :: int) \<and>
   3 / 10 * of_int 1 + 25 / 100 * of_int 2 + 2 / 10 * of_int 1 + 15 / 100 * of_int 2
     + 1 / 10 * of_int 1 = (14 / 10 :: rat)"
proof -
  have ctx: "getContextForProjectEvaluation example_documents = Inr []"
    by (simp add: getContextForProjectEvaluation_def getJobRequirements_def getScoringRubric_def
        example_documents_def findRelevantChunks_def js_sort_def extractTechnicalRequirements_def
        extractBulletPoints_def split_on_def Let_def)
  then obtain p where
    p: "evaluateProject example_documents ''retry'' ''Evaluate based on correctness'' = Inr p"
    by (simp add: evaluateProject_def Let_def)
  have c: "scoreCorrectnessWithRAG ''retry'' [] = 1" by code_simp
  have q: "scoreCodeQuality ''retry'' = 2" by code_simp
  have r: "scoreResilienceWithRAG ''retry'' [] = 1" by code_simp
  have d: "scoreDocumentation ''retry'' = 2" by code_simp
  have v: "scoreCreativity ''retry'' = 1" by code_simp
  note t = project_overall_score [OF p]
  note t_even = t [THEN conjunct2, THEN conjunct1]
  note t_rest = t [THEN conjunct2, THEN conjunct2, THEN conjunct2, THEN conjunct2]
  note t_ctx = t_rest [THEN conjunct1]
  note t_q = t_rest [THEN conjunct2, THEN conjunct1]
  note t_d = t_rest [THEN conjunct2, THEN conjunct2, THEN conjunct1]
  note t_v = t_rest [THEN conjunct2, THEN conjunct2, THEN conjunct2, THEN conjunct1]
  from t_ctx ctx c r have s1: "pr_correctness p = 1" "pr_resilience p = 1" by auto
  from t_q t_d t_v q d v
  have s2: "pr_code_quality p = 2" "pr_documentation p = 2" "pr_creativity p = 1"
    by simp_all
  have ev: "even (pr_code_quality p + pr_documentation p)" by (simp add: s2)
  have "pr_overallScore p =
          rd (3 / 10 * of_int (pr_correctness p) + 25 / 100 * of_int (pr_code_quality p)
              + 2 / 10 * of_int (pr_resilience p) + 15 / 100 * of_int (pr_documentation p)
              + 1 / 10 * of_int (pr_creativity p))"
    using t_even ev by (rule mp)
  also have "3 / 10 * of_int (pr_correctness p) + 25 / 100 * of_int (pr_code_quality p)
              + 2 / 10 * of_int (pr_resilience p) + 15 / 100 * of_int (pr_documentation p)
              + 1 / 10 * of_int (pr_creativity p) = (14 / 10 :: rat)"
    by (simp add: s1 s2)
  finally have o: "pr_overallScore p = rd (14 / 10)" .
  from s1 s2 o have "p = \<lparr> pr_correctness = 1, pr_code_quality = 2, pr_resilience = 1,
             pr_documentation = 2, pr_creativity = 1, pr_overallScore = rd (14 / 10) \<rparr>"
    by (cases p) simp
  with p show ?thesis by simp
qed

subsection \<open>Evaluating a rounding, and a tie of the project score\<close>

lemma round_even_value:
  assumes "of_int m - 1 / 2 < y" "y < of_int m + 1 / 2"
  shows "round_even y = m"
proof (cases "of_int m \<le> y")
  case True
  with assms(2) have "\<lfloor>y\<rfloor> = m" by (intro floor_unique) linarith+
  with assms(2) show ?thesis by (simp add: round_even_def Let_def)
next
  case False
  with assms(1) have "\<lfloor>y\<rfloor> = m - 1" by (intro floor_unique) (simp, linarith)
  with assms(1) show ?thesis by (simp add: round_even_def Let_def)
qed

lemma round_even_tie:
  assumes "y = of_int m + 1 / 2"
  shows "round_even y = (if even m then m else m + 1)"
proof -
  have "\<lfloor>y\<rfloor> = m" unfolding assms by (intro floor_unique) simp_all
  then show ?thesis by (simp add: round_even_def Let_def assms)
qed

lemma rd_round_even:
  assumes "2 powi e \<le> x" "x < 2 powi (e + 1)"
  shows "rd x = of_int (round_even (x / 2 powi (e - 52))) * 2 powi (e - 52)"
proof -
  have "(0::rat) < 2 powi e" by simp
  with assms(1) have x: "0 < x" by linarith
  have "ilog2 x < e + 1" using x assms(2) by (rule ilog2_less)
  moreover have "e \<le> ilog2 x" using x assms(1) by (rule ilog2_ge)
  ultimately have "ilog2 x = e" by simp
  then show ?thesis using x by (simp add: rd_def rd_pos_def Let_def)
qed

lemma rd_value:
  assumes "2 powi e \<le> x" "x < 2 powi (e + 1)"
    and "of_int m - 1 / 2 < x / 2 powi (e - 52)" "x / 2 powi (e - 52) < of_int m + 1 / 2"
  shows "rd x = of_int m * 2 powi (e - 52)"
  using rd_round_even [OF assms(1,2)] round_even_value [OF assms(3,4)] by simp

lemma rd_value_tie:
  assumes "2 powi e \<le> x" "x < 2 powi (e + 1)"
    and "x / 2 powi (e - 52) = of_int m + 1 / 2"
  shows "rd x = of_int (if even m then m else m + 1) * 2 powi (e - 52)"
  using rd_round_even [OF assms(1,2)] round_even_tie [OF assms(3)] by simp

text \<open>
  Two exact ties. The criterion scores 1, 5, 1, 2, 3 and the scores 1, 5, 2, 2, 1 have the
  same weighted average, 2.35. For the first the sum computed in binary64, times 10, is
  just below 23.5 and \<open>Math.round\<close> gives 23; for the second it is 23.5 and
  \<open>Math.round\<close> gives 24.
\<close>

lemma weighted_tie:
  "Math_round (fmul (fadd (fadd (fadd (fadd
       (fmul 1 (rd (3 / 10))) (fmul 5 (rd (25 / 100)))) (fmul 1 (rd (2 / 10))))
       (fmul 2 (rd (15 / 100)))) (fmul 3 (rd (1 / 10)))) 10) = 23"
proof -
  have k0: "rd (3 / 10) = 5404319552844595 / 18014398509481984"
    using rd_value [of "-2" "3 / 10" "5404319552844595"] by simp
  have k1: "rd (25 / 100) = 1 / 4"
    using rd_value [of "-2" "25 / 100" "4503599627370496"] by simp
  have k2: "rd (2 / 10) = 3602879701896397 / 18014398509481984"
    using rd_value [of "-3" "2 / 10" "7205759403792794"] by simp
  have k3: "rd (15 / 100) = 5404319552844595 / 36028797018963968"
    using rd_value [of "-3" "15 / 100" "5404319552844595"] by simp
  have k4: "rd (1 / 10) = 3602879701896397 / 36028797018963968"
    using rd_value [of "-4" "1 / 10" "7205759403792794"] by simp
  have p0: "rd (1 * (5404319552844595 / 18014398509481984)) = 5404319552844595 / 18014398509481984"
    using rd_value [of "-2" "1 * (5404319552844595 / 18014398509481984)" "5404319552844595"] by simp
  have p1: "rd (5 * (1 / 4)) = 5 / 4"
    using rd_value [of "0" "5 * (1 / 4)" "5629499534213120"] by simp
  have p2: "rd (1 * (3602879701896397 / 18014398509481984)) = 3602879701896397 / 18014398509481984"
    using rd_value [of "-3" "1 * (3602879701896397 / 18014398509481984)" "7205759403792794"] by simp
  have p3: "rd (2 * (5404319552844595 / 36028797018963968)) = 5404319552844595 / 18014398509481984"
    using rd_value [of "-2" "2 * (5404319552844595 / 36028797018963968)" "5404319552844595"] by simp
  have p4: "rd (3 * (3602879701896397 / 36028797018963968)) = 1351079888211149 / 4503599627370496"
    using rd_value_tie [of "-2" "3 * (3602879701896397 / 36028797018963968)" "5404319552844595"] by simp
  have s1: "rd (5404319552844595 / 18014398509481984 + 5 / 4) = 6980579422424269 / 4503599627370496"
    using rd_value [of "0" "5404319552844595 / 18014398509481984 + 5 / 4" "6980579422424269"] by simp
  have s2: "rd (6980579422424269 / 4503599627370496 + 3602879701896397 / 18014398509481984) = 7 / 4"
    using rd_value [of "0" "6980579422424269 / 4503599627370496 + 3602879701896397 / 18014398509481984" "7881299347898368"] by simp
  have s3: "rd (7 / 4 + 5404319552844595 / 18014398509481984) = 2308094809027379 / 1125899906842624"
    using rd_value [of "1" "7 / 4 + 5404319552844595 / 18014398509481984" "4616189618054758"] by simp
  have s4: "rd (2308094809027379 / 1125899906842624 + 1351079888211149 / 4503599627370496) = 1322932390540083 / 562949953421312"
    using rd_value_tie [of "1" "2308094809027379 / 1125899906842624 + 1351079888211149 / 4503599627370496" "5291729562160332"] by simp
  have x: "rd (1322932390540083 / 562949953421312 * 10) = 6614661952700415 / 281474976710656"
    using rd_value [of "4" "1322932390540083 / 562949953421312 * 10" "6614661952700415"] by simp
  have m: "Math_round (6614661952700415 / 281474976710656) = 23"
    unfolding Math_round_def by (intro floor_unique) simp_all
  show ?thesis
    unfolding fmul_def fadd_def k0 k1 k2 k3 k4 p0 p1 p2 p3 p4 s1 s2 s3 s4 x m by simp
qed

lemma weighted_tie_up:
  "Math_round (fmul (fadd (fadd (fadd (fadd
       (fmul 1 (rd (3 / 10))) (fmul 5 (rd (25 / 100)))) (fmul 2 (rd (2 / 10))))
       (fmul 2 (rd (15 / 100)))) (fmul 1 (rd (1 / 10)))) 10) = 24"
proof -
  have k0: "rd (3 / 10) = 5404319552844595 / 18014398509481984"
    using rd_value [of "-2" "3 / 10" "5404319552844595"] by simp
  have k1: "rd (25 / 100) = 1 / 4"
    using rd_value [of "-2" "25 / 100" "4503599627370496"] by simp
  have k2: "rd (2 / 10) = 3602879701896397 / 18014398509481984"
    using rd_value [of "-3" "2 / 10" "7205759403792794"] by simp
  have k3: "rd (15 / 100) = 5404319552844595 / 36028797018963968"
    using rd_value [of "-3" "15 / 100" "5404319552844595"] by simp
  have k4: "rd (1 / 10) = 3602879701896397 / 36028797018963968"
    using rd_value [of "-4" "1 / 10" "7205759403792794"] by simp
  have p0: "rd (1 * (5404319552844595 / 18014398509481984)) = 5404319552844595 / 18014398509481984"
    using rd_value [of "-2" "1 * (5404319552844595 / 18014398509481984)" "5404319552844595"] by simp
  have p1: "rd (5 * (1 / 4)) = 5 / 4"
    using rd_value [of "0" "5 * (1 / 4)" "5629499534213120"] by simp
  have p2: "rd (2 * (3602879701896397 / 18014398509481984)) = 3602879701896397 / 9007199254740992"
    using rd_value [of "-2" "2 * (3602879701896397 / 18014398509481984)" "7205759403792794"] by simp
  have p3: "rd (2 * (5404319552844595 / 36028797018963968)) = 5404319552844595 / 18014398509481984"
    using rd_value [of "-2" "2 * (5404319552844595 / 36028797018963968)" "5404319552844595"] by simp
  have p4: "rd (1 * (3602879701896397 / 36028797018963968)) = 3602879701896397 / 36028797018963968"
    using rd_value [of "-4" "1 * (3602879701896397 / 36028797018963968)" "7205759403792794"] by simp
  have s1: "rd (5404319552844595 / 18014398509481984 + 5 / 4) = 6980579422424269 / 4503599627370496"
    using rd_value [of "0" "5404319552844595 / 18014398509481984 + 5 / 4" "6980579422424269"] by simp
  have s2: "rd (6980579422424269 / 4503599627370496 + 3602879701896397 / 9007199254740992) = 2195504818343117 / 1125899906842624"
    using rd_value_tie [of "0" "6980579422424269 / 4503599627370496 + 3602879701896397 / 9007199254740992" "8782019273372467"] by simp
  have s3: "rd (2195504818343117 / 1125899906842624 + 5404319552844595 / 18014398509481984) = 9 / 4"
    using rd_value [of "1" "2195504818343117 / 1125899906842624 + 5404319552844595 / 18014398509481984" "5066549580791808"] by simp
  have s4: "rd (9 / 4 + 3602879701896397 / 36028797018963968) = 5291729562160333 / 2251799813685248"
    using rd_value [of "1" "9 / 4 + 3602879701896397 / 36028797018963968" "5291729562160333"] by simp
  have x: "rd (5291729562160333 / 2251799813685248 * 10) = 47 / 2"
    using rd_value [of "4" "5291729562160333 / 2251799813685248 * 10" "6614661952700416"] by simp
  have m: "Math_round (47 / 2) = 24"
    unfolding Math_round_def by (intro floor_unique) simp_all
  show ?thesis
    unfolding fmul_def fadd_def k0 k1 k2 k3 k4 p0 p1 p2 p3 p4 s1 s2 s3 s4 x m by simp
qed

lemma sublist_pad:
  assumes "c \<notin> set w" "w \<noteq> []"
  shows "sublist w (a @ replicate n c) \<longleftrightarrow> sublist w a"
proof
  assume "sublist w (a @ replicate n c)"
  then consider "sublist w a" | "sublist w (replicate n c)"
    | w1 w2 where "w = w1 @ w2" "suffix w1 a" "prefix w2 (replicate n c)"
    unfolding sublist_append by blast
  then show "sublist w a"
  proof cases
    case 1
    then show ?thesis .
  next
    case 2
    then have "set w \<subseteq> set (replicate n c)" by (rule set_mono_sublist)
    with assms have False by (cases w) auto
    then show ?thesis ..
  next
    case 3
    from 3(3) have "set w2 \<subseteq> set (replicate n c)" by (rule set_mono_prefix)
    with assms(1) 3(1) have "w2 = []" by (cases w2) auto
    with 3(1,2) show ?thesis by simp
  qed
next
  assume "sublist w a"
  then show "sublist w (a @ replicate n c)" unfolding sublist_append by blast
qed

lemma js_includes_pad:
  "c \<notin> set w \<Longrightarrow> w \<noteq> [] \<Longrightarrow> js_includes (a @ replicate n c) w = js_includes a w"
  by (simp add: js_includes_sublist sublist_pad)

lemma js_includes_replicate:
  "c \<notin> set w \<Longrightarrow> w \<noteq> [] \<Longrightarrow> \<not> js_includes (replicate n c) w"
  using js_includes_pad [of c w "[]" n] by simp

lemma toLowerCase_tie_project:
  "toLowerCase tie_project = ''express node.js modular test'' @ replicate 172 (CHR ''='')"
proof -
  have "toLowerCase ''express node.js modular test'' = ''express node.js modular test''"
    by code_simp
  moreover have "lowerChar (CHR ''='') = CHR ''=''" by code_simp
  ultimately show ?thesis by (simp add: tie_project_def toLowerCase_def)
qed

lemma Math_round_one: "Math_round 1 = 1"
  unfolding Math_round_def by (intro floor_unique) simp_all

lemma tie_project_scores:
  "scoreCorrectnessWithRAG tie_project [] = 1" "scoreCodeQuality tie_project = 5"
  "scoreResilienceWithRAG tie_project [] = 1" "scoreDocumentation tie_project = 2"
  "scoreCreativity tie_project = 3"
proof -
  have e: "toLowerCase [] = []" by (simp add: toLowerCase_def)
  show "scoreCorrectnessWithRAG tie_project [] = 1"
    by (simp add: scoreCorrectnessWithRAG_def e Let_def Math_round_one)
  show "scoreCodeQuality tie_project = 5"
    by (simp add: scoreCodeQuality_def toLowerCase_tie_project js_includes_replicate)
  show "scoreResilienceWithRAG tie_project [] = 1"
    by (simp add: scoreResilienceWithRAG_def e toLowerCase_tie_project js_includes_replicate
        Let_def Math_round_one)
  show "scoreDocumentation tie_project = 2"
    by (simp add: scoreDocumentation_def toLowerCase_tie_project js_includes_replicate)
  show "scoreCreativity tie_project = 3"
    by (simp add: scoreCreativity_def tie_project_def)
qed

lemma short_project_scores:
  "scoreCorrectnessWithRAG short_project [] = 1" "scoreCodeQuality short_project = 5"
  "scoreResilienceWithRAG short_project [] = 2" "scoreDocumentation short_project = 2"
  "scoreCreativity short_project = 1"
proof -
  have e: "toLowerCase [] = []" by (simp add: toLowerCase_def)
  have l: "toLowerCase short_project = ''express node.js modular test robust''"
    unfolding short_project_def by code_simp
  have two: "Math_round 2 = 2"
    unfolding Math_round_def by (intro floor_unique) simp_all
  show "scoreCorrectnessWithRAG short_project [] = 1"
    by (simp add: scoreCorrectnessWithRAG_def e Let_def Math_round_one)
  show "scoreCodeQuality short_project = 5"
    by (simp add: scoreCodeQuality_def l)
  show "scoreResilienceWithRAG short_project [] = 2"
    by (simp add: scoreResilienceWithRAG_def e l Let_def two)
  show "scoreDocumentation short_project = 2"
    by (simp add: scoreDocumentation_def l)
  show "scoreCreativity short_project = 1"
    by (simp add: scoreCreativity_def short_project_def)
qed

lemma example_project_context: "getContextForProjectEvaluation example_documents = Inr []"
  by (simp add: getContextForProjectEvaluation_def getJobRequirements_def getScoringRubric_def
      example_documents_def findRelevantChunks_def js_sort_def extractTechnicalRequirements_def
      extractBulletPoints_def split_on_def Let_def)

lemma evaluateProject_tie:
  "evaluateProject example_documents tie_project rubric
     = Inr \<lparr> pr_correctness = 1, pr_code_quality = 5, pr_resilience = 1,
             pr_documentation = 2, pr_creativity = 3, pr_overallScore = rd (23 / 10) \<rparr>"
  unfolding evaluateProject_def example_project_context sum.case Let_def tie_project_scores
    of_int_1 of_int_numeral weighted_tie fdiv_def
  by simp

lemma evaluateProject_tie_up:
  "evaluateProject example_documents short_project rubric
     = Inr \<lparr> pr_correctness = 1, pr_code_quality = 5, pr_resilience = 2,
             pr_documentation = 2, pr_creativity = 1, pr_overallScore = rd (24 / 10) \<rparr>"
  unfolding evaluateProject_def example_project_context sum.case Let_def short_project_scores
    of_int_1 of_int_numeral weighted_tie_up fdiv_def
  by simp

text \<open>
  The claim as written makes the overall score the weighted average rounded to one decimal
  place. With the small document store, the project texts \<open>tie_project\<close> and
  \<open>short_project\<close> have the criterion scores 1, 5, 1, 2, 3 and 1, 5, 2, 2, 1. Both weighted
  averages are exactly 2.35, and the overall scores are the binary64 values of 2.3 and of
  2.4, which differ: the overall score is not a function of the weighted average, and for
  the first text it is not the value 2.4 that rounding 2.35 with \<open>Math.round\<close> gives.
\<close>

theorem project_tie_counterexample:
  "evaluateProject example_documents tie_project
       ''Evaluate based on correctness, code quality, resilience, documentation, and creativity''
     = Inr \<lparr> pr_correctness = 1, pr_code_quality = 5, pr_resilience = 1,
             pr_documentation = 2, pr_creativity = 3, pr_overallScore = rd (23 / 10) \<rparr> \<and>
   evaluateProject example_documents short_project
       ''Evaluate based on correctness, code quality, resilience, documentation, and creativity''
     = Inr \<lparr> pr_correctness = 1, pr_code_quality = 5, pr_resilience = 2,
             pr_documentation = 2, pr_creativity = 1, pr_overallScore = rd (24 / 10) \<rparr> \<and>
   3 / 10 * 1 + 25 / 100 * 5 + 2 / 10 * 1 + 15 / 100 * 2 + 1 / 10 * 3 = (235 / 100 :: rat) \<and>
   3 / 10 * 1 + 25 / 100 * 5 + 2 / 10 * 2 + 15 / 100 * 2 + 1 / 10 * 1 = (235 / 100 :: rat) \<and>
   Math_round (10 * (235 / 100)) = 24 \<and>
   rd (23 / 10) \<noteq> rd (24 / 10)"
proof -
  have r: "Math_round (10 * (235 / 100)) = 24"
    unfolding Math_round_def by (intro floor_unique) simp_all
  have e: "(23 / 10 + 1 / 10 :: rat) = 24 / 10" by simp
  have "rd (23 / 10) \<noteq> rd (23 / 10 + 1 / 10)"
    by (intro rd_tenth_apart) simp_all
  then have a: "rd (23 / 10) \<noteq> rd (24 / 10)" unfolding e .
  from evaluateProject_tie evaluateProject_tie_up r a show ?thesis by simp
qed

section \<open>Reported scores\<close>

lemma processEvaluation_completed:
  assumes "j \<in> set (processEvaluation w startTime endTime job uploadData)"
    and "job_status j = ''completed''"
  shows "\<exists>cvStructured jobContext m projectText scoringRubric p r.
           evaluateCVMatch (w_documents w) cvStructured jobContext = Inr m \<and>
           evaluateProject (w_documents w) projectText scoringRubric = Inr p \<and>
           job_result j = Some r \<and>
           cv_match_rate r = fdiv (of_int (mr_score m)) 100 \<and>
           project_score r = pr_overallScore p"
proof (cases "extractCVInfo (w_maxArguments w)
                (extractFileContent (w_readFileSync w) (up_cv uploadData))")
  case (Inl m)
  with assms show ?thesis
    unfolding processEvaluation_def Let_def by (auto simp: job_failed_def)
next
  case ex: (Inr cvStructured)
  show ?thesis
  proof (cases "evaluateCVMatch (w_documents w) cvStructured
                  ''Backend developer role requiring Node.js, databases, APIs, and AI/LLM experience''")
    case (Inl m)
    with ex assms show ?thesis
      unfolding processEvaluation_def Let_def by (auto simp: job_failed_def)
  next
    case cv: (Inr cvMatchRate)
    show ?thesis
    proof (cases "evaluateProject (w_documents w)
                    (extractFileContent (w_readFileSync w) (up_project uploadData))
                    ''Evaluate based on correctness, code quality, resilience, documentation, and creativity''")
      case (Inl m)
      with ex cv assms show ?thesis
        unfolding processEvaluation_def Let_def by (auto simp: job_failed_def)
    next
      case pr: (Inr projectScore)
      from ex cv pr assms have
        "\<exists>r. job_result j = Some r \<and> cv_match_rate r = fdiv (of_int (mr_score cvMatchRate)) 100 \<and>
             project_score r = pr_overallScore projectScore"
        unfolding processEvaluation_def Let_def by (auto simp: job_completed_def)
      with cv pr show ?thesis by blast
    qed
  qed
qed

text \<open>
  Claim C8. The result of every completed evaluation reports a \<open>cv_match_rate\<close> between 0
  and 1 and a \<open>project_score\<close> between 1 and 5, whatever the uploaded texts and the
  documents of the store are.
\<close>

theorem reported_scores_in_range:
  assumes "post_evaluate w st uploadId evaluationId createdTime startTime endTime
             = Json (eid, history)"
    and "j \<in> set history" and "job_status j = ''completed''"
  shows "\<exists>r. job_result j = Some r \<and>
             0 \<le> cv_match_rate r \<and> cv_match_rate r \<le> 1 \<and>
             1 \<le> project_score r \<and> project_score r \<le> 5"
proof -
  from assms(1) obtain job uploadData where
    h: "history = job # processEvaluation w startTime endTime job uploadData"
    and q: "job_status job = ''queued''"
    by (auto simp: post_evaluate_def Let_def split: option.splits if_splits)
  from assms(2,3) h q have "j \<in> set (processEvaluation w startTime endTime job uploadData)"
    by auto
  from processEvaluation_completed [OF this assms(3)]
  obtain cvStructured jobContext m projectText scoringRubric p r where
    m: "evaluateCVMatch (w_documents w) cvStructured jobContext = Inr m"
    and p: "evaluateProject (w_documents w) projectText scoringRubric = Inr p"
    and r: "job_result j = Some r" "cv_match_rate r = fdiv (of_int (mr_score m)) 100"
      "project_score r = pr_overallScore p"
    by blast
  from evaluateCVMatch_score_range [OF m] have s: "0 \<le> mr_score m" "mr_score m \<le> 100"
    by blast+
  have cvr: "0 \<le> cv_match_rate r \<and> cv_match_rate r \<le> 1"
  proof (cases "mr_score m = 0")
    case True
    then show ?thesis by (simp add: r(2) fdiv_def rd_def)
  next
    case False
    with s have "0 < mr_score m" by simp
    then have "0 < rat_of_int (mr_score m)" by simp
    then have pos: "0 < rat_of_int (mr_score m) / 100" by simp
    from s(2) have "rat_of_int (mr_score m) \<le> 100" by simp
    then have "rat_of_int (mr_score m) / 100 \<le> 1" by simp
    from rd_unit_interval [OF pos this] show ?thesis by (simp add: r(2) fdiv_def)
  qed
  from evaluateProject_overall_range [OF p]
  have "1 \<le> pr_overallScore p" "pr_overallScore p \<le> 5"
    by blast+
  with cvr r show ?thesis by simp
qed

theorem reported_scores_in_range_witness:
  "post_evaluate example_world example_server (Some ''u1'') ''e1'' 1 2 9
     = Json (''e1'',
         \<lparr> job_id = ''e1'', job_uploadId = ''u1'', job_status = ''queued'', job_createdAt = 1,
           job_message = ''Evaluation queued for processing'', job_startedAt = None,
           job_result = None, job_completedAt = None, job_error = None, job_failedAt = None \<rparr>
         # processEvaluation example_world 2 9
             \<lparr> job_id = ''e1'', job_uploadId = ''u1'', job_status = ''queued'', job_createdAt = 1,
               job_message = ''Evaluation queued for processing'', job_startedAt = None,
               job_result = None, job_completedAt = None, job_error = None,
               job_failedAt = None \<rparr>
             example_upload) \<and>
   job_status (last (processEvaluation example_world 2 9
             \<lparr> job_id = ''e1'', job_uploadId = ''u1'', job_status = ''queued'', job_createdAt = 1,
               job_message = ''Evaluation queued for processing'', job_startedAt = None,
               job_result = None, job_completedAt = None, job_error = None,
               job_failedAt = None \<rparr>
             example_upload)) = ''completed'' \<and>
   (\<exists>r. job_result (last (processEvaluation example_world 2 9
             \<lparr> job_id = ''e1'', job_uploadId = ''u1'', job_status = ''queued'', job_createdAt = 1,
               job_message = ''Evaluation queued for processing'', job_startedAt = None,
               job_result = None, job_completedAt = None, job_error = None,
               job_failedAt = None \<rparr>
             example_upload)) = Some r \<and>
        0 \<le> cv_match_rate r \<and> cv_match_rate r \<le> 1 \<and>
        1 \<le> project_score r \<and> project_score r \<le> 5)"
proof -
  define job where "job = \<lparr> job_id = ''e1'', job_uploadId = ''u1'', job_status = ''queued'',
      job_createdAt = 1, job_message = ''Evaluation queued for processing'',
      job_startedAt = None, job_result = None, job_completedAt = None, job_error = None,
      job_failedAt = None \<rparr>"
  define history where "history = job # processEvaluation example_world 2 9 job example_upload"
  have e: "post_evaluate example_world example_server (Some ''u1'') ''e1'' 1 2 9
             = Json (''e1'', history)"
    by (simp add: post_evaluate_def example_server_def history_def job_def Let_def)
  have f1: "find (\<lambda>doc. doc_id doc = ''job-requirements'') (w_documents example_world) \<noteq> None"
    by (simp add: example_world_def example_documents_def)
  have f2: "find (\<lambda>doc. doc_id doc = ''scoring-rubric'') (w_documents example_world) \<noteq> None"
    by (simp add: example_world_def example_documents_def)
  obtain js l where s: "processEvaluation example_world 2 9 job example_upload = js @ [l]"
    "js \<noteq> []"
    "(\<exists>m. l = job_failed (last js) m 9) \<or> (\<exists>r. l = job_completed (last js) r 9)"
    using processEvaluation_shape [of example_world 2 9 job example_upload] by blast
  have la: "last (processEvaluation example_world 2 9 job example_upload) = l"
    by (simp add: s(1))
  have tx: "extractFileContent (w_readFileSync example_world) (up_cv example_upload)
              = ''5 years of Node.js''"
    by (simp add: example_world_def example_upload_def extractFileContent_def
        extractFileContent_try_def)
  have "length (yearMatches (extractFileContent (w_readFileSync example_world)
                  (up_cv example_upload)))
          \<le> length (extractFileContent (w_readFileSync example_world) (up_cv example_upload))"
    by (rule length_yearMatches)
  also have "\<dots> \<le> w_maxArguments example_world"
    unfolding tx by (simp add: example_world_def)
  finally have f3: "\<not> w_maxArguments example_world
      < length (yearMatches (extractFileContent (w_readFileSync example_world)
                  (up_cv example_upload)))"
    by simp
  have "job_status l \<noteq> ''failed''"
    using processEvaluation_failed [of example_world 2 9 job example_upload] f1 f2 f3
    unfolding la by blast
  with s(3) have c: "job_status l = ''completed''"
    by (auto simp: job_failed_def job_completed_def)
  have "l \<in> set history" by (simp add: history_def s(1))
  from reported_scores_in_range [OF e this c] e c
  have "post_evaluate example_world example_server (Some ''u1'') ''e1'' 1 2 9
     = Json (''e1'', job # processEvaluation example_world 2 9 job example_upload) \<and>
   job_status (last (processEvaluation example_world 2 9 job example_upload)) = ''completed'' \<and>
   (\<exists>r. job_result (last (processEvaluation example_world 2 9 job example_upload)) = Some r \<and>
        0 \<le> cv_match_rate r \<and> cv_match_rate r \<le> 1 \<and>
        1 \<le> project_score r \<and> project_score r \<le> 5)"
    unfolding la history_def by blast
  then show ?thesis unfolding job_def .
qed

section \<open>Retry, backoff and fallback\<close>

lemma callOpenAI_exhausted:
  assumes "\<forall>k. a \<le> k \<and> k \<le> max a (maxRetries cfg) \<longrightarrow> requestContent (api k) = Inl (msg k)"
  shows "callOpenAI cfg (OpenAI api) random prompt a =
           (map (retryDelay cfg) [a..maxRetries cfg - 1],
            Inl (''OpenAI API failed after '' @ showInt (maxRetries cfg) @ '' attempts: '' @
                 msg (max a (maxRetries cfg))))"
  using assms
proof (induction "nat (maxRetries cfg - a)" arbitrary: a)
  case 0
  then have le: "maxRetries cfg \<le> a" by simp
  then have m: "max a (maxRetries cfg) = a" by simp
  from 0 have f: "requestContent (api a) = Inl (msg a)" by simp
  have u: "[a..maxRetries cfg - 1] = []" using le by simp
  show ?case
    by (subst callOpenAI.simps) (use le in \<open>simp add: f m u\<close>)
next
  case (Suc n)
  then have lt: "a < maxRetries cfg" by linarith
  then have m: "max a (maxRetries cfg) = maxRetries cfg"
    "max (a + 1) (maxRetries cfg) = maxRetries cfg" by simp_all
  from Suc.prems have f: "requestContent (api a) = Inl (msg a)" by simp
  have ih: "callOpenAI cfg (OpenAI api) random prompt (a + 1) =
           (map (retryDelay cfg) [a + 1..maxRetries cfg - 1],
            Inl (''OpenAI API failed after '' @ showInt (maxRetries cfg) @ '' attempts: '' @
                 msg (max (a + 1) (maxRetries cfg))))"
    using Suc.hyps(2) Suc.prems lt by (intro Suc.hyps(1)) auto
  have u: "[a..maxRetries cfg - 1] = a # [a + 1..maxRetries cfg - 1]"
    using lt by (simp add: upto_rec1)
  show ?case
    by (subst callOpenAI.simps) (simp add: f lt ih u m)
qed

lemma callOpenAI_success:
  assumes "\<forall>k. a \<le> k \<and> k < f \<longrightarrow> (\<exists>m. requestContent (api k) = Inl m)"
    and "requestContent (api f) = Inr content" and "a \<le> f" and "f \<le> max a (maxRetries cfg)"
  shows "callOpenAI cfg (OpenAI api) random prompt a =
           (map (retryDelay cfg) [a..f - 1], Inr content)"
  using assms
proof (induction "nat (f - a)" arbitrary: a)
  case 0
  then have a: "a = f" by simp
  with 0 show ?case
    by (subst callOpenAI.simps) simp
next
  case (Suc n)
  then have lt: "a < f" by linarith
  with Suc.prems obtain m where m: "requestContent (api a) = Inl m" by blast
  have r: "a < maxRetries cfg" using lt Suc.prems(4) by simp
  have ih: "callOpenAI cfg (OpenAI api) random prompt (a + 1) =
           (map (retryDelay cfg) [a + 1..f - 1], Inr content)"
    using Suc.hyps(2) Suc.prems lt r by (intro Suc.hyps(1)) auto
  have u: "[a..f - 1] = a # [a + 1..f - 1]"
    using lt by (simp add: upto_rec1)
  show ?case
    by (subst callOpenAI.simps) (simp add: m r ih u)
qed

lemma default_waits:
  "retryConfig NaN = \<lparr> maxRetries = 3, baseDelay = 1000, maxDelay = 10000 \<rparr> \<and>
   map (retryDelay (retryConfig NaN)) [1..maxRetries (retryConfig NaN) - 1] = [1000, 2000]"
proof -
  have "[1..2::int] = [1, 2]" by (simp add: upto_rec1)
  then show ?thesis by (simp add: retryConfig_def retryDelay_def)
qed

lemma fallbackExtractCVInfo_Inl:
  "fallbackExtractCVInfo maxArguments cvText = Inl m \<longleftrightarrow>
     maxArguments < length (yearMatches cvText) \<and> m = ''Maximum call stack size exceeded''"
proof -
  have "fallbackExtractCVInfo maxArguments cvText = Inl m \<longleftrightarrow>
        extractExperienceBasic maxArguments cvText = Inl m"
    by (simp add: fallbackExtractCVInfo_def Let_def split: sum.splits)
  also have "\<dots> \<longleftrightarrow>
     maxArguments < length (yearMatches cvText) \<and> m = ''Maximum call stack size exceeded''"
    by (auto simp: extractExperienceBasic_def Math_max_spread_def split: list.splits)
  finally show ?thesis .
qed

text \<open>Each stage method, given what \<open>callOpenAI\<close> returns for every prompt.\<close>

lemma stages_after_failure:
  assumes "\<And>prompt. callOpenAI cfg cl random prompt 1 = (waits, Inl message)"
  shows "production_extractCVInfo cfg cl random parseCV maxArguments cvText =
           (waits, fallbackExtractCVInfo maxArguments cvText)"
    and "production_evaluateCVMatch cfg cl random documents JSON_stringify parseMatch
             cvStructured jobContext =
           (case getContextForCVEvaluation documents of
              Inl e \<Rightarrow> ([], Inl e)
            | Inr ragContext \<Rightarrow> (waits, Inr (fallbackEvaluateCV cvStructured)))"
    and "production_generateCVFeedback cfg cl random numberToString cvStructured jobContext
             matchResult =
           (waits, fallbackCVFeedback (mr_score matchResult))"
    and "production_evaluateProject cfg cl random documents parseProject projectText
             scoringRubric =
           (case getContextForProjectEvaluation documents of
              Inl e \<Rightarrow> ([], Inl e)
            | Inr ragContext \<Rightarrow> (waits, Inr (fallbackEvaluateProject projectText)))"
    and "production_generateProjectFeedback cfg cl random numberToString projectText
             scoringRubric projectScore =
           (waits, fallbackProjectFeedback numberToString (pr_overallScore projectScore))"
    and "production_generateOverallSummary cfg cl random numberToString cvMatchRate cvFeedback
             projectScore projectFeedback =
           (waits, fallbackOverallSummary numberToString (mr_score cvMatchRate)
                     (pr_overallScore projectScore))"
proof -
  show "production_extractCVInfo cfg cl random parseCV maxArguments cvText =
           (waits, fallbackExtractCVInfo maxArguments cvText)"
    unfolding production_extractCVInfo_def Let_def
    by (simp only: assms prod.case sum.case)
  show "production_generateCVFeedback cfg cl random numberToString cvStructured jobContext
             matchResult =
           (waits, fallbackCVFeedback (mr_score matchResult))"
    unfolding production_generateCVFeedback_def Let_def
    by (simp only: assms prod.case sum.case)
  show "production_generateProjectFeedback cfg cl random numberToString projectText
             scoringRubric projectScore =
           (waits, fallbackProjectFeedback numberToString (pr_overallScore projectScore))"
    unfolding production_generateProjectFeedback_def Let_def
    by (simp only: assms prod.case sum.case)
  show "production_generateOverallSummary cfg cl random numberToString cvMatchRate cvFeedback
             projectScore projectFeedback =
           (waits, fallbackOverallSummary numberToString (mr_score cvMatchRate)
                     (pr_overallScore projectScore))"
    unfolding production_generateOverallSummary_def Let_def
    by (simp only: assms prod.case sum.case)
  show "production_evaluateCVMatch cfg cl random documents JSON_stringify parseMatch
             cvStructured jobContext =
           (case getContextForCVEvaluation documents of
              Inl e \<Rightarrow> ([], Inl e)
            | Inr ragContext \<Rightarrow> (waits, Inr (fallbackEvaluateCV cvStructured)))"
  proof (cases "getContextForCVEvaluation documents")
    case (Inl e)
    then show ?thesis by (simp add: production_evaluateCVMatch_def)
  next
    case (Inr ragContext)
    show ?thesis
      unfolding production_evaluateCVMatch_def Let_def Inr
      by (simp only: assms prod.case sum.case)
  qed
  show "production_evaluateProject cfg cl random documents parseProject projectText
             scoringRubric =
           (case getContextForProjectEvaluation documents of
              Inl e \<Rightarrow> ([], Inl e)
            | Inr ragContext \<Rightarrow> (waits, Inr (fallbackEvaluateProject projectText)))"
  proof (cases "getContextForProjectEvaluation documents")
    case (Inl e)
    then show ?thesis by (simp add: production_evaluateProject_def)
  next
    case (Inr ragContext)
    show ?thesis
      unfolding production_evaluateProject_def Let_def Inr
      by (simp only: assms prod.case sum.case)
  qed
qed

lemma stages_after_content:
  assumes "\<And>prompt. callOpenAI cfg cl random prompt 1 = (waits, Inr content)"
  shows "production_extractCVInfo cfg cl random parseCV maxArguments cvText =
           (waits, case parseCV (trim content) of
                     None \<Rightarrow> fallbackExtractCVInfo maxArguments cvText
                   | Some parsed \<Rightarrow> Inr parsed)"
    and "production_evaluateCVMatch cfg cl random documents JSON_stringify parseMatch
             cvStructured jobContext =
           (case getContextForCVEvaluation documents of
              Inl e \<Rightarrow> ([], Inl e)
            | Inr ragContext \<Rightarrow>
                (waits, Inr (case parseMatch (trim content) of
                               None \<Rightarrow> fallbackEvaluateCV cvStructured
                             | Some parsed \<Rightarrow> parsed)))"
    and "production_generateCVFeedback cfg cl random numberToString cvStructured jobContext
             matchResult =
           (waits, trim content)"
    and "production_evaluateProject cfg cl random documents parseProject projectText
             scoringRubric =
           (case getContextForProjectEvaluation documents of
              Inl e \<Rightarrow> ([], Inl e)
            | Inr ragContext \<Rightarrow>
                (waits, Inr (case parseProject (trim content) of
                               None \<Rightarrow> fallbackEvaluateProject projectText
                             | Some parsed \<Rightarrow> parsed)))"
    and "production_generateProjectFeedback cfg cl random numberToString projectText
             scoringRubric projectScore =
           (waits, trim content)"
    and "production_generateOverallSummary cfg cl random numberToString cvMatchRate cvFeedback
             projectScore projectFeedback =
           (waits, trim content)"
proof -
  show "production_extractCVInfo cfg cl random parseCV maxArguments cvText =
           (waits, case parseCV (trim content) of
                     None \<Rightarrow> fallbackExtractCVInfo maxArguments cvText
                   | Some parsed \<Rightarrow> Inr parsed)"
    unfolding production_extractCVInfo_def Let_def
    by (simp only: assms prod.case sum.case) (simp split: option.split)
  show "production_generateCVFeedback cfg cl random numberToString cvStructured jobContext
             matchResult =
           (waits, trim content)"
    unfolding production_generateCVFeedback_def Let_def
    by (simp only: assms prod.case sum.case)
  show "production_generateProjectFeedback cfg cl random numberToString projectText
             scoringRubric projectScore =
           (waits, trim content)"
    unfolding production_generateProjectFeedback_def Let_def
    by (simp only: assms prod.case sum.case)
  show "production_generateOverallSummary cfg cl random numberToString cvMatchRate cvFeedback
             projectScore projectFeedback =
           (waits, trim content)"
    unfolding production_generateOverallSummary_def Let_def
    by (simp only: assms prod.case sum.case)
  show "production_evaluateCVMatch cfg cl random documents JSON_stringify parseMatch
             cvStructured jobContext =
           (case getContextForCVEvaluation documents of
              Inl e \<Rightarrow> ([], Inl e)
            | Inr ragContext \<Rightarrow>
                (waits, Inr (case parseMatch (trim content) of
                               None \<Rightarrow> fallbackEvaluateCV cvStructured
                             | Some parsed \<Rightarrow> parsed)))"
  proof (cases "getContextForCVEvaluation documents")
    case (Inl e)
    then show ?thesis by (simp add: production_evaluateCVMatch_def)
  next
    case (Inr ragContext)
    show ?thesis
      unfolding production_evaluateCVMatch_def Let_def Inr
      by (simp only: assms prod.case sum.case) (simp split: option.split)
  qed
  show "production_evaluateProject cfg cl random documents parseProject projectText
             scoringRubric =
           (case getContextForProjectEvaluation documents of
              Inl e \<Rightarrow> ([], Inl e)
            | Inr ragContext \<Rightarrow>
                (waits, Inr (case parseProject (trim content) of
                               None \<Rightarrow> fallbackEvaluateProject projectText
                             | Some parsed \<Rightarrow> parsed)))"
  proof (cases "getContextForProjectEvaluation documents")
    case (Inl e)
    then show ?thesis by (simp add: production_evaluateProject_def)
  next
    case (Inr ragContext)
    show ?thesis
      unfolding production_evaluateProject_def Let_def Inr
      by (simp only: assms prod.case sum.case) (simp split: option.split)
  qed
qed

text \<open>
  Claim C7, as the code has it. \<open>callOpenAI\<close> waits
  \<open>min(baseDelay * 2^(attempt-1), maxDelay)\<close> after a failed attempt whose number is below
  \<open>maxRetries\<close>, and then tries again; the defaults are \<open>maxRetries = 3\<close>,
  \<open>baseDelay = 1000\<close> and \<open>maxDelay = 10000\<close>. So it makes at most \<open>maxRetries\<close>
  attempts, and one attempt when \<open>maxRetries\<close> is below 1. When every attempt fails (the
  provider's call throws, or its response has no content), the waits are those of the
  attempts 1 to \<open>maxRetries - 1\<close>, which are 1000 and 2000 for the defaults, and
  \<open>callOpenAI\<close> itself raises \<open>OpenAI API failed after <maxRetries> attempts: <message>\<close>
  with the message of the last attempt. Each of the six stage methods catches that error and
  returns its fallback value. When an attempt succeeds, the content comes back after the
  waits of the failed attempts before it; the stages that write text return it trimmed, and
  the stages that parse it return the parsed value, or their fallback value when it does
  not parse. Two things leave a stage as an error: a document missing from the store, which
  \<open>evaluateCVMatch\<close> and \<open>evaluateProject\<close> look up before the call, and the fallback of
  \<open>extractCVInfo\<close> on a CV text with more year matches than the engine's stack takes as
  the arguments of \<open>Math.max\<close>. Without a key for the provider, \<open>callOpenAI\<close> makes
  no call: it waits once, 500 plus up to 1000, and returns a mock response.
\<close>

theorem retry_backoff_fallback:
  "retryDelay cfg attempt
     = min (of_nat (baseDelay cfg) * 2 powi (attempt - 1)) (of_nat (maxDelay cfg)) \<and>
   retryConfig NaN = \<lparr> maxRetries = 3, baseDelay = 1000, maxDelay = 10000 \<rparr> \<and>
   map (retryDelay (retryConfig NaN)) [1..maxRetries (retryConfig NaN) - 1] = [1000, 2000] \<and>
   ((\<forall>k. 1 \<le> k \<and> k \<le> max 1 (maxRetries cfg) \<longrightarrow> requestContent (api k) = Inl (msg k)) \<longrightarrow>
      callOpenAI cfg (OpenAI api) random prompt 1 =
        (map (retryDelay cfg) [1..maxRetries cfg - 1],
         Inl (''OpenAI API failed after '' @ showInt (maxRetries cfg) @ '' attempts: '' @
              msg (max 1 (maxRetries cfg)))) \<and>
      production_extractCVInfo cfg (OpenAI api) random parseCV maxArguments cvText =
        (map (retryDelay cfg) [1..maxRetries cfg - 1],
         fallbackExtractCVInfo maxArguments cvText) \<and>
      production_evaluateCVMatch cfg (OpenAI api) random documents JSON_stringify parseMatch
          cvStructured jobContext =
        (case getContextForCVEvaluation documents of
           Inl e \<Rightarrow> ([], Inl e)
         | Inr ragContext \<Rightarrow>
             (map (retryDelay cfg) [1..maxRetries cfg - 1],
              Inr (fallbackEvaluateCV cvStructured))) \<and>
      production_generateCVFeedback cfg (OpenAI api) random numberToString cvStructured
          jobContext matchResult =
        (map (retryDelay cfg) [1..maxRetries cfg - 1],
         fallbackCVFeedback (mr_score matchResult)) \<and>
      production_evaluateProject cfg (OpenAI api) random documents parseProject projectText
          scoringRubric =
        (case getContextForProjectEvaluation documents of
           Inl e \<Rightarrow> ([], Inl e)
         | Inr ragContext \<Rightarrow>
             (map (retryDelay cfg) [1..maxRetries cfg - 1],
              Inr (fallbackEvaluateProject projectText))) \<and>
      production_generateProjectFeedback cfg (OpenAI api) random numberToString projectText
          scoringRubric projectScore =
        (map (retryDelay cfg) [1..maxRetries cfg - 1],
         fallbackProjectFeedback numberToString (pr_overallScore projectScore)) \<and>
      production_generateOverallSummary cfg (OpenAI api) random numberToString cvMatchRate
          cvFeedback projectScore projectFeedback =
        (map (retryDelay cfg) [1..maxRetries cfg - 1],
         fallbackOverallSummary numberToString (mr_score cvMatchRate)
           (pr_overallScore projectScore))) \<and>
   (1 \<le> f \<and> f \<le> max 1 (maxRetries cfg) \<and>
    (\<forall>k. 1 \<le> k \<and> k < f \<longrightarrow> (\<exists>m. requestContent (api k) = Inl m)) \<and>
    requestContent (api f) = Inr content \<longrightarrow>
      callOpenAI cfg (OpenAI api) random prompt 1 = (map (retryDelay cfg) [1..f - 1], Inr content) \<and>
      production_extractCVInfo cfg (OpenAI api) random parseCV maxArguments cvText =
        (map (retryDelay cfg) [1..f - 1],
         case parseCV (trim content) of
           None \<Rightarrow> fallbackExtractCVInfo maxArguments cvText
         | Some parsed \<Rightarrow> Inr parsed) \<and>
      production_evaluateCVMatch cfg (OpenAI api) random documents JSON_stringify parseMatch
          cvStructured jobContext =
        (case getContextForCVEvaluation documents of
           Inl e \<Rightarrow> ([], Inl e)
         | Inr ragContext \<Rightarrow>
             (map (retryDelay cfg) [1..f - 1],
              Inr (case parseMatch (trim content) of
                     None \<Rightarrow> fallbackEvaluateCV cvStructured
                   | Some parsed \<Rightarrow> parsed))) \<and>
      production_generateCVFeedback cfg (OpenAI api) random numberToString cvStructured
          jobContext matchResult =
        (map (retryDelay cfg) [1..f - 1], trim content) \<and>
      production_evaluateProject cfg (OpenAI api) random documents parseProject projectText
          scoringRubric =
        (case getContextForProjectEvaluation documents of
           Inl e \<Rightarrow> ([], Inl e)
         | Inr ragContext \<Rightarrow>
             (map (retryDelay cfg) [1..f - 1],
              Inr (case parseProject (trim content) of
                     None \<Rightarrow> fallbackEvaluateProject projectText
                   | Some parsed \<Rightarrow> parsed))) \<and>
      production_generateProjectFeedback cfg (OpenAI api) random numberToString projectText
          scoringRubric projectScore =
        (map (retryDelay cfg) [1..f - 1], trim content) \<and>
      production_generateOverallSummary cfg (OpenAI api) random numberToString cvMatchRate
          cvFeedback projectScore projectFeedback =
        (map (retryDelay cfg) [1..f - 1], trim content)) \<and>
   (fallbackExtractCVInfo maxArguments cvText = Inl raised \<longleftrightarrow>
      maxArguments < length (yearMatches cvText) \<and>
      raised = ''Maximum call stack size exceeded'') \<and>
   callOpenAI cfg MockResponses random prompt attempt =
     ([fadd 500 (fmul random 1000)], Inr (generateMockResponse prompt)) \<and>
   requestContent (Inl thrown) = Inl thrown \<and>
   requestContent (Inr answer) =
     (if answer = [] then Inl ''No content received from OpenAI API'' else Inr answer)"
proof -
  have d: "retryDelay cfg attempt
     = min (of_nat (baseDelay cfg) * 2 powi (attempt - 1)) (of_nat (maxDelay cfg))"
    by (simp add: retryDelay_def)
  note dw1 = default_waits [THEN conjunct1]
  note dw2 = default_waits [THEN conjunct2]
  have a: "(\<forall>k. 1 \<le> k \<and> k \<le> max 1 (maxRetries cfg) \<longrightarrow> requestContent (api k) = Inl (msg k)) \<longrightarrow>
      callOpenAI cfg (OpenAI api) random prompt 1 =
        (map (retryDelay cfg) [1..maxRetries cfg - 1],
         Inl (''OpenAI API failed after '' @ showInt (maxRetries cfg) @ '' attempts: '' @
              msg (max 1 (maxRetries cfg)))) \<and>
      production_extractCVInfo cfg (OpenAI api) random parseCV maxArguments cvText =
        (map (retryDelay cfg) [1..maxRetries cfg - 1],
         fallbackExtractCVInfo maxArguments cvText) \<and>
      production_evaluateCVMatch cfg (OpenAI api) random documents JSON_stringify parseMatch
          cvStructured jobContext =
        (case getContextForCVEvaluation documents of
           Inl e \<Rightarrow> ([], Inl e)
         | Inr ragContext \<Rightarrow>
             (map (retryDelay cfg) [1..maxRetries cfg - 1],
              Inr (fallbackEvaluateCV cvStructured))) \<and>
      production_generateCVFeedback cfg (OpenAI api) random numberToString cvStructured
          jobContext matchResult =
        (map (retryDelay cfg) [1..maxRetries cfg - 1],
         fallbackCVFeedback (mr_score matchResult)) \<and>
      production_evaluateProject cfg (OpenAI api) random documents parseProject projectText
          scoringRubric =
        (case getContextForProjectEvaluation documents of
           Inl e \<Rightarrow> ([], Inl e)
         | Inr ragContext \<Rightarrow>
             (map (retryDelay cfg) [1..maxRetries cfg - 1],
              Inr (fallbackEvaluateProject projectText))) \<and>
      production_generateProjectFeedback cfg (OpenAI api) random numberToString projectText
          scoringRubric projectScore =
        (map (retryDelay cfg) [1..maxRetries cfg - 1],
         fallbackProjectFeedback numberToString (pr_overallScore projectScore)) \<and>
      production_generateOverallSummary cfg (OpenAI api) random numberToString cvMatchRate
          cvFeedback projectScore projectFeedback =
        (map (retryDelay cfg) [1..maxRetries cfg - 1],
         fallbackOverallSummary numberToString (mr_score cvMatchRate)
           (pr_overallScore projectScore))"
  proof
    assume h: "\<forall>k. 1 \<le> k \<and> k \<le> max 1 (maxRetries cfg) \<longrightarrow> requestContent (api k) = Inl (msg k)"
    have ex: "callOpenAI cfg (OpenAI api) random p 1 =
        (map (retryDelay cfg) [1..maxRetries cfg - 1],
         Inl (''OpenAI API failed after '' @ showInt (maxRetries cfg) @ '' attempts: '' @
              msg (max 1 (maxRetries cfg))))" for p
      using h by (rule callOpenAI_exhausted)
    note st = stages_after_failure [of cfg "OpenAI api" random, OF ex]
    show "callOpenAI cfg (OpenAI api) random prompt 1 =
        (map (retryDelay cfg) [1..maxRetries cfg - 1],
         Inl (''OpenAI API failed after '' @ showInt (maxRetries cfg) @ '' attempts: '' @
              msg (max 1 (maxRetries cfg)))) \<and>
      production_extractCVInfo cfg (OpenAI api) random parseCV maxArguments cvText =
        (map (retryDelay cfg) [1..maxRetries cfg - 1],
         fallbackExtractCVInfo maxArguments cvText) \<and>
      production_evaluateCVMatch cfg (OpenAI api) random documents JSON_stringify parseMatch
          cvStructured jobContext =
        (case getContextForCVEvaluation documents of
           Inl e \<Rightarrow> ([], Inl e)
         | Inr ragContext \<Rightarrow>
             (map (retryDelay cfg) [1..maxRetries cfg - 1],
              Inr (fallbackEvaluateCV cvStructured))) \<and>
      production_generateCVFeedback cfg (OpenAI api) random numberToString cvStructured
          jobContext matchResult =
        (map (retryDelay cfg) [1..maxRetries cfg - 1],
         fallbackCVFeedback (mr_score matchResult)) \<and>
      production_evaluateProject cfg (OpenAI api) random documents parseProject projectText
          scoringRubric =
        (case getContextForProjectEvaluation documents of
           Inl e \<Rightarrow> ([], Inl e)
         | Inr ragContext \<Rightarrow>
             (map (retryDelay cfg) [1..maxRetries cfg - 1],
              Inr (fallbackEvaluateProject projectText))) \<and>
      production_generateProjectFeedback cfg (OpenAI api) random numberToString projectText
          scoringRubric projectScore =
        (map (retryDelay cfg) [1..maxRetries cfg - 1],
         fallbackProjectFeedback numberToString (pr_overallScore projectScore)) \<and>
      production_generateOverallSummary cfg (OpenAI api) random numberToString cvMatchRate
          cvFeedback projectScore projectFeedback =
        (map (retryDelay cfg) [1..maxRetries cfg - 1],
         fallbackOverallSummary numberToString (mr_score cvMatchRate)
           (pr_overallScore projectScore))"
      by (intro conjI) (rule ex st)+
  qed
  have b: "1 \<le> f \<and> f \<le> max 1 (maxRetries cfg) \<and>
    (\<forall>k. 1 \<le> k \<and> k < f \<longrightarrow> (\<exists>m. requestContent (api k) = Inl m)) \<and>
    requestContent (api f) = Inr content \<longrightarrow>
      callOpenAI cfg (OpenAI api) random prompt 1 = (map (retryDelay cfg) [1..f - 1], Inr content) \<and>
      production_extractCVInfo cfg (OpenAI api) random parseCV maxArguments cvText =
        (map (retryDelay cfg) [1..f - 1],
         case parseCV (trim content) of
           None \<Rightarrow> fallbackExtractCVInfo maxArguments cvText
         | Some parsed \<Rightarrow> Inr parsed) \<and>
      production_evaluateCVMatch cfg (OpenAI api) random documents JSON_stringify parseMatch
          cvStructured jobContext =
        (case getContextForCVEvaluation documents of
           Inl e \<Rightarrow> ([], Inl e)
         | Inr ragContext \<Rightarrow>
             (map (retryDelay cfg) [1..f - 1],
              Inr (case parseMatch (trim content) of
                     None \<Rightarrow> fallbackEvaluateCV cvStructured
                   | Some parsed \<Rightarrow> parsed))) \<and>
      production_generateCVFeedback cfg (OpenAI api) random numberToString cvStructured
          jobContext matchResult =
        (map (retryDelay cfg) [1..f - 1], trim content) \<and>
      production_evaluateProject cfg (OpenAI api) random documents parseProject projectText
          scoringRubric =
        (case getContextForProjectEvaluation documents of
           Inl e \<Rightarrow> ([], Inl e)
         | Inr ragContext \<Rightarrow>
             (map (retryDelay cfg) [1..f - 1],
              Inr (case parseProject (trim content) of
                     None \<Rightarrow> fallbackEvaluateProject projectText
                   | Some parsed \<Rightarrow> parsed))) \<and>
      production_generateProjectFeedback cfg (OpenAI api) random numberToString projectText
          scoringRubric projectScore =
        (map (retryDelay cfg) [1..f - 1], trim content) \<and>
      production_generateOverallSummary cfg (OpenAI api) random numberToString cvMatchRate
          cvFeedback projectScore projectFeedback =
        (map (retryDelay cfg) [1..f - 1], trim content)"
  proof
    assume h: "1 \<le> f \<and> f \<le> max 1 (maxRetries cfg) \<and>
      (\<forall>k. 1 \<le> k \<and> k < f \<longrightarrow> (\<exists>m. requestContent (api k) = Inl m)) \<and>
      requestContent (api f) = Inr content"
    then have h1: "1 \<le> f" and h2: "f \<le> max 1 (maxRetries cfg)"
      and h3: "\<forall>k. 1 \<le> k \<and> k < f \<longrightarrow> (\<exists>m. requestContent (api k) = Inl m)"
      and h4: "requestContent (api f) = Inr content"
      by blast+
    have su: "callOpenAI cfg (OpenAI api) random p 1
                = (map (retryDelay cfg) [1..f - 1], Inr content)" for p
      using h3 h4 h1 h2 by (rule callOpenAI_success)
    note st = stages_after_content [of cfg "OpenAI api" random, OF su]
    show "callOpenAI cfg (OpenAI api) random prompt 1 = (map (retryDelay cfg) [1..f - 1], Inr content) \<and>
      production_extractCVInfo cfg (OpenAI api) random parseCV maxArguments cvText =
        (map (retryDelay cfg) [1..f - 1],
         case parseCV (trim content) of
           None \<Rightarrow> fallbackExtractCVInfo maxArguments cvText
         | Some parsed \<Rightarrow> Inr parsed) \<and>
      production_evaluateCVMatch cfg (OpenAI api) random documents JSON_stringify parseMatch
          cvStructured jobContext =
        (case getContextForCVEvaluation documents of
           Inl e \<Rightarrow> ([], Inl e)
         | Inr ragContext \<Rightarrow>
             (map (retryDelay cfg) [1..f - 1],
              Inr (case parseMatch (trim content) of
                     None \<Rightarrow> fallbackEvaluateCV cvStructured
                   | Some parsed \<Rightarrow> parsed))) \<and>
      production_generateCVFeedback cfg (OpenAI api) random numberToString cvStructured
          jobContext matchResult =
        (map (retryDelay cfg) [1..f - 1], trim content) \<and>
      production_evaluateProject cfg (OpenAI api) random documents parseProject projectText
          scoringRubric =
        (case getContextForProjectEvaluation documents of
           Inl e \<Rightarrow> ([], Inl e)
         | Inr ragContext \<Rightarrow>
             (map (retryDelay cfg) [1..f - 1],
              Inr (case parseProject (trim content) of
                     None \<Rightarrow> fallbackEvaluateProject projectText
                   | Some parsed \<Rightarrow> parsed))) \<and>
      production_generateProjectFeedback cfg (OpenAI api) random numberToString projectText
          scoringRubric projectScore =
        (map (retryDelay cfg) [1..f - 1], trim content) \<and>
      production_generateOverallSummary cfg (OpenAI api) random numberToString cvMatchRate
          cvFeedback projectScore projectFeedback =
        (map (retryDelay cfg) [1..f - 1], trim content)"
      by (intro conjI) (rule su st)+
  qed
  note c = fallbackExtractCVInfo_Inl [of maxArguments cvText raised]
  have mk: "callOpenAI cfg MockResponses random prompt attempt =
     ([fadd 500 (fmul random 1000)], Inr (generateMockResponse prompt))"
    by (subst callOpenAI.simps) simp
  show ?thesis
    apply (rule conjI)
     apply (rule d)
    apply (rule conjI)
     apply (rule dw1)
    apply (rule conjI)
     apply (rule dw2)
    apply (rule conjI)
     apply (rule a)
    apply (rule conjI)
     apply (rule b)
    apply (rule conjI)
     apply (rule c)
    apply (rule conjI)
     apply (rule mk)
    apply (simp add: requestContent_def)
    done
qed

theorem retry_backoff_fallback_witness:
  "requestContent (timeout_api 1) = Inl ''Request timed out.'' \<and>
   requestContent (timeout_api 2) = Inl ''Request timed out.'' \<and>
   requestContent (timeout_api 3) = Inl ''Request timed out.'' \<and>
   callOpenAI (retryConfig NaN) (OpenAI timeout_api) 0 ''Hello'' 1 =
     ([1000, 2000], Inl ''OpenAI API failed after 3 attempts: Request timed out.'') \<and>
   production_generateCVFeedback (retryConfig NaN) (OpenAI timeout_api) 0 (\<lambda>x. ''?'') example_cv
       ''Backend developer role''
       \<lparr> mr_technical_skills = 1, mr_experience_level = 5, mr_achievements = 3,
         mr_cultural_fit = 3, mr_score = 54 \<rparr> =
     ([1000, 2000],
      ''Solid technical background with 54% alignment to role requirements. Good foundation for backend development. Consider developing additional AI/LLM integration skills.'') \<and>
   production_evaluateProject (retryConfig NaN) (OpenAI timeout_api) 0 example_documents
       (\<lambda>s. None) ''retry'' ''Evaluate based on correctness'' =
     ([1000, 2000],
      Inr \<lparr> pr_correctness = 3, pr_code_quality = 3, pr_resilience = 3, pr_documentation = 4,
            pr_creativity = 3, pr_overallScore = rd (32 / 10) \<rparr>) \<and>
   requestContent (flaky_api 1) = Inl ''Request timed out.'' \<and>
   requestContent (flaky_api 2) = Inr '' Good fit. '' \<and>
   callOpenAI (retryConfig NaN) (OpenAI flaky_api) 0 ''Hello'' 1 = ([1000], Inr '' Good fit. '') \<and>
   production_generateCVFeedback (retryConfig NaN) (OpenAI flaky_api) 0 (\<lambda>x. ''?'') example_cv
       ''Backend developer role''
       \<lparr> mr_technical_skills = 1, mr_experience_level = 5, mr_achievements = 3,
         mr_cultural_fit = 3, mr_score = 54 \<rparr> =
     ([1000], ''Good fit.'')"
proof -
  define mr where "mr = \<lparr> mr_technical_skills = 1, mr_experience_level = 5, mr_achievements = 3,
         mr_cultural_fit = 3, mr_score = 54 \<rparr>"
  have m3: "max 1 (maxRetries (retryConfig NaN)) = 3" "maxRetries (retryConfig NaN) = 3"
    by (simp_all add: retryConfig_def)
  have r1: "requestContent (timeout_api k) = Inl ''Request timed out.''" for k
    by (simp add: requestContent_def timeout_api_def)
  have h: "\<forall>k. 1 \<le> k \<and> k \<le> max 1 (maxRetries (retryConfig NaN)) \<longrightarrow>
        requestContent (timeout_api k) = Inl ''Request timed out.''"
    using r1 by blast
  have s3: "showInt 3 = ''3''" by code_simp
  have s54: "showInt 54 = ''54''" by code_simp
  have ctx: "\<exists>reqs. getContextForProjectEvaluation example_documents = Inr reqs"
    by (simp add: getContextForProjectEvaluation_def getJobRequirements_def getScoringRubric_def
        example_documents_def findRelevantChunks_def js_sort_def extractTechnicalRequirements_def
        extractBulletPoints_def split_on_def Let_def)
  note t1 = retry_backoff_fallback
    [where cfg = "retryConfig NaN" and api = timeout_api and msg = "\<lambda>k. ''Request timed out.''"
       and random = 0 and prompt = "''Hello''" and numberToString = "\<lambda>x. ''?''"
       and cvStructured = example_cv and jobContext = "''Backend developer role''"
       and matchResult = mr and documents = example_documents
       and parseProject = "\<lambda>s. None" and projectText = "''retry''"
       and scoringRubric = "''Evaluate based on correctness''"]
  note w = t1 [THEN conjunct2, THEN conjunct2, THEN conjunct1]
  note e1 = t1 [THEN conjunct2, THEN conjunct2, THEN conjunct2, THEN conjunct1, THEN mp, OF h]
  have s: "showInt (maxRetries (retryConfig NaN)) = ''3''"
    using s3 by (simp add: retryConfig_def)
  have c1: "callOpenAI (retryConfig NaN) (OpenAI timeout_api) 0 ''Hello'' 1 =
     ([1000, 2000], Inl ''OpenAI API failed after 3 attempts: Request timed out.'')"
    using e1 [THEN conjunct1] unfolding w s by simp
  have c2: "production_generateCVFeedback (retryConfig NaN) (OpenAI timeout_api) 0 (\<lambda>x. ''?'')
       example_cv ''Backend developer role'' mr =
     ([1000, 2000],
      ''Solid technical background with 54% alignment to role requirements. Good foundation for backend development. Consider developing additional AI/LLM integration skills.'')"
    using e1 [THEN conjunct2, THEN conjunct2, THEN conjunct2, THEN conjunct1]
    unfolding w by (simp add: fallbackCVFeedback_def mr_def s54)
  have c3: "production_evaluateProject (retryConfig NaN) (OpenAI timeout_api) 0 example_documents
       (\<lambda>s. None) ''retry'' ''Evaluate based on correctness'' =
     ([1000, 2000],
      Inr \<lparr> pr_correctness = 3, pr_code_quality = 3, pr_resilience = 3, pr_documentation = 4,
            pr_creativity = 3, pr_overallScore = rd (32 / 10) \<rparr>)"
    using e1 [THEN conjunct2, THEN conjunct2, THEN conjunct2, THEN conjunct2, THEN conjunct1] ctx
    unfolding w by (auto simp: fallbackEvaluateProject_def)
  have f1: "requestContent (flaky_api 1) = Inl ''Request timed out.''"
    and f2: "requestContent (flaky_api 2) = Inr '' Good fit. ''"
    by (simp_all add: requestContent_def flaky_api_def)
  have hs: "1 \<le> (2::int) \<and> 2 \<le> max 1 (maxRetries (retryConfig NaN)) \<and>
    (\<forall>k. 1 \<le> k \<and> k < 2 \<longrightarrow> (\<exists>m. requestContent (flaky_api k) = Inl m)) \<and>
    requestContent (flaky_api 2) = Inr '' Good fit. ''"
    unfolding m3 by (simp add: requestContent_def flaky_api_def)
  note t2 = retry_backoff_fallback
    [where cfg = "retryConfig NaN" and api = flaky_api and f = 2 and content = "'' Good fit. ''"
       and random = 0 and prompt = "''Hello''" and numberToString = "\<lambda>x. ''?''"
       and cvStructured = example_cv and jobContext = "''Backend developer role''"
       and matchResult = mr]
  note e2 = t2 [THEN conjunct2, THEN conjunct2, THEN conjunct2, THEN conjunct2, THEN conjunct1,
                THEN mp, OF hs]
  have one: "map (retryDelay (retryConfig NaN)) [1..2 - 1] = [1000]"
    by (simp add: retryDelay_def retryConfig_def)
  have c4: "callOpenAI (retryConfig NaN) (OpenAI flaky_api) 0 ''Hello'' 1
              = ([1000], Inr '' Good fit. '')"
    using e2 [THEN conjunct1] unfolding one .
  have tr: "trim '' Good fit. '' = ''Good fit.''"
    by (simp add: trim_def isSpace_def)
  have c5: "production_generateCVFeedback (retryConfig NaN) (OpenAI flaky_api) 0 (\<lambda>x. ''?'')
       example_cv ''Backend developer role'' mr = ([1000], ''Good fit.'')"
    using e2 [THEN conjunct2, THEN conjunct2, THEN conjunct2, THEN conjunct1]
    unfolding one tr .
  from r1 [of 1] r1 [of 2] r1 [of 3] c1 c2 c3 f1 f2 c4 c5 show ?thesis
    unfolding mr_def by (intro conjI)
qed

text \<open>
  The claim as written has three waits, 1000, 2000 and 4000, and a fallback value returned
  by the wrapper. With the default configuration and a provider that fails every time,
  \<open>callOpenAI\<close> waits twice, 1000 and 2000, and raises after the third attempt.
\<close>

theorem retry_delays_counterexample:
  "fst (callOpenAI (retryConfig NaN) (OpenAI timeout_api) 0 ''Hello'' 1) = [1000, 2000] \<and>
   fst (callOpenAI (retryConfig NaN) (OpenAI timeout_api) 0 ''Hello'' 1) \<noteq> [1000, 2000, 4000] \<and>
   snd (callOpenAI (retryConfig NaN) (OpenAI timeout_api) 0 ''Hello'' 1)
     = Inl ''OpenAI API failed after 3 attempts: Request timed out.''"
proof -
  have h: "\<forall>k. 1 \<le> k \<and> k \<le> max 1 (maxRetries (retryConfig NaN)) \<longrightarrow>
        requestContent (timeout_api k) = Inl ((\<lambda>k. ''Request timed out.'') k)"
    by (simp add: requestContent_def timeout_api_def)
  have s3: "showInt 3 = ''3''" by code_simp
  have s: "showInt (maxRetries (retryConfig NaN)) = ''3''"
    using s3 by (simp add: retryConfig_def)
  have m: "max 1 (maxRetries (retryConfig NaN)) = 3" by (simp add: retryConfig_def)
  note e = callOpenAI_exhausted [OF h, of 0 "''Hello''"]
  have "callOpenAI (retryConfig NaN) (OpenAI timeout_api) 0 ''Hello'' 1 =
          ([1000, 2000], Inl ''OpenAI API failed after 3 attempts: Request timed out.'')"
    using e unfolding default_waits [THEN conjunct2] s by simp
  then show ?thesis by simp
qed

end
